(* ===== verification/Prelude.thy ===== *)
theory Prelude
  imports Complex_Main "HOL-Library.Multiset"
begin

text \<open>
  Shared vocabulary of the GuardAid development: the JavaScript values that reach the
  MySQL driver (\<open>undefined\<close>, \<open>null\<close> or a value), the errors of the store that the
  Express handlers turn into an HTTP 500 answer, the \<open>||\<close> defaulting of
  \<^verbatim>\<open>src/backend/server.js\<close>, and generic lemmas on counting and list update
  that the component theories share.
\<close>

named_theorems sql_simps "unfolding rules of the SQL statement models"
named_theorems inv_simps "unfolding rules of the store invariants"

section \<open>JavaScript values handed to the MySQL driver\<close>

text \<open>
  A field of a JSON request body is missing (\<open>undefined\<close>), \<open>null\<close> or a value.
  The \<^verbatim>\<open>mysql2\<close> driver refuses an \<open>execute\<close> whose bind parameters contain
  \<open>undefined\<close>; \<open>null\<close> becomes SQL \<open>NULL\<close>, which a \<open>NOT NULL\<close> column rejects.
\<close>

datatype 'a js_value = JsUndefined | JsNull | JsVal 'a

datatype sql_error =
    BindUndefined      \<comment> \<open>driver: bind parameters must not contain undefined\<close>
  | NotNullViolation   \<comment> \<open>ER_BAD_NULL_ERROR\<close>
  | DuplicateKey       \<comment> \<open>ER_DUP_ENTRY on a PRIMARY or UNIQUE key\<close>
  | ForeignKeyViolation \<comment> \<open>ER_NO_REFERENCED_ROW\<close>
  | DataTooLong        \<comment> \<open>ER_DATA_TOO_LONG: a string longer than its VARCHAR or TEXT column\<close>
  | OutOfRange         \<comment> \<open>ER_WARN_DATA_OUT_OF_RANGE: a number outside its DECIMAL or INT column\<close>

fun is_undefined :: "'a js_value \<Rightarrow> bool" where
  "is_undefined JsUndefined = True"
| "is_undefined _ = False"

fun js_val :: "'a js_value \<Rightarrow> 'a option" where
  "js_val (JsVal v) = Some v"
| "js_val _ = None"

text \<open>\<open>x || d\<close> on a string: \<open>undefined\<close>, \<open>null\<close> and \<open>''''\<close> are falsy.\<close>

fun js_or :: "string js_value \<Rightarrow> string \<Rightarrow> string" where
  "js_or (JsVal s) d = (if s = [] then d else s)"
| "js_or _ d = d"

section \<open>Column types of the schema\<close>

text \<open>
  The server runs MySQL in its default strict mode: a value that does not fit its column
  is an error, not a silent truncation. \<open>DECIMAL(p, s)\<close> rounds to \<open>s\<close>
  decimals, half away from zero, and holds values below \<open>10 ^ (p - s)\<close> in absolute
  value; \<open>VARCHAR(n)\<close> holds at most \<open>n\<close> characters, \<open>TEXT\<close> 65535 bytes,
  \<open>INT\<close> a 32-bit signed value. Strings are byte lists here, so the character
  count is exact for ASCII text.
\<close>

definition decimal_round :: "nat \<Rightarrow> real \<Rightarrow> real" where
  "decimal_round s x = sgn x * of_int \<lfloor>\<bar>x\<bar> * 10 ^ s + 1 / 2\<rfloor> / 10 ^ s"

definition decimal_fits :: "nat \<Rightarrow> nat \<Rightarrow> real \<Rightarrow> bool" where
  "decimal_fits p s x \<longleftrightarrow> \<bar>decimal_round s x\<bar> < 10 ^ (p - s)"

definition varchar_fits :: "nat \<Rightarrow> string \<Rightarrow> bool" where
  "varchar_fits n str \<longleftrightarrow> length str \<le> n"

definition text_fits :: "string option \<Rightarrow> bool" where
  "text_fits d \<longleftrightarrow> (case d of None \<Rightarrow> True | Some str \<Rightarrow> length str \<le> 65535)"

definition int_fits :: "int \<Rightarrow> bool" where
  "int_fits i \<longleftrightarrow> - (2 ^ 31) \<le> i \<and> i < 2 ^ 31"

lemma js_or_nonempty [simp]: "d \<noteq> [] \<Longrightarrow> js_or x d \<noteq> []"
  by (cases x) auto

lemma js_val_Some_iff [simp]: "js_val x = Some v \<longleftrightarrow> x = JsVal v"
  by (cases x) auto

lemma js_val_None_iff: "js_val x = None \<longleftrightarrow> x = JsUndefined \<or> x = JsNull"
  by (cases x) auto

lemma not_undefined_cases:
  "\<not> is_undefined x \<Longrightarrow> x = JsNull \<or> (\<exists>v. x = JsVal v)"
  by (cases x) auto

section \<open>Counting rows\<close>

text \<open>\<open>COUNT(CASE WHEN p THEN 1 END)\<close> over a table is the length of a filter.\<close>

lemma length_filter_map_id:
  assumes "\<And>x. x \<in> set xs \<Longrightarrow> P (f x) = P x"
  shows "length (filter P (map f xs)) = length (filter P xs)"
  using assms by (induction xs) auto

lemma length_filter_append_single [simp]:
  "length (filter P (xs @ [x])) = length (filter P xs) + (if P x then 1 else 0)"
  by simp

lemma length_filter_map_upd_one:
  assumes "distinct (map k xs)"
  and "\<And>x. k (f x) = k x"
  and "\<And>x. k x \<noteq> a \<Longrightarrow> P (f x) = P x"
  shows "length (filter P (map (\<lambda>x. if k x = a then f x else x) xs)) =
           length (filter (\<lambda>x. k x \<noteq> a \<and> P x) xs)
         + length (filter (\<lambda>x. k x = a \<and> P (f x)) xs)"
  using assms by (induction xs) auto

section \<open>Keyed lists\<close>

text \<open>
  A table with a primary or unique key is a list of rows whose keys are distinct.
  Updating the rows of one key keeps the key column when the update keeps each key.
\<close>

lemma map_keep_key [simp]:
  assumes "\<And>x. k (f x) = k x"
  shows "map k (map (\<lambda>x. if P x then f x else x) xs) = map k xs"
  using assms by (induction xs) auto

lemma comp_keep_key [simp]:
  assumes "\<And>x. k (f x) = k x"
  shows "k \<circ> (\<lambda>x. if P x then f x else x) = k"
  using assms by (auto simp: fun_eq_iff)

lemma distinct_map_keep_key [simp]:
  assumes "\<And>x. k (f x) = k x"
  shows "distinct (map k (map (\<lambda>x. if P x then f x else x) xs)) = distinct (map k xs)"
  by (simp only: map_keep_key [of k f, OF assms])

lemma set_map_keep_key:
  assumes "\<And>x. k (f x) = k x"
  shows "k ` set (map (\<lambda>x. if P x then f x else x) xs) = k ` set xs"
  by (metis list.set_map map_keep_key [of k f, OF assms])

lemma list_ex_key_iff: "list_ex (\<lambda>x. k x = a) xs \<longleftrightarrow> a \<in> k ` set xs"
  by (auto simp: list_ex_iff)

section \<open>Rounding of DECIMAL columns\<close>

text \<open>A value read back from a \<open>DECIMAL(p, s)\<close> column is within half a unit of the last decimal.\<close>

lemma decimal_round_error:
  "\<bar>decimal_round s x - x\<bar> \<le> 1 / (2 * 10 ^ s)"
proof -
  define p :: real where "p = 10 ^ s"
  define y where "y = \<bar>x\<bar> * p"
  define f :: real where "f = of_int \<lfloor>y + 1 / 2\<rfloor>"
  have p: "0 < p" by (simp add: p_def)
  have f1: "f \<le> y + 1 / 2" unfolding f_def by (rule of_int_floor_le)
  have f2: "y + 1 / 2 < f + 1" unfolding f_def by (rule real_of_int_floor_add_one_gt)
  have fl: "\<bar>f - y\<bar> \<le> 1 / 2" using f1 f2 by linarith
  have eq: "f / p - \<bar>x\<bar> = (f - y) / p" using p by (simp add: y_def diff_divide_distrib)
  have "\<bar>(f - y) / p\<bar> = \<bar>f - y\<bar> / p" using p by (simp add: abs_divide)
  also have "\<dots> \<le> (1 / 2) / p" using fl p by (rule divide_right_mono [OF _ less_imp_le])
  finally have main: "\<bar>f / p - \<bar>x\<bar>\<bar> \<le> 1 / (2 * p)" using eq by simp
  have dr: "decimal_round s x = sgn x * f / p" by (simp add: decimal_round_def f_def y_def p_def)
  show ?thesis
  proof (cases "x < 0")
    case True
    then have "decimal_round s x - x = - (f / p - \<bar>x\<bar>)" using dr by simp
    then show ?thesis using main by (simp add: p_def)
  next
    case False
    then show ?thesis
    proof (cases "x = 0")
      case True
      then show ?thesis by (simp add: decimal_round_def)
    next
      case False
      with \<open>\<not> x < 0\<close> have "decimal_round s x - x = f / p - \<bar>x\<bar>" using dr by simp
      then show ?thesis using main by (simp add: p_def)
    qed
  qed
qed
end
