(* ===== verification/Incidents.thy ===== *)
theory Incidents
  imports Prelude
begin

text \<open>
  The incident tables of \<^verbatim>\<open>src/backend/server.js\<close> and the four incident routes:
  \<open>POST /api/incidents\<close> (report), \<open>POST /api/incidents/:id/action\<close> (volunteer
  disposition: upsert of the approval row, then the quorum update),
  \<open>GET /api/incidents\<close> and \<open>GET /api/incidents/pending\<close>.
  The store is a record of two tables, each a list of rows in insertion order; a
  handler takes the request time \<open>now\<close> (the value of \<open>CURRENT_TIMESTAMP\<close>), the
  request and the store, and returns the new store or the SQL error that the handler's
  \<open>catch\<close> turns into an HTTP 500 answer.
\<close>

section \<open>Schema\<close>

text \<open>The values the code writes into \<open>incidents.status\<close>.\<close>

datatype status = Pending | Approved | Rejected | Resolved

record incident =
  inc_id :: string
  inc_type :: string
  inc_lat :: real
  inc_lng :: real
  inc_description :: "string option"
  inc_severity :: string
  inc_status :: status
  inc_reporter :: string
  inc_approved_by :: "string option"
  inc_resolved_by :: "string option"
  inc_created :: nat
  inc_updated :: nat

record approval =
  ap_incident :: string
  ap_volunteer :: string
  ap_action :: string
  ap_comment :: "string option"

record incident_db =
  incidents :: "incident list"
  approvals :: "approval list"

definition ap_key :: "approval \<Rightarrow> string \<times> string" where
  "ap_key r = (ap_incident r, ap_volunteer r)"

section \<open>Reporting an incident\<close>

record incident_req =
  rq_id :: "string js_value"
  rq_type :: "string js_value"
  rq_lat :: "real js_value"
  rq_lng :: "real js_value"
  rq_description :: "string js_value"
  rq_severity :: "string js_value"
  rq_reporter :: "string js_value"

text \<open>
  \<open>INSERT INTO incidents (...) VALUES (...)\<close> with \<open>severity || 'medium'\<close>,
  \<open>reporterId || 'anonymous'\<close> and status \<open>'pending'\<close>; \<open>approved_by\<close> and
  \<open>resolved_by\<close> take their default \<open>NULL\<close>, both timestamps the current time.
  The columns: \<open>id VARCHAR(50)\<close>, \<open>type VARCHAR(20)\<close>, \<open>lat DECIMAL(10,8)\<close>,
  \<open>lng DECIMAL(11,8)\<close>, \<open>description TEXT\<close>, \<open>severity VARCHAR(10)\<close>,
  \<open>reporter_id VARCHAR(50)\<close>.
\<close>

definition create_incident :: "nat \<Rightarrow> incident_req \<Rightarrow> incident_db \<Rightarrow> sql_error + incident_db" where
  "create_incident now rq db =
     (if is_undefined (rq_id rq) \<or> is_undefined (rq_type rq) \<or> is_undefined (rq_lat rq)
         \<or> is_undefined (rq_lng rq) \<or> is_undefined (rq_description rq)
      then Inl BindUndefined
      else case (js_val (rq_id rq), js_val (rq_type rq), js_val (rq_lat rq), js_val (rq_lng rq)) of
        (Some i, Some t, Some la, Some lo) \<Rightarrow>
          let d = js_val (rq_description rq);
              sev = js_or (rq_severity rq) ''medium'';
              rep = js_or (rq_reporter rq) ''anonymous''
          in if \<not> (varchar_fits 50 i \<and> varchar_fits 20 t \<and> text_fits d \<and> varchar_fits 10 sev
                    \<and> varchar_fits 50 rep) then Inl DataTooLong
          else if \<not> (decimal_fits 10 8 la \<and> decimal_fits 11 8 lo) then Inl OutOfRange
          else if list_ex (\<lambda>x. inc_id x = i) (incidents db) then Inl DuplicateKey
          else Inr (db\<lparr>incidents := incidents db @
                 [\<lparr>inc_id = i, inc_type = t, inc_lat = decimal_round 8 la, inc_lng = decimal_round 8 lo,
                   inc_description = d, inc_severity = sev, inc_status = Pending, inc_reporter = rep,
                   inc_approved_by = None, inc_resolved_by = None,
                   inc_created = now, inc_updated = now\<rparr>]\<rparr>)
      | _ \<Rightarrow> Inl NotNullViolation)"

section \<open>Volunteer action\<close>

record action_req =
  rq_action :: "string js_value"
  rq_volunteer :: "string js_value"
  rq_comment :: "string js_value"

text \<open>
  \<open>INSERT INTO incident_approvals ... ON DUPLICATE KEY UPDATE action, comment\<close>:
  the row of the key \<open>(incident_id, volunteer_id)\<close> is overwritten if it exists,
  appended otherwise.
\<close>

definition upsert_approval ::
  "string \<Rightarrow> string \<Rightarrow> string \<Rightarrow> string option \<Rightarrow> approval list \<Rightarrow> approval list" where
  "upsert_approval iid vid act c aps =
     (if list_ex (\<lambda>r. ap_key r = (iid, vid)) aps
      then map (\<lambda>r. if ap_key r = (iid, vid) then r\<lparr>ap_action := act, ap_comment := c\<rparr> else r) aps
      else aps @ [\<lparr>ap_incident = iid, ap_volunteer = vid, ap_action = act, ap_comment = c\<rparr>])"

text \<open>
  The columns of an approval row: \<open>incident_id\<close> and \<open>volunteer_id VARCHAR(50)\<close>,
  \<open>action VARCHAR(20)\<close>, \<open>comment TEXT\<close>.
\<close>

definition approval_fits :: "string \<Rightarrow> string \<Rightarrow> string \<Rightarrow> string option \<Rightarrow> bool" where
  "approval_fits iid vid act c \<longleftrightarrow>
     varchar_fits 50 iid \<and> varchar_fits 50 vid \<and> varchar_fits 20 act \<and> text_fits c"

text \<open>\<open>COUNT(CASE WHEN action = a THEN 1 END) ... WHERE incident_id = ?\<close>.\<close>

definition count_action :: "string \<Rightarrow> string \<Rightarrow> approval list \<Rightarrow> nat" where
  "count_action iid a aps = length (filter (\<lambda>r. ap_incident r = iid \<and> ap_action r = a) aps)"

text \<open>
  \<open>UPDATE incidents SET ... WHERE id = ?\<close>: no matching row is no error; the column
  \<open>updated_at ... ON UPDATE CURRENT_TIMESTAMP\<close> moves only when a value changes.
\<close>

definition touch_incident :: "nat \<Rightarrow> incident \<Rightarrow> incident \<Rightarrow> incident" where
  "touch_incident now old new = (if new = old then old else new\<lparr>inc_updated := now\<rparr>)"

definition update_incident :: "string \<Rightarrow> (incident \<Rightarrow> incident) \<Rightarrow> nat \<Rightarrow> incident list \<Rightarrow> incident list" where
  "update_incident iid f now =
     map (\<lambda>x. if inc_id x = iid then touch_incident now x (f x) else x)"

definition quorum :: nat where
  "quorum = 3"

text \<open>
  The status update after the upsert (lines 295--326): \<open>resolve\<close> sets the status and
  \<open>resolved_by\<close>; any other action recounts the approvals and rejections of the
  incident and, at a quorum, runs the approving or the rejecting \<open>UPDATE\<close>; without a
  quorum no statement runs, which is the identity update.
\<close>

definition status_update :: "string \<Rightarrow> string \<Rightarrow> string \<Rightarrow> approval list \<Rightarrow> incident \<Rightarrow> incident" where
  "status_update iid vid act aps =
     (if act = ''resolve'' then (\<lambda>x. x\<lparr>inc_status := Resolved, inc_resolved_by := Some vid\<rparr>)
      else if quorum \<le> count_action iid ''approve'' aps
      then (\<lambda>x. x\<lparr>inc_status := Approved, inc_approved_by := Some vid\<rparr>)
      else if quorum \<le> count_action iid ''reject'' aps then (\<lambda>x. x\<lparr>inc_status := Rejected\<rparr>)
      else (\<lambda>x. x))"

definition incident_action ::
  "nat \<Rightarrow> string \<Rightarrow> action_req \<Rightarrow> incident_db \<Rightarrow> sql_error + incident_db" where
  "incident_action now iid rq db =
     (if is_undefined (rq_action rq) \<or> is_undefined (rq_volunteer rq) \<or> is_undefined (rq_comment rq)
      then Inl BindUndefined
      else case (js_val (rq_action rq), js_val (rq_volunteer rq)) of
        (Some act, Some vid) \<Rightarrow>
          if \<not> approval_fits iid vid act (js_val (rq_comment rq)) then Inl DataTooLong
          else if \<not> list_ex (\<lambda>x. inc_id x = iid) (incidents db) then Inl ForeignKeyViolation
          else
            let aps = upsert_approval iid vid act (js_val (rq_comment rq)) (approvals db)
            in Inr (db\<lparr>approvals := aps,
                       incidents := update_incident iid (status_update iid vid act aps) now (incidents db)\<rparr>)
      | _ \<Rightarrow> Inl NotNullViolation)"

section \<open>Listing incidents\<close>

text \<open>
  \<open>ORDER BY i.created_at DESC\<close>; rows with equal timestamps keep their insertion
  order here (MySQL leaves their order open, so this is one of its allowed answers).
\<close>

definition newest_first :: "incident list \<Rightarrow> incident list" where
  "newest_first xs = sort_key (\<lambda>x. - int (inc_created x)) xs"

record incident_row =
  row_id :: string
  row_type :: string
  row_lat :: real
  row_lng :: real
  row_description :: "string option"
  row_severity :: string
  row_status :: status
  row_reporter :: string
  row_approved_by :: "string option"
  row_resolved_by :: "string option"
  row_approval_count :: nat
  row_rejection_count :: nat
  row_timestamp :: nat
  row_updated :: nat

definition list_incidents :: "incident_db \<Rightarrow> incident_row list" where
  "list_incidents db =
     map (\<lambda>x. \<lparr>row_id = inc_id x, row_type = inc_type x, row_lat = inc_lat x, row_lng = inc_lng x,
               row_description = inc_description x, row_severity = inc_severity x,
               row_status = inc_status x, row_reporter = inc_reporter x,
               row_approved_by = inc_approved_by x, row_resolved_by = inc_resolved_by x,
               row_approval_count = count_action (inc_id x) ''approve'' (approvals db),
               row_rejection_count = count_action (inc_id x) ''reject'' (approvals db),
               row_timestamp = inc_created x, row_updated = inc_updated x\<rparr>)
       (newest_first (incidents db))"

record pending_row =
  prow_id :: string
  prow_type :: string
  prow_lat :: real
  prow_lng :: real
  prow_description :: "string option"
  prow_severity :: string
  prow_status :: status
  prow_reporter :: string
  prow_approval_count :: nat
  prow_rejection_count :: nat
  prow_timestamp :: nat

definition list_pending :: "incident_db \<Rightarrow> pending_row list" where
  "list_pending db =
     map (\<lambda>x. \<lparr>prow_id = inc_id x, prow_type = inc_type x, prow_lat = inc_lat x,
               prow_lng = inc_lng x, prow_description = inc_description x,
               prow_severity = inc_severity x, prow_status = inc_status x,
               prow_reporter = inc_reporter x,
               prow_approval_count = count_action (inc_id x) ''approve'' (approvals db),
               prow_rejection_count = count_action (inc_id x) ''reject'' (approvals db),
               prow_timestamp = inc_created x\<rparr>)
       (newest_first (filter (\<lambda>x. inc_status x = Pending) (incidents db)))"

section \<open>Lemmas on the statements\<close>

lemma ap_key_upd [simp]: "ap_key (r\<lparr>ap_action := a, ap_comment := c\<rparr>) = ap_key r"
  by (simp add: ap_key_def)

lemma ap_key_new [simp]:
  "ap_key \<lparr>ap_incident = i, ap_volunteer = v, ap_action = a, ap_comment = c\<rparr> = (i, v)"
  by (simp add: ap_key_def)

lemma ap_incident_key: "ap_incident r = fst (ap_key r)"
  by (simp add: ap_key_def)

lemma distinct_upsert_approval:
  "distinct (map ap_key aps) \<Longrightarrow> distinct (map ap_key (upsert_approval iid vid act c aps))"
  by (auto simp: upsert_approval_def list_ex_key_iff)

lemma keys_upsert_approval:
  "ap_key ` set (upsert_approval iid vid act c aps) = insert (iid, vid) (ap_key ` set aps)"
proof (cases "list_ex (\<lambda>r. ap_key r = (iid, vid)) aps")
  case True
  then have "ap_key ` set (upsert_approval iid vid act c aps) = ap_key ` set aps"
    unfolding upsert_approval_def by (simp only: if_True set_map_keep_key ap_key_upd)
  with True show ?thesis by (auto simp: list_ex_key_iff)
next
  case False
  then show ?thesis by (simp add: upsert_approval_def)
qed

lemma count_action_Cons:
  "count_action iid a (r # rs) =
     (if ap_incident r = iid \<and> ap_action r = a then Suc (count_action iid a rs) else count_action iid a rs)"
  by (simp add: count_action_def)

lemma touch_incident_fields [simp]:
  "inc_id (touch_incident now x y) = inc_id y"
  "inc_status (touch_incident now x y) = inc_status y"
  "inc_approved_by (touch_incident now x y) = inc_approved_by y"
  "inc_resolved_by (touch_incident now x y) = inc_resolved_by y"
  "inc_created (touch_incident now x y) = inc_created y"
  by (auto simp: touch_incident_def)

lemma update_incident_ids [simp]:
  "(\<And>x. inc_id (f x) = inc_id x) \<Longrightarrow> map inc_id (update_incident iid f now xs) = map inc_id xs"
  by (induction xs) (auto simp: update_incident_def)

lemma find_update_incident_same:
  assumes "\<And>x. inc_id (f x) = inc_id x"
  shows "find (\<lambda>x. inc_id x = iid) (update_incident iid f now xs) =
           map_option (\<lambda>x. touch_incident now x (f x)) (find (\<lambda>x. inc_id x = iid) xs)"
  using assms by (induction xs) (auto simp: update_incident_def)

lemma find_update_incident_other:
  assumes "\<And>x. inc_id (f x) = inc_id x" and "iid' \<noteq> iid"
  shows "find (\<lambda>x. inc_id x = iid') (update_incident iid f now xs) = find (\<lambda>x. inc_id x = iid') xs"
  using assms by (induction xs) (auto simp: update_incident_def)

lemma set_update_incident:
  "x' \<in> set (update_incident iid f now xs) \<Longrightarrow>
     (\<exists>x \<in> set xs. (inc_id x = iid \<and> x' = touch_incident now x (f x)) \<or> (inc_id x \<noteq> iid \<and> x' = x))"
  by (auto simp: update_incident_def)

end
