(* ===== verification/Quorum.thy ===== *)
theory Quorum
  imports Incidents
begin

text \<open>
  The contract of the approval quorum and the proof that the SQL-level handler
  \<^const>\<open>incident_action\<close> implements it. Abstractly an incident is its status, the
  map from each volunteer to the last action that volunteer recorded, and the two
  \<open>_by\<close> columns; one action overwrites the acting volunteer's entry and counts votes
  as numbers of distinct volunteers (\<open>votes_count\<close>). The abstraction
  \<open>abs_of\<close> reads this state off the two tables of the store.
\<close>

section \<open>Abstraction of the tables\<close>

definition lookup_incident :: "string \<Rightarrow> incident_db \<Rightarrow> incident option" where
  "lookup_incident iid db = find (\<lambda>x. inc_id x = iid) (incidents db)"

definition votes_of :: "string \<Rightarrow> approval list \<Rightarrow> string \<Rightarrow> string option" where
  "votes_of iid aps v = map_option ap_action (find (\<lambda>r. ap_key r = (iid, v)) aps)"

record incident_abs =
  a_status :: status
  a_votes :: "string \<Rightarrow> string option"
  a_approved_by :: "string option"
  a_resolved_by :: "string option"

definition abs_of :: "string \<Rightarrow> incident_db \<Rightarrow> incident_abs option" where
  "abs_of iid db =
     map_option (\<lambda>x. \<lparr>a_status = inc_status x, a_votes = votes_of iid (approvals db),
                      a_approved_by = inc_approved_by x, a_resolved_by = inc_resolved_by x\<rparr>)
       (lookup_incident iid db)"

section \<open>The abstract action\<close>

definition votes_count :: "(string \<Rightarrow> string option) \<Rightarrow> string \<Rightarrow> nat" where
  "votes_count m a = card {v. m v = Some a}"

definition abs_act :: "string \<Rightarrow> string \<Rightarrow> incident_abs \<Rightarrow> incident_abs" where
  "abs_act vid act s =
     (let m = (a_votes s)(vid \<mapsto> act)
      in if act = ''resolve'' then s\<lparr>a_votes := m, a_status := Resolved, a_resolved_by := Some vid\<rparr>
         else if quorum \<le> votes_count m ''approve''
         then s\<lparr>a_votes := m, a_status := Approved, a_approved_by := Some vid\<rparr>
         else if quorum \<le> votes_count m ''reject'' then s\<lparr>a_votes := m, a_status := Rejected\<rparr>
         else s\<lparr>a_votes := m\<rparr>)"

text \<open>
  The decision the quorum rule takes on the numbers of approving and rejecting
  volunteers, approval checked first.
\<close>

definition quorum_decision :: "nat \<Rightarrow> nat \<Rightarrow> status" where
  "quorum_decision a r = (if quorum \<le> a then Approved else if quorum \<le> r then Rejected else Pending)"

definition abs_replay :: "(string \<times> string) list \<Rightarrow> incident_abs \<Rightarrow> incident_abs" where
  "abs_replay vs s = fold (\<lambda>(v, a). abs_act v a) vs s"

section \<open>Successive volunteer requests\<close>

text \<open>
  A volunteer client (\<open>handleIncidentAction\<close> of \<^verbatim>\<open>VolunteerHub.jsx\<close>) posts
  \<open>{action, volunteerId, comment: ''}\<close>; a sequence of such requests on one incident
  stops at the first error answer. Each request is one clock tick later.
\<close>

definition volunteer_req :: "string \<Rightarrow> string \<Rightarrow> action_req" where
  "volunteer_req vid act = \<lparr>rq_action = JsVal act, rq_volunteer = JsVal vid, rq_comment = JsVal []\<rparr>"

fun run_actions ::
  "nat \<Rightarrow> string \<Rightarrow> (string \<times> string) list \<Rightarrow> incident_db \<Rightarrow> sql_error + incident_db" where
  "run_actions now iid [] db = Inr db"
| "run_actions now iid ((vid, act) # rest) db =
     (case incident_action now iid (volunteer_req vid act) db of
        Inl e \<Rightarrow> Inl e
      | Inr db' \<Rightarrow> run_actions (Suc now) iid rest db')"

section \<open>Sample store\<close>

definition sample_incident :: incident where
  "sample_incident =
     \<lparr>inc_id = ''I1'', inc_type = ''safety_concern'', inc_lat = 31.33, inc_lng = 75.57,
      inc_description = Some [], inc_severity = ''medium'', inc_status = Pending,
      inc_reporter = ''anonymous'', inc_approved_by = None, inc_resolved_by = None,
      inc_created = 0, inc_updated = 0\<rparr>"

definition sample_db :: incident_db where
  "sample_db = \<lparr>incidents = [sample_incident], approvals = []\<rparr>"

definition sample_votes :: "(string \<times> string) list" where
  "sample_votes = [(''V1'', ''approve''), (''V2'', ''reject''), (''V3'', ''approve''), (''V4'', ''approve'')]"

text \<open>The sample incident with an approval on record from each of the given volunteers.\<close>

definition approvals_db :: "string list \<Rightarrow> incident_db" where
  "approvals_db vs =
     \<lparr>incidents = [sample_incident],
      approvals = map (\<lambda>v. \<lparr>ap_incident = ''I1'', ap_volunteer = v, ap_action = ''approve'', ap_comment = Some []\<rparr>) vs\<rparr>"

lemmas sample_defs = sample_db_def sample_incident_def sample_votes_def approvals_db_def

declare incident_action_def [sql_simps] volunteer_req_def [sql_simps] upsert_approval_def [sql_simps]
  count_action_def [sql_simps] approval_fits_def [sql_simps] varchar_fits_def [sql_simps]
  text_fits_def [sql_simps] update_incident_def [sql_simps] touch_incident_def [sql_simps]
  lookup_incident_def [sql_simps] status_update_def [sql_simps] quorum_def [sql_simps] ap_key_def [sql_simps]
  list_incidents_def [sql_simps] newest_first_def [sql_simps] votes_of_def [sql_simps]

section \<open>The vote map of the approval table\<close>

lemma find_map_keep:
  assumes "\<And>x. P (g x) = P x"
  shows "find P (map g xs) = map_option g (find P xs)"
  using assms by (induction xs) auto

lemma find_append_single:
  "find P (xs @ [x]) = (case find P xs of None \<Rightarrow> (if P x then Some x else None) | Some r \<Rightarrow> Some r)"
  by (induction xs) auto

lemma find_Some_key: "find (\<lambda>r. ap_key r = k) xs = Some r \<Longrightarrow> ap_key r = k"
  by (metis (mono_tags, lifting) find_Some_iff)

lemma votes_of_upsert_same:
  "votes_of iid (upsert_approval iid vid act c aps) = (votes_of iid aps)(vid \<mapsto> act)"
proof
  fix v
  show "votes_of iid (upsert_approval iid vid act c aps) v = ((votes_of iid aps)(vid \<mapsto> act)) v"
  proof (cases "list_ex (\<lambda>r. ap_key r = (iid, vid)) aps")
    case True
    let ?g = "\<lambda>r. if ap_key r = (iid, vid) then r\<lparr>ap_action := act, ap_comment := c\<rparr> else r"
    have F: "find (\<lambda>r. ap_key r = (iid, v)) (map ?g aps) =
               map_option ?g (find (\<lambda>r. ap_key r = (iid, v)) aps)"
      by (rule find_map_keep) simp
    have G: "find (\<lambda>r. ap_key r = (iid, v)) aps = Some r \<Longrightarrow>
               ap_action (?g r) = (if v = vid then act else ap_action r)" for r
      by (auto dest: find_Some_key)
    show ?thesis
    proof (cases "find (\<lambda>r. ap_key r = (iid, v)) aps")
      case None
      then have "v \<noteq> vid" using True by (auto simp: list_ex_iff find_None_iff)
      with None F True show ?thesis by (simp add: upsert_approval_def votes_of_def)
    next
      case (Some r)
      with F G True show ?thesis by (simp add: upsert_approval_def votes_of_def)
    qed
  next
    case False
    then have "find (\<lambda>r. ap_key r = (iid, vid)) aps = None"
      by (simp add: list_ex_iff find_None_iff)
    with False show ?thesis
      by (auto simp: upsert_approval_def votes_of_def find_append_single split: option.splits)
  qed
qed

lemma votes_of_upsert_other:
  "iid' \<noteq> iid \<Longrightarrow> votes_of iid' (upsert_approval iid vid act c aps) = votes_of iid' aps"
proof
  fix v assume ne: "iid' \<noteq> iid"
  let ?g = "\<lambda>r. if ap_key r = (iid, vid) then r\<lparr>ap_action := act, ap_comment := c\<rparr> else r"
  have "find (\<lambda>r. ap_key r = (iid', v)) (map ?g aps) =
          map_option ?g (find (\<lambda>r. ap_key r = (iid', v)) aps)"
    by (rule find_map_keep) simp
  moreover have "find (\<lambda>r. ap_key r = (iid', v)) aps = Some r \<Longrightarrow> ?g r = r" for r
    using ne by (auto dest: find_Some_key)
  moreover have "ap_key \<lparr>ap_incident = iid, ap_volunteer = vid, ap_action = act, ap_comment = c\<rparr> \<noteq> (iid', v)"
    using ne by simp
  ultimately show "votes_of iid' (upsert_approval iid vid act c aps) v = votes_of iid' aps v"
    by (auto simp: upsert_approval_def votes_of_def find_append_single split: option.splits)
qed

lemma votes_of_Nil [simp]: "votes_of iid [] = Map.empty"
  by (simp add: votes_of_def fun_eq_iff)

lemma votes_of_Cons:
  "votes_of iid (r # rs) v = (if ap_key r = (iid, v) then Some (ap_action r) else votes_of iid rs v)"
  by (simp add: votes_of_def)

lemma votes_of_None: "(iid, v) \<notin> ap_key ` set aps \<Longrightarrow> votes_of iid aps v = None"
proof (induction aps)
  case Nil
  then show ?case by simp
next
  case (Cons r rs)
  then show ?case by (simp add: votes_of_Cons) (metis)
qed

lemma dom_votes_of: "dom (votes_of iid aps) \<subseteq> snd ` ap_key ` set aps"
proof
  fix v assume v: "v \<in> dom (votes_of iid aps)"
  show "v \<in> snd ` ap_key ` set aps"
  proof (rule ccontr)
    assume "v \<notin> snd ` ap_key ` set aps"
    then have "(iid, v) \<notin> ap_key ` set aps" by (metis image_eqI snd_conv)
    then have "votes_of iid aps v = None" by (rule votes_of_None)
    with v show False by auto
  qed
qed

lemma finite_votes_of [simp]: "finite {v. votes_of iid aps v = Some a}"
proof -
  have "{v. votes_of iid aps v = Some a} \<subseteq> dom (votes_of iid aps)" by auto
  from subset_trans [OF this dom_votes_of] show ?thesis
    by (rule finite_subset) simp
qed

lemma votes_of_Cons_other:
  "ap_incident r \<noteq> iid \<Longrightarrow> votes_of iid (r # rs) = votes_of iid rs"
proof
  fix v assume "ap_incident r \<noteq> iid"
  then have "ap_key r \<noteq> (iid, v)" by (simp add: ap_key_def)
  then show "votes_of iid (r # rs) v = votes_of iid rs v" by (simp add: votes_of_Cons)
qed

lemma votes_of_Cons_same:
  "ap_incident r = iid \<Longrightarrow> votes_of iid (r # rs) = (votes_of iid rs)(ap_volunteer r \<mapsto> ap_action r)"
proof
  fix v assume "ap_incident r = iid"
  then have key: "ap_key r = (iid, ap_volunteer r)" by (simp add: ap_key_def)
  show "votes_of iid (r # rs) v = ((votes_of iid rs)(ap_volunteer r \<mapsto> ap_action r)) v"
    using key by (cases "v = ap_volunteer r") (simp_all add: votes_of_Cons)
qed

lemma card_vote_upd_fresh:
  assumes "m x = None" and "finite {v. m v = Some a}"
  shows "card {v. (m(x \<mapsto> b)) v = Some a} =
           (if b = a then Suc (card {v. m v = Some a}) else card {v. m v = Some a})"
proof -
  have "{v. (m(x \<mapsto> b)) v = Some a} = (if b = a then insert x {v. m v = Some a} else {v. m v = Some a})"
    using assms(1) by auto
  moreover have "x \<notin> {v. m v = Some a}" using assms(1) by simp
  ultimately show ?thesis using assms(2) by simp
qed

text \<open>
  With the unique key \<open>(incident_id, volunteer_id)\<close>, the SQL count of one action is the
  number of distinct volunteers whose recorded action it is.
\<close>

lemma count_action_votes:
  "distinct (map ap_key aps) \<Longrightarrow> count_action iid a aps = votes_count (votes_of iid aps) a"
proof (induction aps)
  case Nil
  then show ?case by (simp add: count_action_def votes_count_def)
next
  case (Cons r rs)
  then have IH: "count_action iid a rs = card {v. votes_of iid rs v = Some a}"
    by (simp add: votes_count_def)
  show ?case
  proof (cases "ap_incident r = iid")
    case True
    then have "ap_key r = (iid, ap_volunteer r)" by (simp add: ap_key_def)
    moreover have "ap_key r \<notin> ap_key ` set rs" using Cons.prems by simp
    ultimately have "votes_of iid rs (ap_volunteer r) = None"
      by (intro votes_of_None) simp
    from card_vote_upd_fresh [OF this finite_votes_of]
    have "card {v. votes_of iid (r # rs) v = Some a} =
            (if ap_action r = a then Suc (card {v. votes_of iid rs v = Some a})
             else card {v. votes_of iid rs v = Some a})"
      by (simp only: votes_of_Cons_same [OF True])
    then show ?thesis
      using True IH by (simp add: count_action_Cons votes_count_def)
  next
    case False
    then show ?thesis using IH by (simp add: votes_of_Cons_other count_action_Cons votes_count_def)
  qed
qed

section \<open>The handler implements the abstract action\<close>

lemma update_incident_id [simp]: "update_incident iid (\<lambda>x. x) now xs = xs"
  by (induction xs) (auto simp: update_incident_def touch_incident_def)

lemma lookup_incident_ex:
  "lookup_incident iid db = Some x \<Longrightarrow> list_ex (\<lambda>x. inc_id x = iid) (incidents db)"
  by (auto simp: lookup_incident_def list_ex_iff find_Some_iff)

lemma lookup_incident_None_iff:
  "lookup_incident iid db = None \<longleftrightarrow> \<not> list_ex (\<lambda>x. inc_id x = iid) (incidents db)"
  by (auto simp: lookup_incident_def list_ex_iff find_None_iff)

lemma abs_of_after_action:
  assumes "\<And>x. inc_id (f x) = inc_id x" and "lookup_incident iid db = Some x"
  shows "abs_of iid (db\<lparr>approvals := upsert_approval iid vid act c (approvals db),
                         incidents := update_incident iid f now (incidents db)\<rparr>) =
           Some \<lparr>a_status = inc_status (f x), a_votes = (votes_of iid (approvals db))(vid \<mapsto> act),
                 a_approved_by = inc_approved_by (f x), a_resolved_by = inc_resolved_by (f x)\<rparr>"
  using assms by (simp add: abs_of_def lookup_incident_def find_update_incident_same votes_of_upsert_same)

lemma abs_of_after_action_other:
  assumes "\<And>x. inc_id (f x) = inc_id x" and "j \<noteq> iid"
  shows "abs_of j (db\<lparr>approvals := upsert_approval iid vid act c (approvals db),
                       incidents := update_incident iid f now (incidents db)\<rparr>) = abs_of j db"
  using assms by (simp add: abs_of_def lookup_incident_def find_update_incident_other votes_of_upsert_other)

lemma abs_of_after_upsert:
  assumes "lookup_incident iid db = Some x"
  shows "abs_of iid (db\<lparr>approvals := upsert_approval iid vid act c (approvals db)\<rparr>) =
           Some \<lparr>a_status = inc_status x, a_votes = (votes_of iid (approvals db))(vid \<mapsto> act),
                 a_approved_by = inc_approved_by x, a_resolved_by = inc_resolved_by x\<rparr>"
  using assms by (simp add: abs_of_def lookup_incident_def votes_of_upsert_same)

lemma abs_of_after_upsert_other:
  "j \<noteq> iid \<Longrightarrow> abs_of j (db\<lparr>approvals := upsert_approval iid vid act c (approvals db)\<rparr>) = abs_of j db"
  by (simp add: abs_of_def lookup_incident_def votes_of_upsert_other)

lemma incident_action_sim:
  assumes keys: "distinct (map ap_key (approvals db))"
    and act: "rq_action rq = JsVal act" and vol: "rq_volunteer rq = JsVal vid"
    and com: "\<not> is_undefined (rq_comment rq)"
    and fits: "approval_fits iid vid act (js_val (rq_comment rq))"
    and s: "abs_of iid db = Some s"
  shows "\<exists>db'. incident_action now iid rq db = Inr db' \<and> abs_of iid db' = Some (abs_act vid act s)
              \<and> (\<forall>j. j \<noteq> iid \<longrightarrow> abs_of j db' = abs_of j db)"
proof -
  from s obtain x where x: "lookup_incident iid db = Some x"
    and sx: "s = \<lparr>a_status = inc_status x, a_votes = votes_of iid (approvals db),
                  a_approved_by = inc_approved_by x, a_resolved_by = inc_resolved_by x\<rparr>"
    by (auto simp: abs_of_def)
  let ?c = "js_val (rq_comment rq)"
  let ?aps = "upsert_approval iid vid act ?c (approvals db)"
  let ?m = "(votes_of iid (approvals db))(vid \<mapsto> act)"
  let ?upd = "\<lambda>f. db\<lparr>approvals := ?aps, incidents := update_incident iid f now (incidents db)\<rparr>"
  have cnt: "count_action iid a ?aps = votes_count ?m a" for a
    using count_action_votes [OF distinct_upsert_approval [OF keys]] by (simp add: votes_of_upsert_same)
  have run: "incident_action now iid rq db =
     Inr (if act = ''resolve'' then ?upd (\<lambda>x. x\<lparr>inc_status := Resolved, inc_resolved_by := Some vid\<rparr>)
          else if quorum \<le> votes_count ?m ''approve''
          then ?upd (\<lambda>x. x\<lparr>inc_status := Approved, inc_approved_by := Some vid\<rparr>)
          else if quorum \<le> votes_count ?m ''reject'' then ?upd (\<lambda>x. x\<lparr>inc_status := Rejected\<rparr>)
          else ?upd (\<lambda>x. x))"
    using act vol com fits lookup_incident_ex [OF x] by (simp add: incident_action_def status_update_def cnt)
  show ?thesis
    using run x sx
    by (simp add: abs_act_def Let_def abs_of_after_action abs_of_after_action_other
                  abs_of_after_upsert abs_of_after_upsert_other)
qed


text \<open>
  C1. On an existing incident, with the action and the volunteer present in the request
  and the comment not missing, \<open>POST /api/incidents/:id/action\<close> succeeds; the
  incident's abstract state after it is \<open>abs_act\<close> of the one before (the acting
  volunteer's vote overwritten, the status moved by the quorum rule), and no other
  incident changes.
\<close>

theorem incident_action_refines:
  assumes "distinct (map ap_key (approvals db))"
    and "rq_action rq = JsVal act" and "rq_volunteer rq = JsVal vid"
    and "\<not> is_undefined (rq_comment rq)"
    and "approval_fits iid vid act (js_val (rq_comment rq))"
    and "abs_of iid db = Some s"
  shows "\<exists>db'. incident_action now iid rq db = Inr db' \<and> abs_of iid db' = Some (abs_act vid act s)
              \<and> (\<forall>j. j \<noteq> iid \<longrightarrow> abs_of j db' = abs_of j db)"
  using assms by (rule incident_action_sim)

lemma incident_action_refines_witness:
  "distinct (map ap_key (approvals sample_db)) \<and>
   rq_action (volunteer_req ''V1'' ''approve'') = JsVal ''approve'' \<and>
   rq_volunteer (volunteer_req ''V1'' ''approve'') = JsVal ''V1'' \<and>
   \<not> is_undefined (rq_comment (volunteer_req ''V1'' ''approve'')) \<and>
   approval_fits ''I1'' ''V1'' ''approve'' (js_val (rq_comment (volunteer_req ''V1'' ''approve''))) \<and>
   abs_of ''I1'' sample_db = Some (the (abs_of ''I1'' sample_db)) \<and>
   (\<exists>db'. incident_action 1 ''I1'' (volunteer_req ''V1'' ''approve'') sample_db = Inr db' \<and>
      abs_of ''I1'' db' = Some (abs_act ''V1'' ''approve'' (the (abs_of ''I1'' sample_db))) \<and>
      (\<forall>j. j \<noteq> ''I1'' \<longrightarrow> abs_of j db' = abs_of j sample_db))"
proof -
  have h: "distinct (map ap_key (approvals sample_db))"
    "rq_action (volunteer_req ''V1'' ''approve'') = JsVal ''approve''"
    "rq_volunteer (volunteer_req ''V1'' ''approve'') = JsVal ''V1''"
    "\<not> is_undefined (rq_comment (volunteer_req ''V1'' ''approve''))"
    "approval_fits ''I1'' ''V1'' ''approve'' (js_val (rq_comment (volunteer_req ''V1'' ''approve'')))"
    "abs_of ''I1'' sample_db = Some (the (abs_of ''I1'' sample_db))"
    by (simp_all add: sample_defs sql_simps abs_of_def)
  show ?thesis using h incident_action_refines [OF h, of 1] by blast
qed

section \<open>Replaying votes\<close>

lemma a_votes_abs_act [simp]: "a_votes (abs_act v a s) = (a_votes s)(v \<mapsto> a)"
  by (simp add: abs_act_def Let_def)

lemma votes_count_upd_fresh:
  assumes "m v = None" and "finite (dom m)"
  shows "votes_count (m(v \<mapsto> a)) x = votes_count m x + (if a = x then 1 else 0)"
proof -
  have "finite {w. m w = Some x}"
    using assms(2) by (rule finite_subset [rotated]) auto
  from card_vote_upd_fresh [OF assms(1) this] show ?thesis
    by (simp add: votes_count_def)
qed

lemma abs_act_decision:
  assumes dec: "a_status s = quorum_decision (votes_count (a_votes s) ''approve'') (votes_count (a_votes s) ''reject'')"
    and fresh: "a_votes s v = None" and fin: "finite (dom (a_votes s))"
    and act: "act \<in> {''approve'', ''reject''}"
  shows "a_status (abs_act v act s) =
           quorum_decision (votes_count (a_votes (abs_act v act s)) ''approve'')
                           (votes_count (a_votes (abs_act v act s)) ''reject'')"
  using dec act votes_count_upd_fresh [OF fresh fin]
  by (auto simp: abs_act_def Let_def quorum_decision_def)

lemma abs_replay_Cons [simp]: "abs_replay ((v, a) # vs) s = abs_replay vs (abs_act v a s)"
  by (simp add: abs_replay_def)

lemma abs_replay_Nil [simp]: "abs_replay [] s = s"
  by (simp add: abs_replay_def)

lemma abs_replay_decision:
  assumes "a_status s = quorum_decision (votes_count (a_votes s) ''approve'') (votes_count (a_votes s) ''reject'')"
    and "\<And>v. v \<in> fst ` set vs \<Longrightarrow> a_votes s v = None" and "finite (dom (a_votes s))"
    and "distinct (map fst vs)" and "snd ` set vs \<subseteq> {''approve'', ''reject''}"
  shows "a_status (abs_replay vs s) =
           quorum_decision (votes_count (a_votes s) ''approve'' + length (filter (\<lambda>p. snd p = ''approve'') vs))
                           (votes_count (a_votes s) ''reject'' + length (filter (\<lambda>p. snd p = ''reject'') vs))"
  using assms
proof (induction vs arbitrary: s)
  case Nil
  then show ?case by simp
next
  case (Cons p vs)
  obtain v a where p: "p = (v, a)" by (cases p)
  let ?s = "abs_act v a s"
  have fresh: "a_votes s v = None" using Cons.prems(2) p by simp
  have act: "a \<in> {''approve'', ''reject''}" using Cons.prems(5) p by simp
  have cnt: "votes_count (a_votes ?s) x = votes_count (a_votes s) x + (if a = x then 1 else 0)" for x
    using votes_count_upd_fresh [OF fresh Cons.prems(3)] by simp
  have "a_status (abs_replay vs ?s) =
          quorum_decision (votes_count (a_votes ?s) ''approve'' + length (filter (\<lambda>p. snd p = ''approve'') vs))
                          (votes_count (a_votes ?s) ''reject'' + length (filter (\<lambda>p. snd p = ''reject'') vs))"
  proof (rule Cons.IH)
    show "a_status ?s = quorum_decision (votes_count (a_votes ?s) ''approve'') (votes_count (a_votes ?s) ''reject'')"
      using abs_act_decision [OF Cons.prems(1) fresh Cons.prems(3) act] .
    show "a_votes ?s w = None" if "w \<in> fst ` set vs" for w
      using that Cons.prems(2,4) p by auto
    show "finite (dom (a_votes ?s))" using Cons.prems(3) by simp
    show "distinct (map fst vs)" using Cons.prems(4) by simp
    show "snd ` set vs \<subseteq> {''approve'', ''reject''}" using Cons.prems(5) by simp
  qed
  then show ?case using p cnt act by auto
qed

lemma incident_action_keys:
  "incident_action now iid rq db = Inr db' \<Longrightarrow> distinct (map ap_key (approvals db)) \<Longrightarrow>
     distinct (map ap_key (approvals db'))"
  by (auto simp: incident_action_def Let_def distinct_upsert_approval split: if_splits option.splits)

lemma run_actions_sim:
  "distinct (map ap_key (approvals db)) \<Longrightarrow> abs_of iid db = Some s \<Longrightarrow>
   list_all (\<lambda>(v, a). approval_fits iid v a (Some [])) vs \<Longrightarrow>
   \<exists>db'. run_actions now iid vs db = Inr db' \<and> abs_of iid db' = Some (abs_replay vs s)
         \<and> distinct (map ap_key (approvals db'))"
proof (induction vs arbitrary: now db s)
  case Nil
  then show ?case by simp
next
  case (Cons p vs)
  obtain v a where p: "p = (v, a)" by (cases p)
  have rq: "rq_action (volunteer_req v a) = JsVal a" "rq_volunteer (volunteer_req v a) = JsVal v"
    "\<not> is_undefined (rq_comment (volunteer_req v a))"
    "approval_fits iid v a (js_val (rq_comment (volunteer_req v a)))"
    using Cons.prems(3) p by (simp_all add: volunteer_req_def)
  from incident_action_sim [OF Cons.prems(1) rq Cons.prems(2), of now]
  obtain db1 where db1: "incident_action now iid (volunteer_req v a) db = Inr db1"
    and abs1: "abs_of iid db1 = Some (abs_act v a s)" by blast
  have keys1: "distinct (map ap_key (approvals db1))"
    using incident_action_keys [OF db1 Cons.prems(1)] .
  have "list_all (\<lambda>(v, a). approval_fits iid v a (Some [])) vs" using Cons.prems(3) by simp
  from Cons.IH [OF keys1 abs1 this, of "Suc now"] show ?case using p db1 by simp
qed

lemma mset_eq_length_filter:
  "mset ws = mset vs \<Longrightarrow> length (filter P ws) = length (filter P vs)"
  by (metis mset_filter size_mset)

text \<open>
  C2. Quorum order independence: on a fresh incident (pending, no votes yet), a
  sequence of approve or reject requests by distinct volunteers succeeds and ends in the
  status that the quorum rule assigns to the numbers of approvals and rejections; any
  permutation of the same requests ends in the same status.
\<close>

theorem quorum_order_independent:
  assumes keys: "distinct (map ap_key (approvals db))"
    and s: "abs_of iid db = Some s" and pend: "a_status s = Pending" and empty: "a_votes s = Map.empty"
    and vs: "distinct (map fst vs)" "snd ` set vs \<subseteq> {''approve'', ''reject''}"
    and fit: "list_all (\<lambda>(v, a). approval_fits iid v a (Some [])) vs"
    and perm: "mset ws = mset vs"
  shows "\<exists>db1 db2. run_actions now iid vs db = Inr db1 \<and> run_actions now' iid ws db = Inr db2 \<and>
           map_option a_status (abs_of iid db1) =
             Some (quorum_decision (length (filter (\<lambda>p. snd p = ''approve'') vs))
                                   (length (filter (\<lambda>p. snd p = ''reject'') vs))) \<and>
           map_option a_status (abs_of iid db2) = map_option a_status (abs_of iid db1)"
proof -
  have ws: "distinct (map fst ws)" "snd ` set ws \<subseteq> {''approve'', ''reject''}"
    "list_all (\<lambda>(v, a). approval_fits iid v a (Some [])) ws"
  proof -
    have "mset (map fst ws) = mset (map fst vs)" using perm by simp
    then show "distinct (map fst ws)" using vs(1) mset_eq_imp_distinct_iff by blast
    have "set ws = set vs" using perm by (metis set_mset_mset)
    then show "snd ` set ws \<subseteq> {''approve'', ''reject''}" using vs(2) by simp
    show "list_all (\<lambda>(v, a). approval_fits iid v a (Some [])) ws"
      using fit \<open>set ws = set vs\<close> by (simp add: list_all_iff)
  qed
  have dec0: "a_status s = quorum_decision (votes_count (a_votes s) ''approve'') (votes_count (a_votes s) ''reject'')"
    using pend empty by (simp add: quorum_decision_def votes_count_def quorum_def)
  have rep: "a_status (abs_replay xs s) =
               quorum_decision (length (filter (\<lambda>p. snd p = ''approve'') xs))
                               (length (filter (\<lambda>p. snd p = ''reject'') xs))"
    if "distinct (map fst xs)" "snd ` set xs \<subseteq> {''approve'', ''reject''}" for xs
    using abs_replay_decision [OF dec0 _ _ that] empty by (simp add: votes_count_def)
  obtain db1 where r1: "run_actions now iid vs db = Inr db1" "abs_of iid db1 = Some (abs_replay vs s)"
    using run_actions_sim [OF keys s fit] by blast
  obtain db2 where r2: "run_actions now' iid ws db = Inr db2" "abs_of iid db2 = Some (abs_replay ws s)"
    using run_actions_sim [OF keys s ws(3)] by blast
  have "length (filter P ws) = length (filter P vs)" for P
    using perm by (rule mset_eq_length_filter)
  then show ?thesis using r1 r2 rep [OF vs] rep [OF ws(1,2)] by auto
qed

lemma quorum_order_independent_witness:
  "distinct (map ap_key (approvals sample_db)) \<and>
   abs_of ''I1'' sample_db = Some (the (abs_of ''I1'' sample_db)) \<and>
   a_status (the (abs_of ''I1'' sample_db)) = Pending \<and>
   a_votes (the (abs_of ''I1'' sample_db)) = Map.empty \<and>
   distinct (map fst sample_votes) \<and> snd ` set sample_votes \<subseteq> {''approve'', ''reject''} \<and>
   list_all (\<lambda>(v, a). approval_fits ''I1'' v a (Some [])) sample_votes \<and>
   mset (rev sample_votes) = mset sample_votes \<and>
   (\<exists>db1 db2. run_actions 1 ''I1'' sample_votes sample_db = Inr db1 \<and>
      run_actions 1 ''I1'' (rev sample_votes) sample_db = Inr db2 \<and>
      map_option a_status (abs_of ''I1'' db1) =
        Some (quorum_decision (length (filter (\<lambda>p. snd p = ''approve'') sample_votes))
                              (length (filter (\<lambda>p. snd p = ''reject'') sample_votes))) \<and>
      map_option a_status (abs_of ''I1'' db2) = map_option a_status (abs_of ''I1'' db1))"
proof -
  have h: "distinct (map ap_key (approvals sample_db))"
    "abs_of ''I1'' sample_db = Some (the (abs_of ''I1'' sample_db))"
    "a_status (the (abs_of ''I1'' sample_db)) = Pending"
    "a_votes (the (abs_of ''I1'' sample_db)) = Map.empty"
    "distinct (map fst sample_votes)" "snd ` set sample_votes \<subseteq> {''approve'', ''reject''}"
    "list_all (\<lambda>(v, a). approval_fits ''I1'' v a (Some [])) sample_votes"
    "mset (rev sample_votes) = mset sample_votes"
    by (simp_all add: sample_defs sql_simps abs_of_def)
  show ?thesis using h quorum_order_independent [OF h, of 1 1] by blast
qed

section \<open>Votes of the other volunteers\<close>

lemma votes_of_filter_volunteer:
  "votes_of iid (filter (\<lambda>r. ap_volunteer r \<notin> U) aps) w = (if w \<in> U then None else votes_of iid aps w)"
  by (induction aps) (auto simp: votes_of_Cons ap_key_def)

text \<open>
  The SQL count of one action among the rows of the volunteers outside \<open>U\<close>, read on the
  vote map.
\<close>

lemma count_others:
  assumes "distinct (map ap_key aps)"
  shows "count_action iid a (filter (\<lambda>r. ap_volunteer r \<notin> U) aps) = card {w. w \<notin> U \<and> votes_of iid aps w = Some a}"
proof -
  have "distinct (map ap_key (filter (\<lambda>r. ap_volunteer r \<notin> U) aps))"
    using assms by (simp add: distinct_map_filter)
  from count_action_votes [OF this] show ?thesis
    by (simp add: votes_count_def votes_of_filter_volunteer) (metis (lifting))
qed

lemma votes_count_two_upd:
  assumes "a \<noteq> b" and "u \<noteq> w" and "finite {x. m x = Some b}"
  shows "votes_count ((m(u \<mapsto> a))(w \<mapsto> b)) b = Suc (card {x. x \<notin> {u, w} \<and> m x = Some b})"
proof -
  have "{x. ((m(u \<mapsto> a))(w \<mapsto> b)) x = Some b} = insert w {x. x \<notin> {u, w} \<and> m x = Some b}"
    using assms(1,2) by auto
  moreover have "finite {x. x \<notin> {u, w} \<and> m x = Some b}"
    using assms(3) by (rule finite_subset [rotated]) auto
  ultimately show ?thesis unfolding votes_count_def by simp
qed

section \<open>Scenarios of the quorum rule\<close>

text \<open>
  Spec scenario: on a freshly reported incident, two approvals leave it pending; the
  third approval by V3 makes \<open>GET /api/incidents\<close> list it as approved by V3 with
  three approvals.
\<close>

theorem three_approvals_scenario:
  "(\<exists>db. run_actions 1 ''I1'' [(''V1'', ''approve''), (''V2'', ''approve'')] sample_db = Inr db \<and>
        map row_status (list_incidents db) = [Pending]) \<and>
   (\<exists>db. run_actions 1 ''I1'' [(''V1'', ''approve''), (''V2'', ''approve''), (''V3'', ''approve'')] sample_db = Inr db \<and>
        map (\<lambda>r. (row_status r, row_approved_by r, row_approval_count r)) (list_incidents db) =
          [(Approved, Some ''V3'', 3)])"
  by (simp add: sample_defs sql_simps)

text \<open>
  C18. Resolving is not terminal and the final status depends on the order of the votes.
  Take any incident on which, besides volunteers \<open>u\<close> and \<open>w\<close>, at least two others
  have approved. If \<open>u\<close> resolves and then \<open>w\<close> approves, the incident ends approved,
  with \<open>u\<close> still recorded as resolver; the same two votes in the other order end in
  resolved. Both orders leave the same votes on record.
\<close>

theorem resolve_order_dependent:
  assumes keys: "distinct (map ap_key (approvals db))" and ex: "lookup_incident iid db \<noteq> None"
    and uw: "u \<noteq> w"
    and fits: "approval_fits iid u ''resolve'' (Some [])" "approval_fits iid w ''approve'' (Some [])"
    and two: "quorum \<le> Suc (count_action iid ''approve'' (filter (\<lambda>r. ap_volunteer r \<notin> {u, w}) (approvals db)))"
  shows "\<exists>d1 d2 s1 s2.
           run_actions now iid [(u, ''resolve''), (w, ''approve'')] db = Inr d1 \<and>
           run_actions now iid [(w, ''approve''), (u, ''resolve'')] db = Inr d2 \<and>
           abs_of iid d1 = Some s1 \<and> abs_of iid d2 = Some s2 \<and> a_votes s1 = a_votes s2 \<and>
           a_status s1 = Approved \<and> a_resolved_by s1 = Some u \<and>
           a_status s2 = Resolved \<and> a_resolved_by s2 = Some u"
proof -
  obtain s where s: "abs_of iid db = Some s" using ex by (auto simp: abs_of_def)
  then have votes: "a_votes s = votes_of iid (approvals db)" by (auto simp: abs_of_def)
  have f1: "list_all (\<lambda>(v, a). approval_fits iid v a (Some [])) [(u, ''resolve''), (w, ''approve'')]"
    and f2: "list_all (\<lambda>(v, a). approval_fits iid v a (Some [])) [(w, ''approve''), (u, ''resolve'')]"
    using fits by simp_all
  obtain d1 where d1: "run_actions now iid [(u, ''resolve''), (w, ''approve'')] db = Inr d1"
    "abs_of iid d1 = Some (abs_replay [(u, ''resolve''), (w, ''approve'')] s)"
    using run_actions_sim [OF keys s f1] by blast
  obtain d2 where d2: "run_actions now iid [(w, ''approve''), (u, ''resolve'')] db = Inr d2"
    "abs_of iid d2 = Some (abs_replay [(w, ''approve''), (u, ''resolve'')] s)"
    using run_actions_sim [OF keys s f2] by blast
  have "votes_count (((a_votes s)(u \<mapsto> ''resolve''))(w \<mapsto> ''approve'')) ''approve'' =
          Suc (count_action iid ''approve'' (filter (\<lambda>r. ap_volunteer r \<notin> {u, w}) (approvals db)))"
    using votes_count_two_upd [OF _ uw finite_votes_of, of "''resolve''" "''approve''" iid "approvals db"]
      count_others [OF keys, of iid "''approve''" "{u, w}"] votes by simp
  then have q: "quorum \<le> votes_count (((a_votes s)(u \<mapsto> ''resolve''))(w \<mapsto> ''approve'')) ''approve''"
    using two by simp
  have sw: "((a_votes s)(w \<mapsto> ''approve''))(u \<mapsto> ''resolve'') = ((a_votes s)(u \<mapsto> ''resolve''))(w \<mapsto> ''approve'')"
    using uw by (simp add: fun_upd_twist)
  show ?thesis using d1 d2 q sw by (simp add: abs_act_def Let_def)
qed

text \<open>
  C19. Once three approvals are on record, every further action re-runs the approving
  update and overwrites \<open>approved_by\<close>. On any incident where at least three volunteers
  other than \<open>v\<close> have approved, a reject by \<open>v\<close> succeeds and leaves the incident
  approved, with \<open>v\<close> recorded as the approver while \<open>v\<close>'s recorded vote is the rejection.
\<close>

theorem approved_by_rejecting_volunteer:
  assumes keys: "distinct (map ap_key (approvals db))"
    and rq: "rq_action rq = JsVal ''reject''" "rq_volunteer rq = JsVal v" "\<not> is_undefined (rq_comment rq)"
    and fits: "approval_fits iid v ''reject'' (js_val (rq_comment rq))"
    and ex: "lookup_incident iid db \<noteq> None"
    and three: "quorum \<le> count_action iid ''approve'' (filter (\<lambda>r. ap_volunteer r \<notin> {v}) (approvals db))"
  shows "\<exists>db' s'. incident_action now iid rq db = Inr db' \<and> abs_of iid db' = Some s' \<and>
           a_status s' = Approved \<and> a_approved_by s' = Some v \<and> a_votes s' v = Some ''reject''"
proof -
  obtain s where s: "abs_of iid db = Some s" using ex by (auto simp: abs_of_def)
  then have votes: "a_votes s = votes_of iid (approvals db)" by (auto simp: abs_of_def)
  obtain db' where db': "incident_action now iid rq db = Inr db'" "abs_of iid db' = Some (abs_act v ''reject'' s)"
    using incident_action_sim [OF keys rq fits s] by blast
  have "{x. ((a_votes s)(v \<mapsto> ''reject'')) x = Some ''approve''} = {x. x \<notin> {v} \<and> votes_of iid (approvals db) x = Some ''approve''}"
    using votes by auto
  then have "votes_count ((a_votes s)(v \<mapsto> ''reject'')) ''approve'' =
               count_action iid ''approve'' (filter (\<lambda>r. ap_volunteer r \<notin> {v}) (approvals db))"
    using count_others [OF keys, of iid "''approve''" "{v}"] by (simp add: votes_count_def)
  then have "quorum \<le> votes_count ((a_votes s)(v \<mapsto> ''reject'')) ''approve''" using three by simp
  then show ?thesis using db' by (simp add: abs_act_def Let_def)
qed

text \<open>
  The two rules on the sample incident: the same final votes (V1 resolves, V2, V3, V4
  approve) end in Resolved when V1 resolves last, but in Approved, with V1 still recorded
  as resolver, when V1 resolves first; a volunteer who rejects after three approvals is
  recorded as the approver.
\<close>

lemma resolve_order_scenario:
  "(\<exists>db. run_actions 1 ''I1'' [(''V2'', ''approve''), (''V3'', ''approve''), (''V4'', ''approve''), (''V1'', ''resolve'')] sample_db = Inr db \<and>
        map row_status (list_incidents db) = [Resolved]) \<and>
   (\<exists>db. run_actions 1 ''I1'' [(''V1'', ''resolve''), (''V2'', ''approve''), (''V3'', ''approve''), (''V4'', ''approve'')] sample_db = Inr db \<and>
        map (\<lambda>r. (row_status r, row_resolved_by r)) (list_incidents db) = [(Approved, Some ''V1'')])"
  by (simp add: sample_defs sql_simps)

lemma rejecting_approver_scenario:
  "\<exists>db. run_actions 1 ''I1'' [(''V1'', ''approve''), (''V2'', ''approve''), (''V3'', ''approve''), (''V4'', ''reject'')] sample_db = Inr db \<and>
        map (\<lambda>r. (row_status r, row_approved_by r)) (list_incidents db) = [(Approved, Some ''V4'')] \<and>
        votes_of ''I1'' (approvals db) ''V4'' = Some ''reject''"
  by (simp add: sample_defs sql_simps)

lemma resolve_order_dependent_witness:
  "distinct (map ap_key (approvals (approvals_db [''V2'', ''V3'']))) \<and>
   lookup_incident ''I1'' (approvals_db [''V2'', ''V3'']) \<noteq> None \<and> ''V1'' \<noteq> ''V4'' \<and>
   approval_fits ''I1'' ''V1'' ''resolve'' (Some []) \<and> approval_fits ''I1'' ''V4'' ''approve'' (Some []) \<and>
   quorum \<le> Suc (count_action ''I1'' ''approve'' (filter (\<lambda>r. ap_volunteer r \<notin> {''V1'', ''V4''}) (approvals (approvals_db [''V2'', ''V3''])))) \<and>
   (\<exists>d1 d2 s1 s2.
      run_actions 1 ''I1'' [(''V1'', ''resolve''), (''V4'', ''approve'')] (approvals_db [''V2'', ''V3'']) = Inr d1 \<and>
      run_actions 1 ''I1'' [(''V4'', ''approve''), (''V1'', ''resolve'')] (approvals_db [''V2'', ''V3'']) = Inr d2 \<and>
      abs_of ''I1'' d1 = Some s1 \<and> abs_of ''I1'' d2 = Some s2 \<and> a_votes s1 = a_votes s2 \<and>
      a_status s1 = Approved \<and> a_resolved_by s1 = Some ''V1'' \<and> a_status s2 = Resolved \<and> a_resolved_by s2 = Some ''V1'')"
proof -
  have h: "distinct (map ap_key (approvals (approvals_db [''V2'', ''V3''])))"
    "lookup_incident ''I1'' (approvals_db [''V2'', ''V3'']) \<noteq> None" "''V1'' \<noteq> ''V4''"
    "approval_fits ''I1'' ''V1'' ''resolve'' (Some [])" "approval_fits ''I1'' ''V4'' ''approve'' (Some [])"
    "quorum \<le> Suc (count_action ''I1'' ''approve'' (filter (\<lambda>r. ap_volunteer r \<notin> {''V1'', ''V4''}) (approvals (approvals_db [''V2'', ''V3'']))))"
    by (simp_all add: sample_defs sql_simps)
  show ?thesis using h resolve_order_dependent [OF h, of 1] by blast
qed

lemma approved_by_rejecting_volunteer_witness:
  "distinct (map ap_key (approvals (approvals_db [''V1'', ''V2'', ''V3'']))) \<and>
   rq_action (volunteer_req ''V4'' ''reject'') = JsVal ''reject'' \<and> rq_volunteer (volunteer_req ''V4'' ''reject'') = JsVal ''V4'' \<and>
   \<not> is_undefined (rq_comment (volunteer_req ''V4'' ''reject'')) \<and>
   approval_fits ''I1'' ''V4'' ''reject'' (js_val (rq_comment (volunteer_req ''V4'' ''reject''))) \<and>
   lookup_incident ''I1'' (approvals_db [''V1'', ''V2'', ''V3'']) \<noteq> None \<and>
   quorum \<le> count_action ''I1'' ''approve'' (filter (\<lambda>r. ap_volunteer r \<notin> {''V4''}) (approvals (approvals_db [''V1'', ''V2'', ''V3'']))) \<and>
   (\<exists>db' s'. incident_action 1 ''I1'' (volunteer_req ''V4'' ''reject'') (approvals_db [''V1'', ''V2'', ''V3'']) = Inr db' \<and>
      abs_of ''I1'' db' = Some s' \<and> a_status s' = Approved \<and> a_approved_by s' = Some ''V4'' \<and> a_votes s' ''V4'' = Some ''reject'')"
proof -
  have h: "distinct (map ap_key (approvals (approvals_db [''V1'', ''V2'', ''V3''])))"
    "rq_action (volunteer_req ''V4'' ''reject'') = JsVal ''reject''" "rq_volunteer (volunteer_req ''V4'' ''reject'') = JsVal ''V4''"
    "\<not> is_undefined (rq_comment (volunteer_req ''V4'' ''reject''))"
    "approval_fits ''I1'' ''V4'' ''reject'' (js_val (rq_comment (volunteer_req ''V4'' ''reject'')))"
    "lookup_incident ''I1'' (approvals_db [''V1'', ''V2'', ''V3'']) \<noteq> None"
    "quorum \<le> count_action ''I1'' ''approve'' (filter (\<lambda>r. ap_volunteer r \<notin> {''V4''}) (approvals (approvals_db [''V1'', ''V2'', ''V3''])))"
    by (simp_all add: sample_defs sql_simps)
  show ?thesis using h approved_by_rejecting_volunteer [OF h, of 1] by blast
qed

text \<open>
  An approved incident is not terminal: after two approvers switch to reject and a
  third volunteer rejects, the incident is listed as rejected with one approval and three
  rejections.
\<close>

theorem approved_then_rejected:
  "\<exists>db. run_actions 1 ''I1'' [(''V1'', ''approve''), (''V2'', ''approve''), (''V3'', ''approve''),
                               (''V1'', ''reject''), (''V2'', ''reject''), (''V4'', ''reject'')] sample_db = Inr db \<and>
        map (\<lambda>r. (row_status r, row_approval_count r, row_rejection_count r)) (list_incidents db) = [(Rejected, 1, 3)]"
  by (simp add: sample_defs sql_simps)

text \<open>
  The status is only written by an action that reaches a quorum: after one of three
  approvers switches to reject, the incident stays approved while the listing counts two
  approvals and one rejection.
\<close>

theorem status_kept_after_vote_switch:
  "\<exists>db. run_actions 1 ''I1'' [(''V1'', ''approve''), (''V2'', ''approve''), (''V3'', ''approve''), (''V1'', ''reject'')] sample_db = Inr db \<and>
        map (\<lambda>r. (row_status r, row_approval_count r, row_rejection_count r)) (list_incidents db) = [(Approved, 2, 1)]"
  by (simp add: sample_defs sql_simps)

end
