(* ===== verification/Zones_Pins.thy ===== *)
theory Zones_Pins
  imports Prelude
begin

text \<open>
  The zone registry and the dropped pins of \<^verbatim>\<open>src/backend/server.js\<close>: the tables
  \<open>safety_zones\<close> and \<open>dropped_pins\<close>, the seeding of five default zones by
  \<open>initDB\<close> when the zone table is empty, and the routes \<open>GET/POST /api/zones\<close>,
  \<open>GET/POST /api/pins\<close>, \<open>DELETE /api/pins/:id\<close> and \<open>GET /health\<close>.
  As for incidents, a handler takes the request time, the request and the tables and
  returns the new tables or the SQL error its \<open>catch\<close> answers with HTTP 500.
\<close>

section \<open>Schema\<close>

record zone_row =
  z_id :: string
  z_type :: string
  z_lat :: real
  z_lng :: real
  z_name :: string
  z_rating :: int
  z_radius :: int
  z_created :: nat

record pin_row =
  pin_id :: int
  pin_lat :: real
  pin_lng :: real
  pin_created :: nat

record map_db =
  zones :: "zone_row list"
  pins :: "pin_row list"

section \<open>Seeding the default zones\<close>

definition default_zone :: "nat \<Rightarrow> string \<Rightarrow> string \<Rightarrow> real \<Rightarrow> real \<Rightarrow> string \<Rightarrow> int \<Rightarrow> int \<Rightarrow> zone_row" where
  "default_zone now i t la lo n r rad =
     \<lparr>z_id = i, z_type = t, z_lat = decimal_round 8 la, z_lng = decimal_round 8 lo, z_name = n,
      z_rating = r, z_radius = rad, z_created = now\<rparr>"

definition default_zones :: "nat \<Rightarrow> zone_row list" where
  "default_zones now =
     [default_zone now ''default-safe-1'' ''safe'' 31.3290 75.5740 ''DAV College Area'' 5 300,
      default_zone now ''default-safe-2'' ''safe'' 31.3240 75.5810 ''Model Town'' 4 400,
      default_zone now ''default-safe-3'' ''safe'' 31.3300 75.5700 ''Civil Lines'' 4 350,
      default_zone now ''default-danger-1'' ''danger'' 31.3180 75.5820 ''Cantt Area'' 2 200,
      default_zone now ''default-danger-2'' ''danger'' 31.3350 75.5650 ''GT Road Junction'' 2 150]"

text \<open>\<open>if (existingZones[0].count === 0)\<close>: insert the defaults one by one.\<close>

definition seed_zones :: "nat \<Rightarrow> map_db \<Rightarrow> map_db" where
  "seed_zones now db = (if zones db = [] then db\<lparr>zones := default_zones now\<rparr> else db)"

section \<open>Zones\<close>

record zone_req =
  zq_id :: "string js_value"
  zq_type :: "string js_value"
  zq_lat :: "real js_value"
  zq_lng :: "real js_value"
  zq_name :: "string js_value"
  zq_rating :: "int js_value"
  zq_radius :: "int js_value"

text \<open>
  \<open>INSERT INTO safety_zones (id, type, lat, lng, name, rating, radius)\<close>: every column is
  \<open>NOT NULL\<close>; \<open>id VARCHAR(50)\<close> is the primary key, \<open>type VARCHAR(10)\<close>,
  \<open>name VARCHAR(255)\<close>, \<open>rating\<close> and \<open>radius\<close> are \<open>INT\<close>. The server checks
  neither the type nor the rating nor the sign of the radius.
\<close>

definition create_zone :: "nat \<Rightarrow> zone_req \<Rightarrow> map_db \<Rightarrow> sql_error + map_db" where
  "create_zone now rq db =
     (if is_undefined (zq_id rq) \<or> is_undefined (zq_type rq) \<or> is_undefined (zq_lat rq)
         \<or> is_undefined (zq_lng rq) \<or> is_undefined (zq_name rq) \<or> is_undefined (zq_rating rq)
         \<or> is_undefined (zq_radius rq)
      then Inl BindUndefined
      else case (js_val (zq_id rq), js_val (zq_type rq), js_val (zq_lat rq), js_val (zq_lng rq),
                 js_val (zq_name rq), js_val (zq_rating rq), js_val (zq_radius rq)) of
        (Some i, Some t, Some la, Some lo, Some n, Some r, Some rad) \<Rightarrow>
          if \<not> (varchar_fits 50 i \<and> varchar_fits 10 t \<and> varchar_fits 255 n) then Inl DataTooLong
          else if \<not> (decimal_fits 10 8 la \<and> decimal_fits 11 8 lo \<and> int_fits r \<and> int_fits rad)
          then Inl OutOfRange
          else if list_ex (\<lambda>z. z_id z = i) (zones db) then Inl DuplicateKey
          else Inr (db\<lparr>zones := zones db @
                 [\<lparr>z_id = i, z_type = t, z_lat = decimal_round 8 la, z_lng = decimal_round 8 lo,
                   z_name = n, z_rating = r, z_radius = rad, z_created = now\<rparr>]\<rparr>)
      | _ \<Rightarrow> Inl NotNullViolation)"

text \<open>
  One zone as \<open>GET /api/zones\<close> answers it: safe zones carry \<open>volunteers: 0\<close>,
  danger zones \<open>incidents: 1\<close>; both claim \<open>isUserCreated: true\<close> and
  \<open>totalRatings: 1\<close>.
\<close>

record zone_view =
  zv_id :: string
  zv_lat :: real
  zv_lng :: real
  zv_name :: string
  zv_rating :: int
  zv_radius :: int
  zv_user_created :: bool
  zv_volunteers :: "nat option"
  zv_incidents :: "nat option"
  zv_total_ratings :: nat

definition zones_newest_first :: "zone_row list \<Rightarrow> zone_row list" where
  "zones_newest_first zs = sort_key (\<lambda>z. - int (z_created z)) zs"

definition safe_view :: "zone_row \<Rightarrow> zone_view" where
  "safe_view z =
     \<lparr>zv_id = z_id z, zv_lat = z_lat z, zv_lng = z_lng z, zv_name = z_name z, zv_rating = z_rating z,
      zv_radius = z_radius z, zv_user_created = True, zv_volunteers = Some 0, zv_incidents = None,
      zv_total_ratings = 1\<rparr>"

definition danger_view :: "zone_row \<Rightarrow> zone_view" where
  "danger_view z =
     \<lparr>zv_id = z_id z, zv_lat = z_lat z, zv_lng = z_lng z, zv_name = z_name z, zv_rating = z_rating z,
      zv_radius = z_radius z, zv_user_created = True, zv_volunteers = None, zv_incidents = Some 1,
      zv_total_ratings = 1\<rparr>"

definition list_zones :: "map_db \<Rightarrow> zone_view list \<times> zone_view list" where
  "list_zones db =
     (let rows = zones_newest_first (zones db)
      in (map safe_view (filter (\<lambda>z. z_type z = ''safe'') rows),
          map danger_view (filter (\<lambda>z. z_type z = ''danger'') rows)))"

section \<open>Pins\<close>

record pin_req =
  pq_id :: "int js_value"
  pq_lat :: "real js_value"
  pq_lng :: "real js_value"

text \<open>\<open>INSERT INTO dropped_pins (id, lat, lng)\<close>: \<open>id BIGINT\<close> primary key.\<close>

definition bigint_fits :: "int \<Rightarrow> bool" where
  "bigint_fits i \<longleftrightarrow> - (2 ^ 63) \<le> i \<and> i < 2 ^ 63"

definition create_pin :: "nat \<Rightarrow> pin_req \<Rightarrow> map_db \<Rightarrow> sql_error + map_db" where
  "create_pin now rq db =
     (if is_undefined (pq_id rq) \<or> is_undefined (pq_lat rq) \<or> is_undefined (pq_lng rq)
      then Inl BindUndefined
      else case (js_val (pq_id rq), js_val (pq_lat rq), js_val (pq_lng rq)) of
        (Some i, Some la, Some lo) \<Rightarrow>
          if \<not> (bigint_fits i \<and> decimal_fits 10 8 la \<and> decimal_fits 11 8 lo) then Inl OutOfRange
          else if list_ex (\<lambda>p. pin_id p = i) (pins db) then Inl DuplicateKey
          else Inr (db\<lparr>pins := pins db @
                 [\<lparr>pin_id = i, pin_lat = decimal_round 8 la, pin_lng = decimal_round 8 lo,
                   pin_created = now\<rparr>]\<rparr>)
      | _ \<Rightarrow> Inl NotNullViolation)"

text \<open>
  \<open>DELETE FROM dropped_pins WHERE id = ?\<close> answers success whether or not a pin had
  that id. The path parameter is a string that MySQL compares numerically with the
  \<open>BIGINT\<close> column; it is taken here as the number it denotes.
\<close>

definition delete_pin :: "int \<Rightarrow> map_db \<Rightarrow> map_db" where
  "delete_pin i db = db\<lparr>pins := filter (\<lambda>p. pin_id p \<noteq> i) (pins db)\<rparr>"

record pin_view =
  pv_id :: int
  pv_lat :: real
  pv_lng :: real
  pv_timestamp :: nat

text \<open>
  \<open>SELECT * FROM dropped_pins\<close> has no \<open>ORDER BY\<close>; insertion order is taken. The
  \<open>timestamp\<close> of a listed pin is its \<open>created_at\<close>, the second of the insert, read
  as the instant (in milliseconds) that second begins.
\<close>

definition list_pins :: "map_db \<Rightarrow> pin_view list" where
  "list_pins db =
     map (\<lambda>p. \<lparr>pv_id = pin_id p, pv_lat = pin_lat p, pv_lng = pin_lng p, pv_timestamp = pin_created p * 1000\<rparr>)
       (pins db)"

definition health :: "string \<times> string" where
  "health = (''OK'', ''GuardAid Backend is running'')"

end
