(* ===== verification/Server.thy ===== *)
theory Server
  imports Quorum Zones_Pins
begin

text \<open>
  The whole backend of \<^verbatim>\<open>src/backend/server.js\<close> as one state machine: the store is
  the four tables, a request is one of the ten routes, and \<open>serve\<close> answers it the way
  the route's handler does (\<open>{success: true}\<close>, a JSON body, or HTTP 500 with the
  route's error message). \<open>initDB\<close> creates empty tables and seeds the default zones;
  the reachable stores are those that a sequence of requests produces from there.
\<close>

section \<open>Requests and answers\<close>

record server_db =
  inc_db :: incident_db
  zone_db :: map_db

datatype request =
    GetZones
  | PostZone zone_req
  | GetPins
  | PostPin pin_req
  | DeletePin int
  | GetIncidents
  | PostIncident incident_req
  | PostAction string action_req
  | GetPending
  | GetHealth

datatype response =
    ZonesBody "zone_view list \<times> zone_view list"
  | PinsBody "pin_view list"
  | IncidentsBody "incident_row list"
  | PendingBody "pending_row list"
  | HealthBody "string \<times> string"
  | Success
  | ServerError string

definition answer :: "string \<Rightarrow> ('e + 'a) \<Rightarrow> ('a \<Rightarrow> server_db) \<Rightarrow> server_db \<Rightarrow> response \<times> server_db" where
  "answer msg r upd s = (case r of Inl _ \<Rightarrow> (ServerError msg, s) | Inr x \<Rightarrow> (Success, upd x))"

fun serve :: "nat \<Rightarrow> request \<Rightarrow> server_db \<Rightarrow> response \<times> server_db" where
  "serve now GetZones s = (ZonesBody (list_zones (zone_db s)), s)"
| "serve now (PostZone rq) s =
     answer ''Failed to create zone'' (create_zone now rq (zone_db s)) (\<lambda>m. s\<lparr>zone_db := m\<rparr>) s"
| "serve now GetPins s = (PinsBody (list_pins (zone_db s)), s)"
| "serve now (PostPin rq) s =
     answer ''Failed to create pin'' (create_pin now rq (zone_db s)) (\<lambda>m. s\<lparr>zone_db := m\<rparr>) s"
| "serve now (DeletePin i) s = (Success, s\<lparr>zone_db := delete_pin i (zone_db s)\<rparr>)"
| "serve now GetIncidents s = (IncidentsBody (list_incidents (inc_db s)), s)"
| "serve now (PostIncident rq) s =
     answer ''Failed to create incident'' (create_incident now rq (inc_db s)) (\<lambda>d. s\<lparr>inc_db := d\<rparr>) s"
| "serve now (PostAction iid rq) s =
     answer ''Failed to process action'' (incident_action now iid rq (inc_db s)) (\<lambda>d. s\<lparr>inc_db := d\<rparr>) s"
| "serve now GetPending s = (PendingBody (list_pending (inc_db s)), s)"
| "serve now GetHealth s = (HealthBody health, s)"

definition init_db :: "nat \<Rightarrow> server_db" where
  "init_db now =
     \<lparr>inc_db = \<lparr>incidents = [], approvals = []\<rparr>,
      zone_db = seed_zones now \<lparr>zones = [], pins = []\<rparr>\<rparr>"

inductive reachable :: "server_db \<Rightarrow> bool" where
  init: "reachable (init_db t)"
| step: "reachable s \<Longrightarrow> reachable (snd (serve t rq s))"

section \<open>The store invariant\<close>

text \<open>
  What the constraints of the schema and the quorum update keep true of the incident
  tables: primary and unique keys, the foreign key of the approvals, a pending incident
  has fewer than three approvals and fewer than three rejections, the \<open>_by\<close> column of
  an approved or resolved incident is set, and the recorded approver has a vote on
  record. The zone and pin tables keep their primary keys.
\<close>

definition incident_inv :: "incident_db \<Rightarrow> bool" where
  "incident_inv d \<longleftrightarrow>
     distinct (map inc_id (incidents d)) \<and> distinct (map ap_key (approvals d)) \<and>
     list_all (\<lambda>r. list_ex (\<lambda>x. inc_id x = ap_incident r) (incidents d)) (approvals d) \<and>
     list_all (\<lambda>x. inc_status x = Pending \<longrightarrow>
                    count_action (inc_id x) ''approve'' (approvals d) < quorum \<and>
                    count_action (inc_id x) ''reject'' (approvals d) < quorum) (incidents d) \<and>
     list_all (\<lambda>x. inc_status x = Approved \<longrightarrow> inc_approved_by x \<noteq> None) (incidents d) \<and>
     list_all (\<lambda>x. inc_status x = Resolved \<longrightarrow> inc_resolved_by x \<noteq> None) (incidents d) \<and>
     list_all (\<lambda>x. case inc_approved_by x of None \<Rightarrow> True
                   | Some v \<Rightarrow> list_ex (\<lambda>r. ap_key r = (inc_id x, v)) (approvals d)) (incidents d)"

definition map_inv :: "map_db \<Rightarrow> bool" where
  "map_inv m \<longleftrightarrow> distinct (map z_id (zones m)) \<and> distinct (map pin_id (pins m))"

definition server_inv :: "server_db \<Rightarrow> bool" where
  "server_inv s \<longleftrightarrow> incident_inv (inc_db s) \<and> map_inv (zone_db s)"

definition sample_report :: incident_req where
  "sample_report =
     \<lparr>rq_id = JsVal ''incident-1'', rq_type = JsVal ''safety_concern'', rq_lat = JsVal 31.33,
      rq_lng = JsVal 75.57, rq_description = JsVal [], rq_severity = JsVal ''medium'',
      rq_reporter = JsVal ''current_user''\<rparr>"

abbreviation first_report_db :: server_db where
  "first_report_db \<equiv> snd (serve 1 (PostIncident sample_report) (init_db 0))"

definition unchecked_zone :: zone_req where
  "unchecked_zone =
     \<lparr>zq_id = JsVal ''user-zone-1'', zq_type = JsVal ''unsafe'', zq_lat = JsVal 31.33,
      zq_lng = JsVal 75.57, zq_name = JsVal ''Pin Location'', zq_rating = JsVal 9,
      zq_radius = JsVal (-200)\<rparr>"

section \<open>Each handler keeps the invariant\<close>

lemma count_action_upsert_other:
  "iid' \<noteq> iid \<Longrightarrow> count_action iid' a (upsert_approval iid vid act c aps) = count_action iid' a aps"
proof (cases "list_ex (\<lambda>r. ap_key r = (iid, vid)) aps")
  case True
  assume ne: "iid' \<noteq> iid"
  let ?g = "\<lambda>r. if ap_key r = (iid, vid) then r\<lparr>ap_action := act, ap_comment := c\<rparr> else r"
  have "(ap_incident (?g r) = iid' \<and> ap_action (?g r) = a) = (ap_incident r = iid' \<and> ap_action r = a)" for r
    using ne by (auto simp: ap_key_def)
  then have "(\<lambda>r. ap_incident r = iid' \<and> ap_action r = a) \<circ> ?g = (\<lambda>r. ap_incident r = iid' \<and> ap_action r = a)"
    by (simp add: fun_eq_iff)
  then show ?thesis using True
    by (simp add: upsert_approval_def count_action_def)
next
  case False
  assume "iid' \<noteq> iid"
  with False show ?thesis by (simp add: upsert_approval_def count_action_def)
qed

lemma count_action_no_rows:
  "list_all (\<lambda>r. list_ex (\<lambda>x. inc_id x = ap_incident r) incs) aps \<Longrightarrow>
   \<not> list_ex (\<lambda>x. inc_id x = i) incs \<Longrightarrow> count_action i a aps = 0"
  by (auto simp: count_action_def list_all_iff list_ex_iff filter_empty_conv)

lemma incident_action_Inr:
  assumes "incident_action now iid rq db = Inr db'"
  obtains act vid where "rq_action rq = JsVal act" "rq_volunteer rq = JsVal vid"
    "list_ex (\<lambda>x. inc_id x = iid) (incidents db)"
    "approvals db' = upsert_approval iid vid act (js_val (rq_comment rq)) (approvals db)"
    "incidents db' = update_incident iid
        (status_update iid vid act (upsert_approval iid vid act (js_val (rq_comment rq)) (approvals db)))
        now (incidents db)"
  using assms
  by (auto simp: incident_action_def Let_def split: if_splits option.splits js_value.splits)

lemma status_update_id [simp]: "inc_id (status_update iid vid act aps x) = inc_id x"
  by (simp add: status_update_def)

lemma status_update_Pending:
  "inc_status (status_update iid vid act aps x) = Pending \<Longrightarrow>
     inc_status x = Pending \<and> count_action iid ''approve'' aps < quorum \<and> count_action iid ''reject'' aps < quorum"
  by (auto simp: status_update_def split: if_splits)

lemma status_update_Approved:
  "inc_status (status_update iid vid act aps x) = Approved \<Longrightarrow>
     inc_approved_by (status_update iid vid act aps x) = Some vid \<or>
     (inc_status x = Approved \<and> inc_approved_by (status_update iid vid act aps x) = inc_approved_by x)"
  by (auto simp: status_update_def split: if_splits)

lemma status_update_Resolved:
  "inc_status (status_update iid vid act aps x) = Resolved \<Longrightarrow>
     inc_resolved_by (status_update iid vid act aps x) = Some vid \<or>
     (inc_status x = Resolved \<and> inc_resolved_by (status_update iid vid act aps x) = inc_resolved_by x)"
  by (auto simp: status_update_def split: if_splits)

lemma status_update_approved_by:
  "inc_approved_by (status_update iid vid act aps x) = Some v \<Longrightarrow> v = vid \<or> inc_approved_by x = Some v"
  by (auto simp: status_update_def split: if_splits)

lemma incident_action_inv:
  assumes inv: "incident_inv d" and r: "incident_action now iid rq d = Inr d'"
  shows "incident_inv d'"
proof -
  obtain act vid where ex: "list_ex (\<lambda>x. inc_id x = iid) (incidents d)"
    and aps': "approvals d' = upsert_approval iid vid act (js_val (rq_comment rq)) (approvals d)"
    and incs': "incidents d' = update_incident iid
        (status_update iid vid act (upsert_approval iid vid act (js_val (rq_comment rq)) (approvals d)))
        now (incidents d)"
    using incident_action_Inr [OF r] by metis
  let ?aps = "upsert_approval iid vid act (js_val (rq_comment rq)) (approvals d)"
  let ?f = "status_update iid vid act ?aps"
  have keys: "ap_key ` set (approvals d') = insert (iid, vid) (ap_key ` set (approvals d))"
    using aps' keys_upsert_approval by simp
  have ids: "map inc_id (incidents d') = map inc_id (incidents d)"
    using incs' by simp
  have idset: "inc_id ` set (incidents d') = inc_id ` set (incidents d)"
    using ids by (metis list.set_map)
  have cnt: "count_action j a (approvals d') = count_action j a (approvals d)" if "j \<noteq> iid" for j a
    using that aps' count_action_upsert_other by simp
  have mem: "\<exists>x \<in> set (incidents d). (inc_id x = iid \<and> x' = touch_incident now x (?f x)) \<or>
                                     (inc_id x \<noteq> iid \<and> x' = x)"
    if "x' \<in> set (incidents d')" for x'
    using that incs' set_update_incident by metis
  have old: "distinct (map inc_id (incidents d))" "distinct (map ap_key (approvals d))"
    "\<forall>r \<in> set (approvals d). \<exists>x \<in> set (incidents d). inc_id x = ap_incident r"
    "\<forall>x \<in> set (incidents d). inc_status x = Pending \<longrightarrow>
        count_action (inc_id x) ''approve'' (approvals d) < quorum \<and>
        count_action (inc_id x) ''reject'' (approvals d) < quorum"
    "\<forall>x \<in> set (incidents d). inc_status x = Approved \<longrightarrow> inc_approved_by x \<noteq> None"
    "\<forall>x \<in> set (incidents d). inc_status x = Resolved \<longrightarrow> inc_resolved_by x \<noteq> None"
    "\<forall>x \<in> set (incidents d). \<forall>v. inc_approved_by x = Some v \<longrightarrow> (inc_id x, v) \<in> ap_key ` set (approvals d)"
    using inv by (auto simp: incident_inv_def list_all_iff list_ex_iff split: option.splits) (metis image_eqI)
  have c1: "distinct (map inc_id (incidents d'))" using ids old(1) by simp
  have c2: "distinct (map ap_key (approvals d'))" using aps' old(2) distinct_upsert_approval by simp
  have c3: "\<forall>r \<in> set (approvals d'). \<exists>x \<in> set (incidents d'). inc_id x = ap_incident r"
  proof
    fix r assume "r \<in> set (approvals d')"
    then have "ap_key r \<in> insert (iid, vid) (ap_key ` set (approvals d))" using keys by blast
    then have "ap_incident r \<in> inc_id ` set (incidents d)"
      using old(3) ex by (auto simp: ap_key_def list_ex_iff) (metis image_eqI)
    then show "\<exists>x \<in> set (incidents d'). inc_id x = ap_incident r" using idset by (metis imageE)
  qed
  have c4: "\<forall>x' \<in> set (incidents d'). inc_status x' = Pending \<longrightarrow>
        count_action (inc_id x') ''approve'' (approvals d') < quorum \<and>
        count_action (inc_id x') ''reject'' (approvals d') < quorum"
  proof (intro ballI impI)
    fix x' assume x': "x' \<in> set (incidents d')" and p: "inc_status x' = Pending"
    from mem [OF x'] obtain x where x: "x \<in> set (incidents d)"
      and cases: "(inc_id x = iid \<and> x' = touch_incident now x (?f x)) \<or> (inc_id x \<noteq> iid \<and> x' = x)" by blast
    from cases show "count_action (inc_id x') ''approve'' (approvals d') < quorum \<and>
        count_action (inc_id x') ''reject'' (approvals d') < quorum"
    proof
      assume a: "inc_id x = iid \<and> x' = touch_incident now x (?f x)"
      then have "inc_status (?f x) = Pending" using p by simp
      from status_update_Pending [OF this] show ?thesis using a aps' by simp
    next
      assume a: "inc_id x \<noteq> iid \<and> x' = x"
      then show ?thesis using old(4) x p cnt by auto
    qed
  qed
  have c5: "\<forall>x' \<in> set (incidents d'). inc_status x' = Approved \<longrightarrow> inc_approved_by x' \<noteq> None"
  proof (intro ballI impI)
    fix x' assume x': "x' \<in> set (incidents d')" and p: "inc_status x' = Approved"
    from mem [OF x'] obtain x where x: "x \<in> set (incidents d)"
      and cases: "(inc_id x = iid \<and> x' = touch_incident now x (?f x)) \<or> (inc_id x \<noteq> iid \<and> x' = x)" by blast
    from cases show "inc_approved_by x' \<noteq> None"
    proof
      assume a: "inc_id x = iid \<and> x' = touch_incident now x (?f x)"
      then have "inc_status (?f x) = Approved" using p by simp
      from status_update_Approved [OF this] show ?thesis using a old(5) x by auto
    qed (use old(5) x p in auto)
  qed
  have c6: "\<forall>x' \<in> set (incidents d'). inc_status x' = Resolved \<longrightarrow> inc_resolved_by x' \<noteq> None"
  proof (intro ballI impI)
    fix x' assume x': "x' \<in> set (incidents d')" and p: "inc_status x' = Resolved"
    from mem [OF x'] obtain x where x: "x \<in> set (incidents d)"
      and cases: "(inc_id x = iid \<and> x' = touch_incident now x (?f x)) \<or> (inc_id x \<noteq> iid \<and> x' = x)" by blast
    from cases show "inc_resolved_by x' \<noteq> None"
    proof
      assume a: "inc_id x = iid \<and> x' = touch_incident now x (?f x)"
      then have "inc_status (?f x) = Resolved" using p by simp
      from status_update_Resolved [OF this] show ?thesis using a old(6) x by auto
    qed (use old(6) x p in auto)
  qed
  have c7: "\<forall>x' \<in> set (incidents d'). \<forall>v. inc_approved_by x' = Some v \<longrightarrow>
              (inc_id x', v) \<in> ap_key ` set (approvals d')"
  proof (intro ballI allI impI)
    fix x' v assume x': "x' \<in> set (incidents d')" and p: "inc_approved_by x' = Some v"
    from mem [OF x'] obtain x where x: "x \<in> set (incidents d)"
      and cases: "(inc_id x = iid \<and> x' = touch_incident now x (?f x)) \<or> (inc_id x \<noteq> iid \<and> x' = x)" by blast
    from cases show "(inc_id x', v) \<in> ap_key ` set (approvals d')"
    proof
      assume a: "inc_id x = iid \<and> x' = touch_incident now x (?f x)"
      then have "inc_approved_by (?f x) = Some v" using p by simp
      from status_update_approved_by [OF this] show ?thesis using a old(7) x keys by auto
    qed (use old(7) x p keys in auto)
  qed
  show ?thesis
    using c1 c2 c3 c4 c5 c6 c7
    by (auto simp: incident_inv_def list_all_iff list_ex_iff split: option.splits) (metis imageE)
qed

lemma create_incident_Inr:
  assumes "create_incident now rq d = Inr d'"
  obtains x where "approvals d' = approvals d" "incidents d' = incidents d @ [x]"
    "\<not> list_ex (\<lambda>y. inc_id y = inc_id x) (incidents d)"
    "inc_status x = Pending" "inc_approved_by x = None" "inc_resolved_by x = None"
  using assms
  by (auto simp: create_incident_def Let_def split: if_splits option.splits js_value.splits)

lemma create_incident_inv:
  assumes inv: "incident_inv d" and r: "create_incident now rq d = Inr d'"
  shows "incident_inv d'"
proof -
  obtain x where a: "approvals d' = approvals d" and i: "incidents d' = incidents d @ [x]"
    and fresh: "\<not> list_ex (\<lambda>y. inc_id y = inc_id x) (incidents d)"
    and x: "inc_status x = Pending" "inc_approved_by x = None" "inc_resolved_by x = None"
    using create_incident_Inr [OF r] by metis
  have fk: "list_all (\<lambda>r. list_ex (\<lambda>y. inc_id y = ap_incident r) (incidents d)) (approvals d)"
    using inv by (simp add: incident_inv_def)
  have "count_action (inc_id x) a (approvals d) = 0" for a
    using count_action_no_rows [OF fk fresh] .
  then show ?thesis
    using inv fresh x unfolding incident_inv_def a i
    by (auto simp: list_all_iff list_ex_iff quorum_def)
qed

lemma create_zone_inv:
  "map_inv m \<Longrightarrow> create_zone now rq m = Inr m' \<Longrightarrow> map_inv m'"
  by (auto simp: create_zone_def map_inv_def list_ex_iff Let_def split: if_splits option.splits js_value.splits)

lemma create_pin_inv:
  "map_inv m \<Longrightarrow> create_pin now rq m = Inr m' \<Longrightarrow> map_inv m'"
  by (auto simp: create_pin_def map_inv_def list_ex_iff split: if_splits option.splits js_value.splits)

lemma delete_pin_inv: "map_inv m \<Longrightarrow> map_inv (delete_pin i m)"
  by (simp add: delete_pin_def map_inv_def distinct_map_filter)

lemma answer_cases:
  "snd (answer msg r upd s) = (case r of Inl _ \<Rightarrow> s | Inr x \<Rightarrow> upd x)"
  by (simp add: answer_def split: sum.splits)

lemma serve_inv: "server_inv s \<Longrightarrow> server_inv (snd (serve now rq s))"
proof (cases rq)
  case (PostZone zr)
  assume "server_inv s"
  with PostZone show ?thesis
    by (auto simp: server_inv_def answer_cases split: sum.splits dest: create_zone_inv)
next
  case (PostPin pr)
  assume "server_inv s"
  with PostPin show ?thesis
    by (auto simp: server_inv_def answer_cases split: sum.splits dest: create_pin_inv)
next
  case (PostIncident ir)
  assume "server_inv s"
  with PostIncident show ?thesis
    by (auto simp: server_inv_def answer_cases split: sum.splits dest: create_incident_inv)
next
  case (PostAction iid ar)
  assume "server_inv s"
  with PostAction show ?thesis
    by (auto simp: server_inv_def answer_cases split: sum.splits dest: incident_action_inv)
qed (auto simp: server_inv_def delete_pin_inv)

lemma init_inv: "server_inv (init_db t)"
  by (simp add: server_inv_def init_db_def incident_inv_def map_inv_def seed_zones_def default_zones_def default_zone_def)

lemma reachable_inv: "reachable s \<Longrightarrow> server_inv s"
  by (induction rule: reachable.induct) (auto simp: init_inv serve_inv)

section \<open>Properties of the reachable stores\<close>

lemma set_newest_first [simp]: "set (newest_first xs) = set xs"
  by (simp add: newest_first_def)

lemma inv_keys: "server_inv s \<Longrightarrow> distinct (map ap_key (approvals (inc_db s)))"
  by (simp add: server_inv_def incident_inv_def)

text \<open>
  C3. Every store reachable from the initial database by a sequence of requests satisfies
  the store invariant: unique incident ids, at most one approval row per incident and
  volunteer, every approval row refers to an incident, a pending incident has fewer than
  three approvals and fewer than three rejections, approved and resolved incidents name
  who approved or resolved them, the recorded approver has a vote on record, and zone
  and pin ids are unique.
\<close>

theorem reachable_store_invariant: "reachable s \<Longrightarrow> server_inv s"
  by (rule reachable_inv)

lemma first_report_reachable: "reachable (snd (serve 1 (PostIncident sample_report) (init_db 0)))"
  by (rule reachable.step [OF reachable.init])

lemma reachable_store_invariant_witness:
  "reachable (snd (serve 1 (PostIncident sample_report) (init_db 0))) \<and>
   server_inv (snd (serve 1 (PostIncident sample_report) (init_db 0)))"
  using first_report_reachable reachable_store_invariant [OF first_report_reachable] by blast

text \<open>
  C12. In every reachable store, the approval and rejection counts that
  \<open>GET /api/incidents\<close> lists for an incident are the numbers of distinct volunteers
  whose recorded vote is approve, respectively reject: no volunteer counts twice.
\<close>

theorem listed_counts_are_distinct_volunteers:
  assumes "reachable s" and "r \<in> set (list_incidents (inc_db s))"
  shows "row_approval_count r = votes_count (votes_of (row_id r) (approvals (inc_db s))) ''approve'' \<and>
         row_rejection_count r = votes_count (votes_of (row_id r) (approvals (inc_db s))) ''reject''"
proof -
  have keys: "distinct (map ap_key (approvals (inc_db s)))"
    using inv_keys [OF reachable_inv [OF assms(1)]] .
  show ?thesis using assms(2) count_action_votes [OF keys] by (auto simp: list_incidents_def)
qed

text \<open>
  C13. In every reachable store, \<open>GET /api/incidents/pending\<close> lists only pending
  incidents, each with fewer than three approvals and fewer than three rejections.
\<close>

theorem pending_listing_below_quorum:
  assumes "reachable s" and "r \<in> set (list_pending (inc_db s))"
  shows "prow_status r = Pending \<and> prow_approval_count r < quorum \<and> prow_rejection_count r < quorum"
proof -
  have inv: "incident_inv (inc_db s)" using reachable_inv [OF assms(1)] by (simp add: server_inv_def)
  from assms(2) obtain x where x: "x \<in> set (incidents (inc_db s))" "inc_status x = Pending"
    and r: "prow_status r = inc_status x"
      "prow_approval_count r = count_action (inc_id x) ''approve'' (approvals (inc_db s))"
      "prow_rejection_count r = count_action (inc_id x) ''reject'' (approvals (inc_db s))"
    by (auto simp: list_pending_def)
  then show ?thesis using inv by (auto simp: incident_inv_def list_all_iff)
qed

text \<open>
  C20. An action on an incident id that is not in the store fails with HTTP 500
  (\<open>Failed to process action\<close>, from the foreign key of the upsert) and leaves the
  store unchanged.
\<close>

theorem action_on_unknown_incident:
  assumes "\<not> list_ex (\<lambda>x. inc_id x = iid) (incidents (inc_db s))"
    and "rq_action rq = JsVal act" and "rq_volunteer rq = JsVal vid"
    and "\<not> is_undefined (rq_comment rq)" and "approval_fits iid vid act (js_val (rq_comment rq))"
  shows "serve now (PostAction iid rq) s = (ServerError ''Failed to process action'', s)"
  using assms by (simp add: incident_action_def answer_def)

text \<open>
  C37. Deleting a pin id that no pin has answers success and leaves the store unchanged:
  \<open>DELETE /api/pins/:id\<close> never reports an unknown id.
\<close>

theorem delete_unknown_pin:
  assumes "\<not> list_ex (\<lambda>p. pin_id p = i) (pins (zone_db s))"
  shows "serve now (DeletePin i) s = (Success, s)"
proof -
  have "filter (\<lambda>p. pin_id p \<noteq> i) (pins (zone_db s)) = pins (zone_db s)"
    using assms by (auto simp: list_ex_iff filter_id_conv)
  then show ?thesis by (simp add: delete_pin_def)
qed

text \<open>
  On a fresh database \<open>GET /api/zones\<close> answers the seeded defaults: the three safe
  zones DAV College Area, Model Town and Civil Lines and the two danger zones Cantt Area
  and GT Road Junction.
\<close>

theorem fresh_store_zones:
  "serve t GetZones (init_db t') =
     (ZonesBody (map safe_view (filter (\<lambda>z. z_type z = ''safe'') (default_zones t')),
                 map danger_view (filter (\<lambda>z. z_type z = ''danger'') (default_zones t'))), init_db t') \<and>
   map zv_name (fst (list_zones (zone_db (init_db t')))) = [''DAV College Area'', ''Model Town'', ''Civil Lines''] \<and>
   map zv_name (snd (list_zones (zone_db (init_db t')))) = [''Cantt Area'', ''GT Road Junction'']"
  by (simp add: init_db_def seed_zones_def list_zones_def zones_newest_first_def default_zones_def
      default_zone_def safe_view_def danger_view_def)

lemma first_report_listed:
  "list_incidents (inc_db first_report_db) \<noteq> [] \<and> list_pending (inc_db first_report_db) \<noteq> []"
  by (simp add: sample_report_def init_db_def answer_def create_incident_def sql_simps
      decimal_fits_def decimal_round_def list_pending_def)

lemma listed_counts_are_distinct_volunteers_witness:
  "reachable first_report_db \<and>
   hd (list_incidents (inc_db first_report_db)) \<in> set (list_incidents (inc_db first_report_db)) \<and>
   row_approval_count (hd (list_incidents (inc_db first_report_db))) =
     votes_count (votes_of (row_id (hd (list_incidents (inc_db first_report_db))))
                  (approvals (inc_db first_report_db))) ''approve'' \<and>
   row_rejection_count (hd (list_incidents (inc_db first_report_db))) =
     votes_count (votes_of (row_id (hd (list_incidents (inc_db first_report_db))))
                  (approvals (inc_db first_report_db))) ''reject''"
proof -
  have h: "reachable first_report_db"
    "hd (list_incidents (inc_db first_report_db)) \<in> set (list_incidents (inc_db first_report_db))"
    using first_report_reachable first_report_listed by simp_all
  show ?thesis using h listed_counts_are_distinct_volunteers [OF h] by blast
qed

lemma pending_listing_below_quorum_witness:
  "reachable first_report_db \<and>
   hd (list_pending (inc_db first_report_db)) \<in> set (list_pending (inc_db first_report_db)) \<and>
   prow_status (hd (list_pending (inc_db first_report_db))) = Pending \<and>
   prow_approval_count (hd (list_pending (inc_db first_report_db))) < quorum \<and>
   prow_rejection_count (hd (list_pending (inc_db first_report_db))) < quorum"
proof -
  have h: "reachable first_report_db"
    "hd (list_pending (inc_db first_report_db)) \<in> set (list_pending (inc_db first_report_db))"
    using first_report_reachable first_report_listed by simp_all
  show ?thesis using h pending_listing_below_quorum [OF h] by blast
qed

lemma action_on_unknown_incident_witness:
  "\<not> list_ex (\<lambda>x. inc_id x = ''missing'') (incidents (inc_db (init_db 0))) \<and>
   rq_action (volunteer_req ''V1'' ''approve'') = JsVal ''approve'' \<and>
   rq_volunteer (volunteer_req ''V1'' ''approve'') = JsVal ''V1'' \<and>
   \<not> is_undefined (rq_comment (volunteer_req ''V1'' ''approve'')) \<and>
   approval_fits ''missing'' ''V1'' ''approve'' (js_val (rq_comment (volunteer_req ''V1'' ''approve''))) \<and>
   serve 5 (PostAction ''missing'' (volunteer_req ''V1'' ''approve'')) (init_db 0) =
     (ServerError ''Failed to process action'', init_db 0)"
proof -
  have h: "\<not> list_ex (\<lambda>x. inc_id x = ''missing'') (incidents (inc_db (init_db 0)))"
    "rq_action (volunteer_req ''V1'' ''approve'') = JsVal ''approve''"
    "rq_volunteer (volunteer_req ''V1'' ''approve'') = JsVal ''V1''"
    "\<not> is_undefined (rq_comment (volunteer_req ''V1'' ''approve''))"
    "approval_fits ''missing'' ''V1'' ''approve'' (js_val (rq_comment (volunteer_req ''V1'' ''approve'')))"
    by (simp_all add: init_db_def sql_simps)
  show ?thesis using h action_on_unknown_incident [OF h, of 5] by blast
qed

lemma delete_unknown_pin_witness:
  "\<not> list_ex (\<lambda>p. pin_id p = 7) (pins (zone_db (init_db 0))) \<and>
   serve 1 (DeletePin 7) (init_db 0) = (Success, init_db 0)"
proof -
  have h: "\<not> list_ex (\<lambda>p. pin_id p = 7) (pins (zone_db (init_db 0)))"
    by (simp add: init_db_def seed_zones_def)
  show ?thesis using h delete_unknown_pin [OF h, of 1] by blast
qed

lemma list_zones_append_other:
  assumes "z_type z \<noteq> ''safe''" and "z_type z \<noteq> ''danger''"
  shows "list_zones (db\<lparr>zones := zones db @ [z]\<rparr>) = list_zones db"
  using assms by (simp add: list_zones_def zones_newest_first_def filter_sort)

text \<open>
  C21. The zone route validates neither the type nor the rating nor the radius. A zone
  request whose columns fit their SQL types and whose id is new is stored with answer
  success, whatever its type, rating and radius; when its type is neither \<open>safe\<close> nor
  \<open>danger\<close>, \<open>GET /api/zones\<close> then lists exactly the zones it listed before.
\<close>

theorem unchecked_zone_stored_unlisted:
  assumes rq: "zq_id rq = JsVal i" "zq_type rq = JsVal t" "zq_lat rq = JsVal la" "zq_lng rq = JsVal lo"
      "zq_name rq = JsVal n" "zq_rating rq = JsVal r" "zq_radius rq = JsVal rad"
    and fits: "varchar_fits 50 i" "varchar_fits 10 t" "varchar_fits 255 n"
      "decimal_fits 10 8 la" "decimal_fits 11 8 lo" "int_fits r" "int_fits rad"
    and fresh: "\<not> list_ex (\<lambda>z. z_id z = i) (zones (zone_db s))"
  shows "\<exists>s'. serve now (PostZone rq) s = (Success, s') \<and>
           list_ex (\<lambda>z. z_id z = i \<and> z_type z = t \<and> z_rating z = r \<and> z_radius z = rad) (zones (zone_db s')) \<and>
           (t \<noteq> ''safe'' \<and> t \<noteq> ''danger'' \<longrightarrow> list_zones (zone_db s') = list_zones (zone_db s))"
proof -
  let ?z = "\<lparr>z_id = i, z_type = t, z_lat = decimal_round 8 la, z_lng = decimal_round 8 lo,
             z_name = n, z_rating = r, z_radius = rad, z_created = now\<rparr>"
  have c: "create_zone now rq (zone_db s) = Inr ((zone_db s)\<lparr>zones := zones (zone_db s) @ [?z]\<rparr>)"
    using rq fits fresh by (simp add: create_zone_def)
  show ?thesis
    using c list_zones_append_other[of ?z "zone_db s"] by (simp add: answer_def)
qed

lemma unchecked_zone_stored_unlisted_witness:
  "zq_id unchecked_zone = JsVal ''user-zone-1'' \<and> zq_type unchecked_zone = JsVal ''unsafe'' \<and>
   zq_lat unchecked_zone = JsVal 31.33 \<and> zq_lng unchecked_zone = JsVal 75.57 \<and>
   zq_name unchecked_zone = JsVal ''Pin Location'' \<and> zq_rating unchecked_zone = JsVal 9 \<and>
   zq_radius unchecked_zone = JsVal (-200) \<and>
   varchar_fits 50 ''user-zone-1'' \<and> varchar_fits 10 ''unsafe'' \<and> varchar_fits 255 ''Pin Location'' \<and>
   decimal_fits 10 8 31.33 \<and> decimal_fits 11 8 75.57 \<and> int_fits 9 \<and> int_fits (-200) \<and>
   \<not> list_ex (\<lambda>z. z_id z = ''user-zone-1'') (zones (zone_db (init_db 0))) \<and>
   (\<exists>s'. serve 1 (PostZone unchecked_zone) (init_db 0) = (Success, s') \<and>
      list_ex (\<lambda>z. z_id z = ''user-zone-1'' \<and> z_type z = ''unsafe'' \<and> z_rating z = 9 \<and> z_radius z = -200) (zones (zone_db s')) \<and>
      list_zones (zone_db s') = list_zones (zone_db (init_db 0)))"
proof -
  have h: "zq_id unchecked_zone = JsVal ''user-zone-1''" "zq_type unchecked_zone = JsVal ''unsafe''"
    "zq_lat unchecked_zone = JsVal 31.33" "zq_lng unchecked_zone = JsVal 75.57"
    "zq_name unchecked_zone = JsVal ''Pin Location''" "zq_rating unchecked_zone = JsVal 9"
    "zq_radius unchecked_zone = JsVal (-200)"
    by (simp_all add: unchecked_zone_def)
  have f: "varchar_fits 50 ''user-zone-1''" "varchar_fits 10 ''unsafe''" "varchar_fits 255 ''Pin Location''"
    "decimal_fits 10 8 31.33" "decimal_fits 11 8 75.57" "int_fits 9" "int_fits (-200)"
    by (simp_all add: varchar_fits_def decimal_fits_def decimal_round_def int_fits_def)
  have fr: "\<not> list_ex (\<lambda>z. z_id z = ''user-zone-1'') (zones (zone_db (init_db 0)))"
    by (simp add: init_db_def seed_zones_def default_zones_def default_zone_def)
  show ?thesis using h f fr unchecked_zone_stored_unlisted[OF h f fr, of 1] by simp
qed

end
