(* ===== verification/Api_Client.thy ===== *)
theory Api_Client
  imports Server
begin

text \<open>
  The client's access to the backend, \<^verbatim>\<open>src/src/services/apiService.js\<close>. A request
  travels over a network that may be unavailable (\<open>fetch\<close> rejects); when it arrives,
  the backend model \<open>serve\<close> answers it. Every method of \<open>ApiService\<close> wraps its
  request in \<open>try ... catch\<close>: a rejected \<open>fetch\<close> or a non-2xx status
  (\<open>!response.ok\<close>, the HTTP 500 of a failed handler) gives the method's default value.
  The promise a method returns is an \<open>api_outcome\<close>: it resolves (\<open>Returned\<close>) or it
  rejects (\<open>Threw\<close>); the callers' \<open>catch\<close> branches are written against the latter.
  The configuration of \<^verbatim>\<open>src/src/config/api-config.js\<close> closes the theory.
\<close>

section \<open>Transport\<close>

datatype 'a api_outcome = Returned 'a | Threw

text \<open>
  \<open>fetch(url, options)\<close>: \<open>None\<close> when the network rejects the request. The client's
  \<open>now\<close> is \<open>Date.now()\<close>, in milliseconds; the backend serves the request at the
  second \<open>now div 1000\<close>, the value its \<open>TIMESTAMP DEFAULT CURRENT_TIMESTAMP\<close> columns
  record (the two machines' clocks are taken to agree).
\<close>

definition api_send :: "bool \<Rightarrow> nat \<Rightarrow> request \<Rightarrow> server_db \<Rightarrow> response option \<times> server_db" where
  "api_send up now rq db = (if up then (let (r, db') = serve (now div 1000) rq db in (Some r, db')) else (None, db))"

text \<open>
  \<open>if (!response.ok) throw ...; return await response.json()\<close> inside a \<open>try\<close> whose
  \<open>catch\<close> returns the default: the body when the answer is a 2xx of the expected
  shape, the default otherwise.
\<close>

definition api_json :: "'a \<Rightarrow> (response \<Rightarrow> 'a option) \<Rightarrow> response option \<Rightarrow> 'a" where
  "api_json dflt dec r = (case r of Some (ServerError _) \<Rightarrow> dflt | Some x \<Rightarrow> (case dec x of Some v \<Rightarrow> v | None \<Rightarrow> dflt) | None \<Rightarrow> dflt)"

definition api_call :: "'a \<Rightarrow> (response \<Rightarrow> 'a option) \<Rightarrow> bool \<Rightarrow> nat \<Rightarrow> request \<Rightarrow> server_db \<Rightarrow> 'a api_outcome \<times> server_db" where
  "api_call dflt dec up now rq db = (let (r, db') = api_send up now rq db in (Returned (api_json dflt dec r), db'))"

section \<open>The methods of ApiService\<close>

text \<open>The bodies the routes answer with, as the client reads them.\<close>

fun zones_body :: "response \<Rightarrow> (zone_view list \<times> zone_view list) option" where
  "zones_body (ZonesBody z) = Some z"
| "zones_body _ = None"

fun pins_body :: "response \<Rightarrow> pin_view list option" where
  "pins_body (PinsBody ps) = Some ps"
| "pins_body _ = None"

fun incidents_body :: "response \<Rightarrow> incident_row list option" where
  "incidents_body (IncidentsBody rs) = Some rs"
| "incidents_body _ = None"

fun pending_body :: "response \<Rightarrow> pending_row list option" where
  "pending_body (PendingBody rs) = Some rs"
| "pending_body _ = None"

fun success_body :: "response \<Rightarrow> bool option option" where
  "success_body Success = Some (Some True)"
| "success_body _ = None"

fun health_body :: "response \<Rightarrow> (string \<times> string) option option" where
  "health_body (HealthBody h) = Some (Some h)"
| "health_body _ = None"

definition fetch_zones :: "bool \<Rightarrow> nat \<Rightarrow> server_db \<Rightarrow> (zone_view list \<times> zone_view list) api_outcome \<times> server_db" where
  "fetch_zones = (\<lambda>up now. api_call ([], []) zones_body up now GetZones)"

definition create_zone_api :: "bool \<Rightarrow> nat \<Rightarrow> zone_req \<Rightarrow> server_db \<Rightarrow> bool option api_outcome \<times> server_db" where
  "create_zone_api up now z = api_call None success_body up now (PostZone z)"

definition fetch_pins :: "bool \<Rightarrow> nat \<Rightarrow> server_db \<Rightarrow> pin_view list api_outcome \<times> server_db" where
  "fetch_pins = (\<lambda>up now. api_call [] pins_body up now GetPins)"

definition create_pin_api :: "bool \<Rightarrow> nat \<Rightarrow> pin_req \<Rightarrow> server_db \<Rightarrow> bool option api_outcome \<times> server_db" where
  "create_pin_api up now p = api_call None success_body up now (PostPin p)"

definition delete_pin_api :: "bool \<Rightarrow> nat \<Rightarrow> int \<Rightarrow> server_db \<Rightarrow> bool option api_outcome \<times> server_db" where
  "delete_pin_api up now i = api_call None success_body up now (DeletePin i)"

definition check_server_health :: "bool \<Rightarrow> nat \<Rightarrow> server_db \<Rightarrow> (string \<times> string) option api_outcome \<times> server_db" where
  "check_server_health = (\<lambda>up now. api_call None health_body up now GetHealth)"

definition fetch_incidents :: "bool \<Rightarrow> nat \<Rightarrow> server_db \<Rightarrow> incident_row list api_outcome \<times> server_db" where
  "fetch_incidents = (\<lambda>up now. api_call [] incidents_body up now GetIncidents)"

definition fetch_pending_incidents :: "bool \<Rightarrow> nat \<Rightarrow> server_db \<Rightarrow> pending_row list api_outcome \<times> server_db" where
  "fetch_pending_incidents = (\<lambda>up now. api_call [] pending_body up now GetPending)"

definition create_incident_api :: "bool \<Rightarrow> nat \<Rightarrow> incident_req \<Rightarrow> server_db \<Rightarrow> bool option api_outcome \<times> server_db" where
  "create_incident_api up now rq = api_call None success_body up now (PostIncident rq)"

definition volunteer_action_api :: "bool \<Rightarrow> nat \<Rightarrow> string \<Rightarrow> action_req \<Rightarrow> server_db \<Rightarrow> bool option api_outcome \<times> server_db" where
  "volunteer_action_api up now iid rq = api_call None success_body up now (PostAction iid rq)"

text \<open>A zone whose id is that of a seeded default zone.\<close>

definition duplicate_zone :: zone_req where
  "duplicate_zone =
     \<lparr>zq_id = JsVal ''default-safe-1'', zq_type = JsVal ''safe'', zq_lat = JsVal 31, zq_lng = JsVal 75,
      zq_name = JsVal ''Duplicate'', zq_rating = JsVal 5, zq_radius = JsVal 300\<rparr>"

section \<open>API configuration\<close>

text \<open>
  \<open>getApiBaseUrl\<close> chooses the backend by the page's host name, and \<open>HEALTH_URL\<close>
  replaces the first \<open>/api\<close> of it by \<open>/health\<close>. No module imports
  \<open>API_CONFIG\<close>: \<open>ApiService\<close> uses its own fixed base URL.
\<close>

definition get_api_base_url :: "string \<Rightarrow> string" where
  "get_api_base_url host =
     (if host = ''localhost'' \<or> host = ''127.0.0.1'' then ''http://localhost:5001/api''
      else ''http://192.168.10.124:5001/api'')"

fun replace_first :: "string \<Rightarrow> string \<Rightarrow> string \<Rightarrow> string" where
  "replace_first pat rep [] = (if pat = [] then rep else [])"
| "replace_first pat rep (c # cs) =
     (if take (length pat) (c # cs) = pat then rep @ drop (length pat) (c # cs)
      else c # replace_first pat rep cs)"

definition health_url :: "string \<Rightarrow> string" where
  "health_url host = replace_first ''/api'' ''/health'' (get_api_base_url host)"

definition api_service_base :: string where
  "api_service_base = ''http://192.168.10.124:5001/api''"


section \<open>The contract between the routes and the client\<close>

definition is_server_error :: "response \<Rightarrow> bool" where
  "is_server_error r = (case r of ServerError _ \<Rightarrow> True | _ \<Rightarrow> False)"

text \<open>
  The body each request is answered with, as the \<open>ApiService\<close> method that sends it
  decodes it: the listings and the health check with their own body, the deletion with
  \<open>{success: true}\<close>, the other writes with \<open>{success: true}\<close> or an HTTP 500.
\<close>

definition response_fits :: "request \<Rightarrow> response \<Rightarrow> bool" where
  "response_fits rq r =
     (case rq of
        GetZones \<Rightarrow> zones_body r \<noteq> None
      | GetPins \<Rightarrow> pins_body r \<noteq> None
      | GetIncidents \<Rightarrow> incidents_body r \<noteq> None
      | GetPending \<Rightarrow> pending_body r \<noteq> None
      | GetHealth \<Rightarrow> health_body r \<noteq> None
      | DeletePin _ \<Rightarrow> r = Success
      | _ \<Rightarrow> r = Success \<or> is_server_error r)"

section \<open>Lemmas\<close>

lemma api_call_eq [simp]:
  "api_call dflt dec up now rq db =
     (Returned (api_json dflt dec (if up then Some (fst (serve (now div 1000) rq db)) else None)),
      if up then snd (serve (now div 1000) rq db) else db)"
  by (simp add: api_call_def api_send_def split_def Let_def)

lemmas api_methods = fetch_zones_def create_zone_api_def fetch_pins_def create_pin_api_def delete_pin_api_def
  check_server_health_def fetch_incidents_def fetch_pending_incidents_def create_incident_api_def volunteer_action_api_def

lemma api_json_down [simp]: "api_json dflt dec None = dflt"
  by (simp add: api_json_def)

text \<open>
  A request the backend answers with HTTP 500 resolves to \<open>null\<close>: when the insert
  of a zone fails, \<open>createZone\<close> resolves to \<open>null\<close> and the store is unchanged.
\<close>

lemma server_error_gives_null:
  "create_zone (now div 1000) z (zone_db db) = Inl e \<Longrightarrow> create_zone_api True now z db = (Returned None, db)"
  by (simp add: create_zone_api_def api_json_def answer_def)

lemma server_error_gives_null_witness:
  "create_zone (1000 div 1000) duplicate_zone (zone_db (init_db 0)) = Inl DuplicateKey \<and>
   create_zone_api True 1000 duplicate_zone (init_db 0) = (Returned None, init_db 0)"
proof -
  have h: "create_zone (1000 div 1000) duplicate_zone (zone_db (init_db 0)) = Inl DuplicateKey"
    by (simp add: create_zone_def duplicate_zone_def init_db_def seed_zones_def default_zones_def default_zone_def
        varchar_fits_def decimal_fits_def decimal_round_def int_fits_def)
  show ?thesis using server_error_gives_null[OF h] h by blast
qed

text \<open>
  Every route answers with the body its client method decodes. The four listings
  and the health check always answer with their own body, never with an error; a pin
  deletion always answers \<open>{success: true}\<close>. The other writes answer
  \<open>{success: true}\<close> or an HTTP 500, whatever the store and the request.
\<close>

lemma serve_response_fits: "response_fits rq (fst (serve now rq db))"
  by (cases rq) (simp_all add: response_fits_def answer_def is_server_error_def split: sum.splits)

end
