(* ===== verification/Route_Planner.thy ===== *)
theory Route_Planner
  imports Prelude
begin

text \<open>
  The danger-avoiding route planner of \<^verbatim>\<open>src/src/components/SafetyMap.jsx\<close>:
  \<open>getRealRoute\<close>, \<open>isPointSafe\<close>, \<open>calculateSafeRoute\<close> and the summary the
  \<open>RoutePlanner\<close> component computes from its answer. Two collaborators are
  parameters: the OSRM routing service (\<open>provider a b\<close> is the coordinate list of the
  first route it answers, \<open>None\<close> when the request fails or answers no route) and
  Leaflet's \<open>distanceTo\<close> (a distance in metres between two coordinates). Each call of
  \<open>getRealRoute\<close> is one request to the service; \<open>calculate_safe_route\<close> returns
  its answer together with the list of requests it issued, in order.
\<close>

section \<open>Coordinates, zones and the routing service\<close>

record coord =
  lat :: real
  lng :: real

record danger_zone =
  dz_lat :: real
  dz_lng :: real
  dz_radius :: real

type_synonym provider = "coord \<Rightarrow> coord \<Rightarrow> coord list option"
type_synonym dist_fn = "coord \<Rightarrow> coord \<Rightarrow> real"

definition zone_center :: "danger_zone \<Rightarrow> coord" where
  "zone_center z = \<lparr>lat = dz_lat z, lng = dz_lng z\<rparr>"

text \<open>\<open>getRealRoute\<close>: the service's route, or the straight line on any failure.\<close>

definition get_real_route :: "provider \<Rightarrow> coord \<Rightarrow> coord \<Rightarrow> coord list" where
  "get_real_route prov s e = (case prov s e of Some r \<Rightarrow> r | None \<Rightarrow> [s, e])"

text \<open>
  \<open>isPointSafe(point, dangerZones, safeDistance = 100)\<close>: the loop returns false at the
  first zone whose centre is closer than its radius plus the margin.
\<close>

fun is_point_safe :: "dist_fn \<Rightarrow> danger_zone list \<Rightarrow> real \<Rightarrow> coord \<Rightarrow> bool" where
  "is_point_safe d [] sd p = True"
| "is_point_safe d (z # zs) sd p =
     (if d p (zone_center z) < dz_radius z + sd then False else is_point_safe d zs sd p)"

definition safe_margin :: real where
  "safe_margin = 100"

section \<open>The safe route\<close>

record route_result =
  coordinates :: "coord list"
  safety_score :: real
  is_detoured :: bool

text \<open>The six detour waypoints around the midpoint of the trip.\<close>

definition waypoint_options :: "coord \<Rightarrow> coord \<Rightarrow> coord list" where
  "waypoint_options s e =
     (let mid_lat = (lat s + lat e) / 2; mid_lng = (lng s + lng e) / 2;
          lat_diff = \<bar>lat e - lat s\<bar>; lng_diff = \<bar>lng e - lng s\<bar>
      in [\<lparr>lat = mid_lat + max 0.005 (lat_diff * 0.3), lng = mid_lng\<rparr>,
          \<lparr>lat = mid_lat - max 0.005 (lat_diff * 0.3), lng = mid_lng\<rparr>,
          \<lparr>lat = mid_lat, lng = mid_lng + max 0.005 (lng_diff * 0.3)\<rparr>,
          \<lparr>lat = mid_lat, lng = mid_lng - max 0.005 (lng_diff * 0.3)\<rparr>,
          \<lparr>lat = mid_lat + max 0.003 (lat_diff * 0.2), lng = mid_lng + max 0.003 (lng_diff * 0.2)\<rparr>,
          \<lparr>lat = mid_lat - max 0.003 (lat_diff * 0.2), lng = mid_lng - max 0.003 (lng_diff * 0.2)\<rparr>])"

text \<open>
  \<open>(safePoints / fullRoute.length) * 100\<close>: for an empty route JavaScript computes
  \<open>0 / 0 = NaN\<close>, and \<open>NaN > bestSafetyScore\<close> is false; the score is
  \<open>None\<close> then, and a \<open>None\<close> score never replaces the best route.
\<close>

definition route_score :: "dist_fn \<Rightarrow> danger_zone list \<Rightarrow> coord list \<Rightarrow> real option" where
  "route_score d zs r =
     (if r = [] then None
      else Some (real (length (filter (is_point_safe d zs safe_margin) r)) / real (length r) * 100))"

text \<open>\<open>[...route1, ...route2]\<close>: the two sub-routes through a waypoint.\<close>

definition detour_route :: "provider \<Rightarrow> coord \<Rightarrow> coord \<Rightarrow> coord \<Rightarrow> coord list" where
  "detour_route prov s w e = get_real_route prov s w @ get_real_route prov w e"

text \<open>\<open>if (safetyScore > bestSafetyScore)\<close>: a strictly better score replaces the best.\<close>

definition keep_best :: "real option \<Rightarrow> coord list \<Rightarrow> coord list \<times> real \<Rightarrow> coord list \<times> real" where
  "keep_best sc full best = (case sc of None \<Rightarrow> best | Some x \<Rightarrow> if x > snd best then (full, x) else best)"

text \<open>
  The \<open>for (const waypoint of waypointOptions)\<close> loop: a waypoint inside a danger
  circle is skipped; otherwise two sub-routes are requested, concatenated and scored.
  The result is the final best route and score, and the requests the loop issued.
\<close>

fun try_waypoints ::
  "provider \<Rightarrow> dist_fn \<Rightarrow> danger_zone list \<Rightarrow> coord \<Rightarrow> coord \<Rightarrow> coord list \<Rightarrow>
   coord list \<times> real \<Rightarrow> (coord list \<times> real) \<times> (coord \<times> coord) list" where
  "try_waypoints prov d zs s e [] best = (best, [])"
| "try_waypoints prov d zs s e (w # ws) best =
     (if \<not> is_point_safe d zs safe_margin w then try_waypoints prov d zs s e ws best
      else
        let full = detour_route prov s w e;
            (res, calls) = try_waypoints prov d zs s e ws (keep_best (route_score d zs full) full best)
        in (res, (s, w) # (w, e) # calls))"

definition calculate_safe_route ::
  "provider \<Rightarrow> dist_fn \<Rightarrow> coord \<Rightarrow> coord \<Rightarrow> danger_zone list \<Rightarrow> route_result \<times> (coord \<times> coord) list" where
  "calculate_safe_route prov d s e zs =
     (let normal = get_real_route prov s e
      in if zs = [] then (\<lparr>coordinates = normal, safety_score = 100, is_detoured = False\<rparr>, [(s, e)])
         else if list_all (is_point_safe d zs safe_margin) normal
         then (\<lparr>coordinates = normal, safety_score = 100, is_detoured = False\<rparr>, [(s, e)])
         else
           let ((best, best_score), calls) = try_waypoints prov d zs s e (waypoint_options s e) (normal, 0)
           in (if best_score > 0 then \<lparr>coordinates = best, safety_score = best_score, is_detoured = True\<rparr>
               else \<lparr>coordinates = normal, safety_score = 30, is_detoured = False\<rparr>,
               (s, e) # calls))"

section \<open>The route summary of the RoutePlanner component\<close>

text \<open>
  \<open>totalDistance\<close> sums the distances of consecutive points; the component reports it
  in kilometres with two decimals, the time at 30 km/h rounded to minutes
  (\<open>Math.round\<close>), and the score with one decimal. An empty route reports nothing.
\<close>

fun path_length :: "dist_fn \<Rightarrow> coord list \<Rightarrow> real" where
  "path_length d (p # q # rest) = d p q + path_length d (q # rest)"
| "path_length d _ = 0"

record route_summary =
  rs_route :: "coord list"
  rs_distance_km :: real
  rs_time_min :: int
  rs_safety_score :: real
  rs_detoured :: bool

definition js_round :: "real \<Rightarrow> int" where
  "js_round x = \<lfloor>x + 1 / 2\<rfloor>"

text \<open>\<open>x.toFixed(f)\<close>: the multiple of \<open>10^-f\<close> nearest to \<open>x\<close>, the larger on a tie.\<close>

definition to_fixed :: "nat \<Rightarrow> real \<Rightarrow> real" where
  "to_fixed f x = of_int \<lfloor>x * 10 ^ f + 1 / 2\<rfloor> / 10 ^ f"

definition summarize_route :: "dist_fn \<Rightarrow> route_result \<Rightarrow> route_summary option" where
  "summarize_route d r =
     (if coordinates r = [] then None
      else let total = path_length d (coordinates r)
           in Some \<lparr>rs_route = coordinates r, rs_distance_km = to_fixed 2 (total / 1000),
                    rs_time_min = js_round (total / 1000 / 30 * 60),
                    rs_safety_score = to_fixed 1 (safety_score r), rs_detoured = is_detoured r\<rparr>)"


section \<open>Distance from a point to a segment\<close>

text \<open>
  \<open>getDistanceFromLine\<close> of \<^verbatim>\<open>SafetyMap.jsx\<close>, on \<open>[lat, lng]\<close> pairs: the
  projection parameter clamped to the segment, and the Euclidean distance in degrees
  scaled by 111000 m. It is defined in the component and called nowhere. The reference
  the lemmas compare it with: the points of the segment and the plane distance.
\<close>

definition get_distance_from_line :: "real \<times> real \<Rightarrow> real \<times> real \<Rightarrow> real \<times> real \<Rightarrow> real" where
  "get_distance_from_line ls le p =
     (let A = fst p - fst ls; B = snd p - snd ls; C = fst le - fst ls; D = snd le - snd ls;
          dot = A * C + B * D; len_sq = C * C + D * D;
          param = (if len_sq \<noteq> 0 then dot / len_sq else -1);
          (xx, yy) = (if param < 0 then ls else if param > 1 then le
                      else (fst ls + param * C, snd ls + param * D));
          dx = fst p - xx; dy = snd p - yy
      in sqrt (dx * dx + dy * dy) * 111000)"

definition segment_point :: "real \<times> real \<Rightarrow> real \<times> real \<Rightarrow> real \<Rightarrow> real \<times> real" where
  "segment_point ls le t = (fst ls + t * (fst le - fst ls), snd ls + t * (snd le - snd ls))"

definition plane_dist :: "real \<times> real \<Rightarrow> real \<times> real \<Rightarrow> real" where
  "plane_dist p q = sqrt ((fst p - fst q)\<^sup>2 + (snd p - snd q)\<^sup>2)"

section \<open>A sample trip\<close>

text \<open>
  A trip from \<open>trip_start\<close> to \<open>trip_end\<close> with one danger circle of radius 100 m
  around \<open>hazard\<close>, a distance that counts 111 km per degree along each axis, and a
  routing service whose direct route and whose every sub-route pass the hazard.
\<close>

definition "trip_start = \<lparr>lat = 0, lng = 0\<rparr>"
definition "trip_end = \<lparr>lat = 0, lng = 4\<rparr>"
definition "hazard = \<lparr>lat = 10, lng = 10\<rparr>"
definition grid_dist :: dist_fn where "grid_dist p q = 111000 * (\<bar>lat p - lat q\<bar> + \<bar>lng p - lng q\<bar>)"
definition sample_provider :: provider where
  "sample_provider a b = (if a = trip_start \<and> b = trip_end
     then Some [trip_start, hazard, \<lparr>lat = 0, lng = 1\<rparr>, \<lparr>lat = 0, lng = 3\<rparr>, trip_end] else Some [a, hazard, b])"
definition "sample_hazards = [\<lparr>dz_lat = 10, dz_lng = 10, dz_radius = 100\<rparr>]"

section \<open>Lemmas\<close>

lemma sq_dist_segment:
  fixes a b c d t u :: real
  assumes "c * c + d * d \<noteq> 0" "u = (a * c + b * d) / (c * c + d * d)"
  shows "(a - t * c)\<^sup>2 + (b - t * d)\<^sup>2 = (c * c + d * d) * (t - u)\<^sup>2 + ((a - u * c)\<^sup>2 + (b - u * d)\<^sup>2)"
proof -
  let ?L = "c * c + d * d"
  have h: "a * c + b * d = ?L * u" using assms by simp
  have e: "(a - x * c)\<^sup>2 + (b - x * d)\<^sup>2 = a\<^sup>2 + b\<^sup>2 - 2 * x * (a * c + b * d) + x\<^sup>2 * ?L" for x
    by (simp add: power2_eq_square algebra_simps)
  show ?thesis unfolding e[of t] e[of u] h by (simp add: power2_eq_square algebra_simps)
qed

lemma clamp_closer:
  fixes t u :: real
  assumes "0 \<le> t" "t \<le> 1"
  shows "(min 1 (max 0 u) - u)\<^sup>2 \<le> (t - u)\<^sup>2"
proof (cases "u < 0")
  case True
  have "(- u) * (- u) \<le> (t - u) * (t - u)" using True assms by (intro mult_mono) auto
  then show ?thesis using True by (simp add: power2_eq_square)
next
  case False
  show ?thesis
  proof (cases "1 < u")
    case True
    have "(u - 1) * (u - 1) \<le> (u - t) * (u - t)" using True assms by (intro mult_mono) auto
    then show ?thesis using True by (simp add: power2_eq_square algebra_simps)
  next
    case False
    then show ?thesis using \<open>\<not> u < 0\<close> by simp
  qed
qed


lemma plane_dist_segment:
  "plane_dist p (segment_point ls le t) =
     sqrt ((fst p - fst ls - t * (fst le - fst ls))\<^sup>2 + (snd p - snd ls - t * (snd le - snd ls))\<^sup>2)"
  by (simp add: plane_dist_def segment_point_def algebra_simps)

lemma get_distance_from_line_clamp:
  fixes ls le p :: "real \<times> real"
  defines "C \<equiv> fst le - fst ls" and "D \<equiv> snd le - snd ls"
  defines "u \<equiv> ((fst p - fst ls) * C + (snd p - snd ls) * D) / (C * C + D * D)"
  shows "get_distance_from_line ls le p =
           111000 * plane_dist p (segment_point ls le (if C * C + D * D = 0 then 0 else min 1 (max 0 u)))"
proof -
  define param where "param = (if C * C + D * D \<noteq> 0 then ((fst p - fst ls) * C + (snd p - snd ls) * D) / (C * C + D * D) else -1)"
  define pt where "pt = (if param < 0 then ls else if param > 1 then le else (fst ls + param * C, snd ls + param * D))"
  have d: "get_distance_from_line ls le p = 111000 * plane_dist p pt"
    by (simp add: get_distance_from_line_def Let_def plane_dist_def split_def power2_eq_square pt_def param_def C_def D_def)
  have "pt = segment_point ls le (if C * C + D * D = 0 then 0 else min 1 (max 0 u))"
  proof (cases "C * C + D * D = 0")
    case True
    then show ?thesis by (simp add: pt_def param_def segment_point_def)
  next
    case False
    then have pu: "param = u" by (simp add: param_def u_def)
    show ?thesis
      using False by (auto simp: pt_def pu segment_point_def C_def D_def min_def max_def)
  qed
  then show ?thesis using d by simp
qed

lemmas route_sample_defs = trip_start_def trip_end_def hazard_def grid_dist_def sample_provider_def sample_hazards_def

lemma try_waypoints_Cons_safe [simp]:
  "is_point_safe d zs safe_margin w \<Longrightarrow>
   try_waypoints prov d zs s e (w # ws) best =
     (let r = try_waypoints prov d zs s e ws
                (keep_best (route_score d zs (detour_route prov s w e)) (detour_route prov s w e) best)
      in (fst r, (s, w) # (w, e) # snd r))"
  by (simp add: Let_def split_def)

lemma try_waypoints_Cons_unsafe [simp]:
  "\<not> is_point_safe d zs safe_margin w \<Longrightarrow>
   try_waypoints prov d zs s e (w # ws) best = try_waypoints prov d zs s e ws best"
  by simp

declare try_waypoints.simps(2) [simp del]

lemma route_score_bounds:
  assumes "route_score d zs r = Some x"
  shows "0 \<le> x \<and> x \<le> 100"
proof -
  have ne: "r \<noteq> []" and x: "x = real (length (filter (is_point_safe d zs safe_margin) r)) / real (length r) * 100"
    using assms by (auto simp: route_score_def split: if_splits)
  have "length (filter (is_point_safe d zs safe_margin) r) \<le> length r"
    by (rule length_filter_le)
  then have q: "real (length (filter (is_point_safe d zs safe_margin) r)) / real (length r) \<le> 1"
    using ne by (simp add: divide_le_eq_1)
  define q where "q = real (length (filter (is_point_safe d zs safe_margin) r)) / real (length r)"
  have "0 \<le> q" "q \<le> 1" "x = q * 100"
    using q by (simp_all add: q_def x)
  then show ?thesis by linarith
qed

lemma keep_best_mono: "snd best \<le> snd (keep_best sc full best)"
  by (auto simp: keep_best_def split: option.splits)

lemma keep_best_cases:
  "keep_best sc full best = best \<or> (sc = Some (snd (keep_best sc full best)) \<and> fst (keep_best sc full best) = full)"
  by (auto simp: keep_best_def split: option.splits)

lemma keep_best_ge: "sc = Some x \<Longrightarrow> x \<le> snd (keep_best sc full best)"
  by (auto simp: keep_best_def)

lemma try_waypoints_mono:
  "snd best \<le> snd (fst (try_waypoints prov d zs s e ws best))"
proof (induction ws arbitrary: best)
  case (Cons w ws)
  let ?b = "keep_best (route_score d zs (detour_route prov s w e)) (detour_route prov s w e) best"
  have "snd best \<le> snd (fst (try_waypoints prov d zs s e ws ?b))"
    using keep_best_mono Cons.IH[of ?b] by (rule order_trans)
  then show ?case using Cons.IH[of best]
    by (cases "is_point_safe d zs safe_margin w") (simp_all add: Let_def)
qed simp

lemma try_waypoints_calls:
  "length (snd (try_waypoints prov d zs s e ws best)) = 2 * length (filter (is_point_safe d zs safe_margin) ws)"
  by (induction ws arbitrary: best) (auto simp: Let_def)

lemma try_waypoints_max:
  "w \<in> set ws \<Longrightarrow> is_point_safe d zs safe_margin w \<Longrightarrow> route_score d zs (detour_route prov s w e) = Some x \<Longrightarrow>
   x \<le> snd (fst (try_waypoints prov d zs s e ws best))"
proof (induction ws arbitrary: best)
  case Nil then show ?case by simp
next
  case (Cons v ws)
  show ?case
  proof (cases "w = v")
    case True
    then show ?thesis using Cons.prems
      by (simp add: Let_def) (metis keep_best_ge order_trans try_waypoints_mono)
  next
    case False
    then show ?thesis using Cons by (cases "is_point_safe d zs safe_margin v") (auto simp: Let_def)
  qed
qed

lemma try_waypoints_result:
  "fst (try_waypoints prov d zs s e ws best) = best \<or>
   (\<exists>w\<in>set ws. is_point_safe d zs safe_margin w \<and>
      fst (try_waypoints prov d zs s e ws best) = (detour_route prov s w e, snd (fst (try_waypoints prov d zs s e ws best))) \<and>
      route_score d zs (detour_route prov s w e) = Some (snd (fst (try_waypoints prov d zs s e ws best))))"
proof (induction ws arbitrary: best)
  case Nil then show ?case by simp
next
  case (Cons v ws)
  show ?case
  proof (cases "is_point_safe d zs safe_margin v")
    case False
    then show ?thesis using Cons.IH[of best] by auto
  next
    case True
    let ?b = "keep_best (route_score d zs (detour_route prov s v e)) (detour_route prov s v e) best"
    have "fst (try_waypoints prov d zs s e ws ?b) = ?b \<or> (\<exists>w\<in>set ws. is_point_safe d zs safe_margin w \<and>
      fst (try_waypoints prov d zs s e ws ?b) = (detour_route prov s w e, snd (fst (try_waypoints prov d zs s e ws ?b))) \<and>
      route_score d zs (detour_route prov s w e) = Some (snd (fst (try_waypoints prov d zs s e ws ?b))))"
      by (rule Cons.IH)
    then show ?thesis using True keep_best_cases[of "route_score d zs (detour_route prov s v e)" "detour_route prov s v e" best]
      by (auto simp: Let_def) (metis prod.collapse)+
  qed
qed

lemma try_waypoints_from_zero_pos:
  "0 < snd (fst (try_waypoints prov d zs s e ws (r, 0))) \<longleftrightarrow>
   (\<exists>w\<in>set ws. is_point_safe d zs safe_margin w \<and> (\<exists>x. route_score d zs (detour_route prov s w e) = Some x \<and> 0 < x))"
proof
  assume "0 < snd (fst (try_waypoints prov d zs s e ws (r, 0)))"
  then show "\<exists>w\<in>set ws. is_point_safe d zs safe_margin w \<and> (\<exists>x. route_score d zs (detour_route prov s w e) = Some x \<and> 0 < x)"
    using try_waypoints_result[of prov d zs s e ws "(r, 0)"] by (metis less_irrefl snd_conv)
next
  assume "\<exists>w\<in>set ws. is_point_safe d zs safe_margin w \<and> (\<exists>x. route_score d zs (detour_route prov s w e) = Some x \<and> 0 < x)"
  then show "0 < snd (fst (try_waypoints prov d zs s e ws (r, 0)))"
    using try_waypoints_max by (metis less_le_trans)
qed

lemma list_all_safe_Nil [simp]: "list_all (is_point_safe d [] sd) r"
  by (simp add: list_all_iff)

lemma calculate_safe_route_safe:
  "list_all (is_point_safe d zs safe_margin) (get_real_route prov s e) \<Longrightarrow>
   calculate_safe_route prov d s e zs =
     (\<lparr>coordinates = get_real_route prov s e, safety_score = 100, is_detoured = False\<rparr>, [(s, e)])"
  by (simp add: calculate_safe_route_def Let_def)

lemma calculate_safe_route_search:
  assumes "\<not> list_all (is_point_safe d zs safe_margin) (get_real_route prov s e)"
  shows "calculate_safe_route prov d s e zs =
     (let t = try_waypoints prov d zs s e (waypoint_options s e) (get_real_route prov s e, 0)
      in (if snd (fst t) > 0 then \<lparr>coordinates = fst (fst t), safety_score = snd (fst t), is_detoured = True\<rparr>
          else \<lparr>coordinates = get_real_route prov s e, safety_score = 30, is_detoured = False\<rparr>,
          (s, e) # snd t))"
proof -
  have "zs \<noteq> []" using assms by auto
  then show ?thesis using assms by (simp add: calculate_safe_route_def Let_def split_def)
qed

lemma length_waypoint_options [simp]: "length (waypoint_options s e) = 6"
  by (simp add: waypoint_options_def Let_def)

text \<open>
  C8. When every point of the direct route is outside every danger circle widened by
  the 100 m margin (in particular when there are no danger zones), the planner
  answers the direct route with score 100, undetoured, after one request.
\<close>
lemma safe_direct_route_kept:
  "list_all (is_point_safe d zs safe_margin) (get_real_route prov s e) \<Longrightarrow>
   calculate_safe_route prov d s e zs =
     (\<lparr>coordinates = get_real_route prov s e, safety_score = 100, is_detoured = False\<rparr>, [(s, e)])"
  by (rule calculate_safe_route_safe)

text \<open>C11. The safety score the planner reports is always in the interval (0, 100].\<close>
lemma safe_route_score_bounds:
  "0 < safety_score (fst (calculate_safe_route prov d s e zs)) \<and> safety_score (fst (calculate_safe_route prov d s e zs)) \<le> 100"
proof (cases "list_all (is_point_safe d zs safe_margin) (get_real_route prov s e)")
  case True
  then show ?thesis by (simp add: calculate_safe_route_safe)
next
  case False
  let ?t = "try_waypoints prov d zs s e (waypoint_options s e) (get_real_route prov s e, 0)"
  have "snd (fst ?t) \<le> 100" if "0 < snd (fst ?t)"
    using try_waypoints_result[of prov d zs s e "waypoint_options s e" "(get_real_route prov s e, 0)"] that
      route_score_bounds by (metis less_irrefl snd_conv)
  then show ?thesis using False by (simp add: calculate_safe_route_search Let_def)
qed

text \<open>
  C7. A detoured answer is the concatenated route through one of the six waypoints,
  that waypoint is outside every danger circle, the reported score is that route's
  fraction of safe points, and no other admissible waypoint's route scores higher.
\<close>
lemma detour_is_best_candidate:
  assumes "is_detoured (fst (calculate_safe_route prov d s e zs))"
  shows "\<exists>w\<in>set (waypoint_options s e). is_point_safe d zs safe_margin w
     \<and> coordinates (fst (calculate_safe_route prov d s e zs)) = detour_route prov s w e
     \<and> route_score d zs (detour_route prov s w e) = Some (safety_score (fst (calculate_safe_route prov d s e zs)))
     \<and> (\<forall>v\<in>set (waypoint_options s e). is_point_safe d zs safe_margin v \<longrightarrow>
           (\<forall>x. route_score d zs (detour_route prov s v e) = Some x \<longrightarrow> x \<le> safety_score (fst (calculate_safe_route prov d s e zs))))"
proof -
  let ?t = "try_waypoints prov d zs s e (waypoint_options s e) (get_real_route prov s e, 0)"
  have unsafe: "\<not> list_all (is_point_safe d zs safe_margin) (get_real_route prov s e)"
    using assms by (auto simp: calculate_safe_route_safe)
  have pos: "0 < snd (fst ?t)" and res: "fst (calculate_safe_route prov d s e zs) =
      \<lparr>coordinates = fst (fst ?t), safety_score = snd (fst ?t), is_detoured = True\<rparr>"
    using assms unsafe by (simp_all add: calculate_safe_route_search Let_def split: if_splits)
  obtain w where w: "w \<in> set (waypoint_options s e)" "is_point_safe d zs safe_margin w"
    "fst ?t = (detour_route prov s w e, snd (fst ?t))" "route_score d zs (detour_route prov s w e) = Some (snd (fst ?t))"
    using try_waypoints_result[of prov d zs s e "waypoint_options s e" "(get_real_route prov s e, 0)"] pos
    by (metis less_irrefl snd_conv)
  have "fst (fst ?t) = detour_route prov s w e" using w(3) by (metis fst_conv)
  then show ?thesis using w res try_waypoints_max by fastforce
qed

text \<open>
  C10. One planning call issues at most 13 requests to the routing service, the first
  of them for the direct route.
\<close>
lemma route_requests_bound:
  "length (snd (calculate_safe_route prov d s e zs)) \<le> 13 \<and> hd (snd (calculate_safe_route prov d s e zs)) = (s, e)"
proof (cases "list_all (is_point_safe d zs safe_margin) (get_real_route prov s e)")
  case True
  then show ?thesis by (simp add: calculate_safe_route_safe)
next
  case False
  have "length (filter (is_point_safe d zs safe_margin) (waypoint_options s e)) \<le> 6"
    using length_filter_le[of _ "waypoint_options s e"] by simp
  then show ?thesis using False by (simp add: calculate_safe_route_search Let_def try_waypoints_calls)
qed

text \<open>
  C9. When the direct route touches a danger circle, the planner falls back to the
  direct route with score 30 exactly when no admissible waypoint yields a route with a
  positive score.
\<close>
lemma fallback_iff_no_positive_candidate:
  assumes "\<not> list_all (is_point_safe d zs safe_margin) (get_real_route prov s e)"
  shows "fst (calculate_safe_route prov d s e zs) =
           \<lparr>coordinates = get_real_route prov s e, safety_score = 30, is_detoured = False\<rparr> \<longleftrightarrow>
         \<not> (\<exists>w\<in>set (waypoint_options s e). is_point_safe d zs safe_margin w \<and>
              (\<exists>x. route_score d zs (detour_route prov s w e) = Some x \<and> 0 < x))"
  using assms try_waypoints_from_zero_pos[of prov d zs s e "waypoint_options s e" "get_real_route prov s e"]
  by (simp add: calculate_safe_route_search Let_def)

text \<open>
  The detour is chosen whenever some candidate scores above 0, not when it is safer
  than the direct route: here the direct route has 80 percent safe points, the chosen
  detour 66.7 percent, and the answer is marked detoured.
\<close>
lemma detour_less_safe_than_direct:
  "is_detoured (fst (calculate_safe_route sample_provider grid_dist trip_start trip_end sample_hazards))
   \<and> route_score grid_dist sample_hazards (get_real_route sample_provider trip_start trip_end) = Some 80
   \<and> safety_score (fst (calculate_safe_route sample_provider grid_dist trip_start trip_end sample_hazards)) = 200 / 3"
  by (simp add: route_sample_defs calculate_safe_route_def get_real_route_def waypoint_options_def detour_route_def
      keep_best_def route_score_def safe_margin_def zone_center_def Let_def)

text \<open>
  When the routing service fails, \<open>getRealRoute\<close> already substitutes the straight
  line, so the planner reports it with score 100 (here with a danger zone far away), not
  the degraded score 50 of its own \<open>catch\<close>.
\<close>
lemma provider_failure_scores_100:
  "calculate_safe_route (\<lambda>_ _. None) grid_dist trip_start trip_end sample_hazards =
     (\<lparr>coordinates = [trip_start, trip_end], safety_score = 100, is_detoured = False\<rparr>, [(trip_start, trip_end)])"
  by (simp add: route_sample_defs calculate_safe_route_def get_real_route_def safe_margin_def zone_center_def)

lemma path_length_nonneg: "(\<forall>p q. 0 \<le> d p q) \<Longrightarrow> 0 \<le> path_length d r"
  by (induction d r rule: path_length.induct) (auto simp: add_nonneg_nonneg)

lemma to_fixed_nonneg: "0 \<le> x \<Longrightarrow> 0 \<le> to_fixed f x"
  by (simp add: to_fixed_def)

text \<open>
  With a non-negative distance, the RoutePlanner summary of a non-empty route has a
  non-negative distance and travel time and shows the route it was given.
\<close>
lemma route_summary_nonneg:
  assumes "\<forall>p q. 0 \<le> d p q" and "summarize_route d r = Some sm"
  shows "0 \<le> rs_distance_km sm \<and> 0 \<le> rs_time_min sm \<and> rs_route sm = coordinates r \<and> rs_route sm \<noteq> []"
proof -
  have "0 \<le> path_length d (coordinates r)" using assms(1) by (rule path_length_nonneg)
  then show ?thesis using assms(2)
    by (auto simp: summarize_route_def Let_def js_round_def to_fixed_nonneg split: if_splits)
qed

text \<open>
  Planning from a point to itself with no danger zones and no routing service gives
  the two-point zero-length path, distance 0 km, 0 minutes, score 100, not detoured.
\<close>
lemma same_point_trip_summary:
  "d p p = 0 \<Longrightarrow>
   summarize_route d (fst (calculate_safe_route (\<lambda>_ _. None) d p p [])) =
     Some \<lparr>rs_route = [p, p], rs_distance_km = 0, rs_time_min = 0, rs_safety_score = 100, rs_detoured = False\<rparr>"
  by (simp add: calculate_safe_route_def get_real_route_def summarize_route_def js_round_def to_fixed_def)

lemma same_point_trip_summary_witness:
  "grid_dist trip_start trip_start = 0 \<and>
   summarize_route grid_dist (fst (calculate_safe_route (\<lambda>_ _. None) grid_dist trip_start trip_start [])) =
     Some \<lparr>rs_route = [trip_start, trip_start], rs_distance_km = 0, rs_time_min = 0, rs_safety_score = 100, rs_detoured = False\<rparr>"
proof -
  have h: "grid_dist trip_start trip_start = 0" by (simp add: grid_dist_def)
  show ?thesis using same_point_trip_summary[of grid_dist trip_start, OF h] h by blast
qed

lemma route_summary_nonneg_witness:
  "(\<forall>p q. 0 \<le> grid_dist p q) \<and>
   summarize_route grid_dist (fst (calculate_safe_route (\<lambda>_ _. None) grid_dist trip_start trip_end [])) =
     Some \<lparr>rs_route = [trip_start, trip_end], rs_distance_km = 444, rs_time_min = 888, rs_safety_score = 100, rs_detoured = False\<rparr> \<and>
   0 \<le> rs_distance_km \<lparr>rs_route = [trip_start, trip_end], rs_distance_km = 444, rs_time_min = 888, rs_safety_score = 100, rs_detoured = False\<rparr>"
proof -
  have h1: "\<forall>p q. 0 \<le> grid_dist p q" by (simp add: grid_dist_def)
  have h2: "summarize_route grid_dist (fst (calculate_safe_route (\<lambda>_ _. None) grid_dist trip_start trip_end [])) =
     Some \<lparr>rs_route = [trip_start, trip_end], rs_distance_km = 444, rs_time_min = 888, rs_safety_score = 100, rs_detoured = False\<rparr>"
    by (simp add: route_sample_defs calculate_safe_route_def get_real_route_def summarize_route_def js_round_def to_fixed_def)
  show ?thesis using route_summary_nonneg[OF h1 h2] h1 h2 by blast
qed

lemma safe_direct_route_kept_witness:
  "list_all (is_point_safe grid_dist sample_hazards safe_margin) (get_real_route (\<lambda>_ _. None) trip_start trip_end) \<and>
   calculate_safe_route (\<lambda>_ _. None) grid_dist trip_start trip_end sample_hazards =
     (\<lparr>coordinates = [trip_start, trip_end], safety_score = 100, is_detoured = False\<rparr>, [(trip_start, trip_end)])"
proof -
  have h: "list_all (is_point_safe grid_dist sample_hazards safe_margin) (get_real_route (\<lambda>_ _. None) trip_start trip_end)"
    by (simp add: route_sample_defs get_real_route_def safe_margin_def zone_center_def)
  show ?thesis using safe_direct_route_kept[OF h] h by (simp add: get_real_route_def)
qed

lemma detour_is_best_candidate_witness:
  "is_detoured (fst (calculate_safe_route sample_provider grid_dist trip_start trip_end sample_hazards)) \<and>
   (\<exists>w\<in>set (waypoint_options trip_start trip_end). is_point_safe grid_dist sample_hazards safe_margin w
     \<and> coordinates (fst (calculate_safe_route sample_provider grid_dist trip_start trip_end sample_hazards)) = detour_route sample_provider trip_start w trip_end)"
proof -
  have h: "is_detoured (fst (calculate_safe_route sample_provider grid_dist trip_start trip_end sample_hazards))"
    by (simp add: route_sample_defs calculate_safe_route_def get_real_route_def waypoint_options_def detour_route_def
      keep_best_def route_score_def safe_margin_def zone_center_def Let_def)
  show ?thesis using detour_is_best_candidate[OF h] h by blast
qed

lemma fallback_iff_no_positive_candidate_witness:
  "\<not> list_all (is_point_safe grid_dist sample_hazards safe_margin) (get_real_route sample_provider trip_start trip_end) \<and>
   fst (calculate_safe_route sample_provider grid_dist trip_start trip_end sample_hazards) \<noteq>
     \<lparr>coordinates = get_real_route sample_provider trip_start trip_end, safety_score = 30, is_detoured = False\<rparr>"
proof -
  have h: "\<not> list_all (is_point_safe grid_dist sample_hazards safe_margin) (get_real_route sample_provider trip_start trip_end)"
    by (simp add: route_sample_defs get_real_route_def safe_margin_def zone_center_def)
  have "\<exists>w\<in>set (waypoint_options trip_start trip_end). is_point_safe grid_dist sample_hazards safe_margin w \<and>
          (\<exists>x. route_score grid_dist sample_hazards (detour_route sample_provider trip_start w trip_end) = Some x \<and> 0 < x)"
    by (simp add: route_sample_defs get_real_route_def waypoint_options_def detour_route_def route_score_def
        safe_margin_def zone_center_def Let_def) (intro exI[of _ "200 / 3"] conjI; simp)
  then show ?thesis using fallback_iff_no_positive_candidate[OF h] h by blast
qed

text \<open>
  C32. \<open>getDistanceFromLine\<close> gives the distance to the closest point of the segment.
  It is at most the (scaled) distance to every point of the segment, and it equals the
  distance to one of them, also for a degenerate segment.
\<close>

theorem distance_from_line_is_least:
  assumes "0 \<le> t" "t \<le> 1"
  shows "get_distance_from_line ls le p \<le> 111000 * plane_dist p (segment_point ls le t) \<and>
         (\<exists>s. 0 \<le> s \<and> s \<le> 1 \<and> get_distance_from_line ls le p = 111000 * plane_dist p (segment_point ls le s))"
proof -
  define C where "C = fst le - fst ls"
  define D where "D = snd le - snd ls"
  define u where "u = ((fst p - fst ls) * C + (snd p - snd ls) * D) / (C * C + D * D)"
  define c where "c = (if C * C + D * D = 0 then 0 else min 1 (max 0 u))"
  have eq: "get_distance_from_line ls le p = 111000 * plane_dist p (segment_point ls le c)"
    unfolding c_def u_def C_def D_def by (rule get_distance_from_line_clamp)
  have c01: "0 \<le> c" "c \<le> (1::real)" by (auto simp: c_def)
  have low: "plane_dist p (segment_point ls le c) \<le> plane_dist p (segment_point ls le t)" if t: "0 \<le> t" "t \<le> 1" for t
  proof (cases "C * C + D * D = 0")
    case True
    then have "C = 0" "D = 0" by (auto simp: add_nonneg_eq_0_iff)
    then show ?thesis by (simp add: plane_dist_segment C_def D_def)
  next
    case False
    have sq: "(fst p - fst ls - x * C)\<^sup>2 + (snd p - snd ls - x * D)\<^sup>2 =
              (C * C + D * D) * (x - u)\<^sup>2 + ((fst p - fst ls - u * C)\<^sup>2 + (snd p - snd ls - u * D)\<^sup>2)" for x
      using False by (rule sq_dist_segment) (simp add: u_def)
    have "c = min 1 (max 0 u)" unfolding c_def using False by (rule if_not_P)
    then have "(c - u)\<^sup>2 \<le> (t - u)\<^sup>2" using clamp_closer[OF t, of u] by simp
    then have "(C * C + D * D) * (c - u)\<^sup>2 \<le> (C * C + D * D) * (t - u)\<^sup>2"
      by (intro mult_left_mono) auto
    then have "(fst p - fst ls - c * C)\<^sup>2 + (snd p - snd ls - c * D)\<^sup>2 \<le> (fst p - fst ls - t * C)\<^sup>2 + (snd p - snd ls - t * D)\<^sup>2"
      unfolding sq[of c] sq[of t] by simp
    then show ?thesis unfolding plane_dist_segment C_def[symmetric] D_def[symmetric] by (rule real_sqrt_le_mono)
  qed
  show ?thesis using eq c01 low[OF assms] by auto
qed

lemma distance_from_line_is_least_witness:
  "0 \<le> (1 / 2 :: real) \<and> (1 / 2 :: real) \<le> 1 \<and>
   get_distance_from_line (0, 0) (2, 0) (1, 1) \<le> 111000 * plane_dist (1, 1) (segment_point (0, 0) (2, 0) (1 / 2)) \<and>
   (\<exists>s. 0 \<le> s \<and> s \<le> 1 \<and> get_distance_from_line (0, 0) (2, 0) (1, 1) = 111000 * plane_dist (1, 1) (segment_point (0, 0) (2, 0) s))"
proof -
  have h: "0 \<le> (1 / 2 :: real)" "(1 / 2 :: real) \<le> 1" by simp_all
  show ?thesis using h distance_from_line_is_least[OF h, of "(0, 0)" "(2, 0)" "(1, 1)"] by blast
qed

end
