(* ===== verification/Js_Strings.thy ===== *)
theory Js_Strings
  imports Prelude "HOL-Library.Sublist"
begin

text \<open>
  The JavaScript string operations the client code uses, on strings of Isabelle
  characters: \<open>toLowerCase\<close>, \<open>toUpperCase\<close> and \<open>trim\<close> on the ASCII range, \<open>includes\<close>,
  \<open>String(n)\<close> of a natural number and \<open>parseInt\<close> of a decimal numeral. Characters
  outside ASCII are outside the model; the client applies these functions to landmark
  names, typed search text and the value of a range input.
\<close>

text \<open>\<open>toLowerCase\<close> on one character: the ASCII capitals map to their small letters.\<close>

definition to_lower_char :: "char \<Rightarrow> char" where
  "to_lower_char c =
     (case map_of (zip ''ABCDEFGHIJKLMNOPQRSTUVWXYZ'' ''abcdefghijklmnopqrstuvwxyz'') c of Some l \<Rightarrow> l | None \<Rightarrow> c)"

definition to_lower :: "string \<Rightarrow> string" where
  "to_lower s = map to_lower_char s"

text \<open>\<open>toUpperCase\<close>, the other direction of the same table.\<close>

definition to_upper_char :: "char \<Rightarrow> char" where
  "to_upper_char c =
     (case map_of (zip ''abcdefghijklmnopqrstuvwxyz'' ''ABCDEFGHIJKLMNOPQRSTUVWXYZ'') c of Some u \<Rightarrow> u | None \<Rightarrow> c)"

definition to_upper :: "string \<Rightarrow> string" where
  "to_upper s = map to_upper_char s"

text \<open>The ASCII white space of \<open>String.prototype.trim\<close>: tab, line feed, vertical tab, form feed, carriage return and space.\<close>

definition js_is_space :: "char \<Rightarrow> bool" where
  "js_is_space c \<longleftrightarrow> of_char c \<in> {9, 10, 11, 12, 13, 32::nat}"

definition trim :: "string \<Rightarrow> string" where
  "trim s = rev (dropWhile js_is_space (rev (dropWhile js_is_space s)))"

text \<open>\<open>s.includes(sub)\<close>, scanning the start positions of \<open>s\<close> in order.\<close>

fun starts_with :: "string \<Rightarrow> string \<Rightarrow> bool" where
  "starts_with s [] = True"
| "starts_with [] (c # cs) = False"
| "starts_with (a # s) (c # cs) = (a = c \<and> starts_with s cs)"

fun js_includes :: "string \<Rightarrow> string \<Rightarrow> bool" where
  "js_includes [] sub = (sub = [])"
| "js_includes (a # s) sub = (starts_with (a # s) sub \<or> js_includes s sub)"

text \<open>\<open>String(n)\<close> and \<open>`${n}`\<close> of a natural number: its decimal digits.\<close>

definition digit_char :: "nat \<Rightarrow> char" where
  "digit_char n = char_of (48 + n)"

fun string_of_nat :: "nat \<Rightarrow> string" where
  "string_of_nat n = (if n < 10 then [digit_char n] else string_of_nat (n div 10) @ [digit_char (n mod 10)])"

text \<open>
  \<open>parseInt(s)\<close>: leading white space, an optional sign, then the longest run of
  decimal digits; \<open>NaN\<close> (here \<open>None\<close>) when there is no digit.
\<close>

definition is_digit :: "char \<Rightarrow> bool" where
  "is_digit c \<longleftrightarrow> 48 \<le> (of_char c :: nat) \<and> (of_char c :: nat) \<le> 57"

definition digit_value :: "char \<Rightarrow> nat" where
  "digit_value c = (of_char c :: nat) - 48"

definition digits_value :: "string \<Rightarrow> nat" where
  "digits_value ds = foldl (\<lambda>acc c. 10 * acc + digit_value c) 0 ds"

definition parse_digits :: "string \<Rightarrow> int option" where
  "parse_digits s = (let ds = takeWhile is_digit s in if ds = [] then None else Some (int (digits_value ds)))"

definition js_parse_int :: "string \<Rightarrow> int option" where
  "js_parse_int s =
     (case dropWhile js_is_space s of
        c # rest \<Rightarrow> if c = CHR ''-'' then map_option uminus (parse_digits rest)
                   else if c = CHR ''+'' then parse_digits rest
                   else parse_digits (c # rest)
      | [] \<Rightarrow> None)"


section \<open>Lemmas\<close>

declare string_of_nat.simps [simp del]

lemma string_of_nat_unfold:
  "string_of_nat n = (if n < 10 then [digit_char n] else string_of_nat (n div 10) @ [digit_char (n mod 10)])"
  by (rule string_of_nat.simps)

lemma starts_with_prefix: "starts_with s sub \<longleftrightarrow> prefix sub s"
  by (induction s sub rule: starts_with.induct) auto

text \<open>
  The scan of \<open>includes\<close> decides the contiguous-sublist relation of the
  library: \<open>s.includes(sub)\<close> holds exactly when \<open>sub\<close> occurs in \<open>s\<close>.
\<close>

lemma js_includes_sublist: "js_includes s sub \<longleftrightarrow> sublist sub s"
  by (induction s) (auto simp: starts_with_prefix sublist_Cons_right)

lemma digit_char_value [simp]: "k < 10 \<Longrightarrow> digit_value (digit_char k) = k"
  by (simp add: digit_value_def digit_char_def)

lemma is_digit_digit_char [simp]: "k < 10 \<Longrightarrow> is_digit (digit_char k)"
  by (simp add: is_digit_def digit_char_def)

lemma digits_value_snoc: "digits_value (ds @ [c]) = 10 * digits_value ds + digit_value c"
  by (simp add: digits_value_def)

lemma string_of_nat_digits: "list_all is_digit (string_of_nat n) \<and> digits_value (string_of_nat n) = n"
proof (induction n rule: string_of_nat.induct)
  case (1 n)
  show ?case
  proof (cases "n < 10")
    case True
    then show ?thesis by (simp add: string_of_nat_unfold[of n] digits_value_def)
  next
    case False
    then show ?thesis using 1 by (simp add: string_of_nat_unfold[of n] digits_value_snoc)
  qed
qed

lemma string_of_nat_ne: "string_of_nat n \<noteq> []"
  by (subst string_of_nat_unfold) simp

lemma is_digit_not_space: "is_digit c \<Longrightarrow> \<not> js_is_space c"
  by (auto simp: is_digit_def js_is_space_def)

text \<open>
  \<open>parseInt\<close> reads back every decimal numeral that \<open>String(n)\<close> prints: the
  value of a range input, printed by the browser, parses to the number it shows.
\<close>

lemma parse_int_string_of_nat: "js_parse_int (string_of_nat n) = Some (int n)"
proof -
  obtain c cs where cs: "string_of_nat n = c # cs" using string_of_nat_ne by (cases "string_of_nat n") auto
  have all: "list_all is_digit (c # cs)" and val: "digits_value (c # cs) = n"
    using string_of_nat_digits[of n] cs by auto
  have "takeWhile is_digit (c # cs) = c # cs" using all by (simp add: list_all_iff)
  moreover have "\<not> js_is_space c" "c \<noteq> CHR ''-''" "c \<noteq> CHR ''+''"
    using all by (auto simp: is_digit_not_space is_digit_def)
  ultimately show ?thesis using val cs by (simp add: js_parse_int_def parse_digits_def)
qed

end
