(* ===== verification/Map_Client.thy ===== *)
theory Map_Client
  imports Api_Client Route_Planner Js_Strings "HOL-Library.Sublist"
begin

text \<open>
  The state and the handlers of the \<open>SafetyMap\<close> component of
  \<^verbatim>\<open>src/src/components/SafetyMap.jsx\<close>. The component's \<open>useState\<close> hooks are
  the fields of \<open>map_client\<close>; the browser's \<open>localStorage\<close> is a field too. Each user
  action, each run of the 5-second refresh and each expired \<open>setTimeout\<close> is an event;
  \<open>map_step\<close> runs its handler to the end against the client state and the backend
  store, with the API requests of \<open>Api_Client\<close>. A \<open>setTimeout\<close> callback is queued
  in \<open>mc_timers\<close> with what its closure captured and runs at a later \<open>FireTimer\<close>.
\<close>

section \<open>State\<close>

text \<open>The keys \<open>guardaid-safety-zones\<close> and \<open>guardaid-dropped-pins\<close> of \<open>localStorage\<close>.\<close>

record local_storage =
  ls_zones :: "(zone_view list \<times> zone_view list) option"
  ls_pins :: "pin_view list option"

datatype alert_msg =
    SelectLocationFirst
  | AreaRated int
  | LocationNotFound string
  | GeolocationUnsupported

datatype timer =
    RefetchZones
  | SearchLater string

record map_client =
  mc_safe :: "zone_view list"
  mc_danger :: "zone_view list"
  mc_filter :: string
  mc_user_location :: "coord option"
  mc_destination :: "coord option"
  mc_route :: "coord list option"
  mc_distance :: "real option"
  mc_time :: "int option"
  mc_score :: "real option"
  mc_detoured :: bool
  mc_show_rating :: bool
  mc_rating_location :: "(coord \<times> bool) option"
  mc_query :: string
  mc_pins :: "pin_view list"
  mc_pin_mode :: bool
  mc_radius :: int
  mc_suggestions :: "string list"
  mc_show_suggestions :: bool
  mc_alerts :: "alert_msg list"
  mc_timers :: "timer list"
  mc_storage :: local_storage

definition map_client_init :: map_client where
  "map_client_init =
     \<lparr>mc_safe = [], mc_danger = [], mc_filter = ''all'', mc_user_location = None, mc_destination = None,
      mc_route = None, mc_distance = None, mc_time = None, mc_score = None, mc_detoured = False,
      mc_show_rating = False, mc_rating_location = None, mc_query = [], mc_pins = [], mc_pin_mode = False,
      mc_radius = 200, mc_suggestions = [], mc_show_suggestions = False, mc_alerts = [], mc_timers = [],
      mc_storage = \<lparr>ls_zones = None, ls_pins = None\<rparr>\<rparr>"

definition jalandhar_center :: coord where
  "jalandhar_center = \<lparr>lat = 31.3260, lng = 75.5762\<rparr>"

section \<open>Loading from the backend\<close>

text \<open>\<open>saveSafetyZones\<close> and \<open>saveDroppedPins\<close>: the \<open>localStorage\<close> backup.\<close>

definition save_safety_zones :: "map_client \<Rightarrow> map_client" where
  "save_safety_zones st =
     st\<lparr>mc_storage := (mc_storage st)\<lparr>ls_zones :=
        Some (filter zv_user_created (mc_safe st), filter zv_user_created (mc_danger st))\<rparr>\<rparr>"

definition save_dropped_pins :: "pin_view list \<Rightarrow> map_client \<Rightarrow> map_client" where
  "save_dropped_pins ps st = st\<lparr>mc_storage := (mc_storage st)\<lparr>ls_pins := Some ps\<rparr>\<rparr>"

text \<open>The \<open>catch\<close> of \<open>loadDataFromDatabase\<close>: zones and pins from \<open>localStorage\<close>.\<close>

definition load_fallback :: "map_client \<Rightarrow> map_client" where
  "load_fallback st =
     (let st1 = (case ls_zones (mc_storage st) of Some (sz, dz) \<Rightarrow> st\<lparr>mc_safe := sz, mc_danger := dz\<rparr> | None \<Rightarrow> st)
      in case ls_pins (mc_storage st) of Some ps \<Rightarrow> st1\<lparr>mc_pins := ps\<rparr> | None \<Rightarrow> st1)"

text \<open>
  \<open>loadDataFromDatabase\<close>, run at mount and every 5 seconds; its three requests
  (health, zones, pins) each find the network up or down. An array, even an empty one,
  is truthy, so \<open>zonesData && (zonesData.safeZones || zonesData.dangerZones)\<close> holds for
  every object \<open>fetchZones\<close> resolves to.
\<close>

definition load_data :: "bool \<Rightarrow> bool \<Rightarrow> bool \<Rightarrow> nat \<Rightarrow> map_client \<times> server_db \<Rightarrow> map_client \<times> server_db" where
  "load_data hup zup pup now sd =
     (let (st, db) = sd in
      case check_server_health hup now db of
        (Threw, db1) \<Rightarrow> (load_fallback st, db1)
      | (Returned None, db1) \<Rightarrow> (st, db1)
      | (Returned (Some _), db1) \<Rightarrow>
          (case fetch_zones zup now db1 of
             (Threw, db2) \<Rightarrow> (load_fallback st, db2)
           | (Returned (sz, dz), db2) \<Rightarrow>
               let st2 = st\<lparr>mc_safe := sz, mc_danger := dz\<rparr>
               in case fetch_pins pup now db2 of
                    (Threw, db3) \<Rightarrow> (load_fallback st2, db3)
                  | (Returned ps, db3) \<Rightarrow> (st2\<lparr>mc_pins := ps\<rparr>, db3)))"

section \<open>Pins\<close>

text \<open>\<open>{ id: Date.now(), lat, lng, timestamp: new Date() }\<close> and the body \<open>createPin\<close> posts.\<close>

definition new_pin :: "nat \<Rightarrow> coord \<Rightarrow> pin_view" where
  "new_pin now c = \<lparr>pv_id = int now, pv_lat = lat c, pv_lng = lng c, pv_timestamp = now\<rparr>"

definition pin_body :: "pin_view \<Rightarrow> pin_req" where
  "pin_body p = \<lparr>pq_id = JsVal (pv_id p), pq_lat = JsVal (pv_lat p), pq_lng = JsVal (pv_lng p)\<rparr>"

text \<open>
  The block of \<open>dropPinAtCenter\<close>: append the pin, await \<open>createPin\<close> (its
  \<open>catch\<close> saves the pins to \<open>localStorage\<close>), route to the pin and leave pin-drop
  mode. (\<open>handleMapClick\<close> repeats the block, but \<open>MapClickHandler\<close>, the component
  that would call it, is never rendered: a click on the map drops no pin.)
\<close>

definition place_pin :: "bool \<Rightarrow> nat \<Rightarrow> coord \<Rightarrow> map_client \<times> server_db \<Rightarrow> map_client \<times> server_db" where
  "place_pin up now c sd =
     (let (st, db) = sd; p = new_pin now c; ps = mc_pins st @ [p]; st1 = st\<lparr>mc_pins := ps\<rparr>;
          (r, db1) = create_pin_api up now (pin_body p) db;
          st2 = (case r of Threw \<Rightarrow> save_dropped_pins ps st1 | Returned _ \<Rightarrow> st1)
      in (st2\<lparr>mc_destination := Some c, mc_pin_mode := False\<rparr>, db1))"

text \<open>The handler returns at once outside pin-drop mode; the map centre is a real pair, never \<open>NaN\<close>.\<close>

definition drop_pin_at_center :: "bool \<Rightarrow> nat \<Rightarrow> coord \<Rightarrow> map_client \<times> server_db \<Rightarrow> map_client \<times> server_db" where
  "drop_pin_at_center up now center sd = (if mc_pin_mode (fst sd) then place_pin up now center sd else sd)"

definition remove_pin :: "bool \<Rightarrow> nat \<Rightarrow> int \<Rightarrow> map_client \<times> server_db \<Rightarrow> map_client \<times> server_db" where
  "remove_pin up now i sd =
     (let (st, db) = sd; ps = filter (\<lambda>p. pv_id p \<noteq> i) (mc_pins st); st1 = st\<lparr>mc_pins := ps\<rparr>;
          (r, db1) = delete_pin_api up now i db;
          st2 = (case r of Threw \<Rightarrow> save_dropped_pins ps st1 | Returned _ \<Rightarrow> st1)
      in (case (mc_destination st, find (\<lambda>p. pv_id p = i) (mc_pins st)) of
            (Some d, Some p) \<Rightarrow>
              if lat d = pv_lat p \<and> lng d = pv_lng p then st2\<lparr>mc_destination := None, mc_route := None\<rparr> else st2
          | _ \<Rightarrow> st2, db1))"

section \<open>Rating an area\<close>

text \<open>
  The zone object \<open>rateAreaWithRadius\<close> adds to \<open>mapData\<close> (its \<open>createdAt\<close> and
  \<open>ratingHistory\<close> are only displayed and are left out) and the body it posts.
\<close>

definition rated_zone :: "bool \<Rightarrow> string \<Rightarrow> coord \<Rightarrow> string \<Rightarrow> int \<Rightarrow> int \<Rightarrow> zone_view" where
  "rated_zone good zid c name rating rad =
     \<lparr>zv_id = zid, zv_lat = lat c, zv_lng = lng c, zv_name = name, zv_rating = rating, zv_radius = rad,
      zv_user_created = True, zv_volunteers = (if good then Some 0 else None),
      zv_incidents = (if good then None else Some 1), zv_total_ratings = 1\<rparr>"

definition zone_body :: "bool \<Rightarrow> zone_view \<Rightarrow> zone_req" where
  "zone_body good z =
     \<lparr>zq_id = JsVal (zv_id z), zq_type = JsVal (if good then ''safe'' else ''danger''), zq_lat = JsVal (zv_lat z),
      zq_lng = JsVal (zv_lng z), zq_name = JsVal (zv_name z), zq_rating = JsVal (zv_rating z),
      zq_radius = JsVal (zv_radius z)\<rparr>"

text \<open>
  \<open>newSafeZone\<close> / \<open>newDangerZone\<close>: a rating of at least 3 makes a safe zone,
  a lower one a danger zone, named after the user's location or the local time
  \<open>time_text\<close> (\<open>new Date().toLocaleTimeString()\<close>), with id
  \<open>user-safe-${Date.now()}\<close> or \<open>user-danger-${Date.now()}\<close>.
\<close>

definition new_rated_zone :: "nat \<Rightarrow> string \<Rightarrow> coord \<Rightarrow> bool \<Rightarrow> int \<Rightarrow> int \<Rightarrow> zone_view" where
  "new_rated_zone now time_text c is_user rating rad =
     (let good = (3 \<le> rating);
          name = (if is_user then ''My Location Rating'' else ''Pin Location '' @ time_text);
          zid = (if good then ''user-safe-'' else ''user-danger-'') @ string_of_nat now
      in rated_zone good zid c name rating rad)"

text \<open>
  \<open>rateAreaWithRadius(rating)\<close>: the new zone joins the safe or the danger zones, it
  is posted, a refresh of the zones is scheduled one second later, and the user is told
  the rating is stored. Nothing in the body throws, so the outer \<open>catch\<close> is not
  modelled.
\<close>

definition rate_area :: "bool \<Rightarrow> nat \<Rightarrow> string \<Rightarrow> int \<Rightarrow> map_client \<times> server_db \<Rightarrow> map_client \<times> server_db" where
  "rate_area up now time_text rating sd =
     (let (st, db) = sd in
      case mc_rating_location st of
        None \<Rightarrow> (st\<lparr>mc_alerts := mc_alerts st @ [SelectLocationFirst]\<rparr>, db)
      | Some (c, is_user) \<Rightarrow>
          let good = (3 \<le> rating);
              z = new_rated_zone now time_text c is_user rating (mc_radius st);
              st1 = (if good then st\<lparr>mc_safe := mc_safe st @ [z]\<rparr> else st\<lparr>mc_danger := mc_danger st @ [z]\<rparr>);
              (r, db1) = create_zone_api up now (zone_body good z) db;
              st2 = (case r of Threw \<Rightarrow> save_safety_zones st1 | Returned _ \<Rightarrow> st1\<lparr>mc_timers := mc_timers st1 @ [RefetchZones]\<rparr>)
          in (st2\<lparr>mc_show_rating := False, mc_rating_location := None,
                  mc_alerts := mc_alerts st2 @ [AreaRated (mc_radius st)]\<rparr>, db1))"

section \<open>Searching\<close>

definition jalandhar_landmarks :: "(string \<times> coord) list" where
  "jalandhar_landmarks =
     [(''model town'', \<lparr>lat = 31.3240, lng = 75.5810\<rparr>), (''civil lines'', \<lparr>lat = 31.3300, lng = 75.5700\<rparr>),
      (''cantt'', \<lparr>lat = 31.3180, lng = 75.5820\<rparr>), (''gt road'', \<lparr>lat = 31.3350, lng = 75.5650\<rparr>),
      (''railway station'', \<lparr>lat = 31.3380, lng = 75.5580\<rparr>), (''bus stand'', \<lparr>lat = 31.3260, lng = 75.5762\<rparr>),
      (''dav college'', \<lparr>lat = 31.3290, lng = 75.5740\<rparr>),
      (''lovely professional university'', \<lparr>lat = 31.2532, lng = 75.7047\<rparr>),
      (''wonderland'', \<lparr>lat = 31.3156, lng = 75.5994\<rparr>)]"

text \<open>
  \<open>searchLocation\<close> with the query its closure sees: the first landmark whose key
  contains the lower-cased query or is contained in it becomes the destination and gets
  a pin, posted without waiting for the answer; otherwise an alert names the query.
\<close>

definition search_location :: "string \<Rightarrow> bool \<Rightarrow> nat \<Rightarrow> map_client \<times> server_db \<Rightarrow> map_client \<times> server_db" where
  "search_location q up now sd =
     (let (st, db) = sd in
      if trim q = [] then sd
      else let key = to_lower q in
        case find (\<lambda>(k, _). js_includes k key \<or> js_includes key k) jalandhar_landmarks of
          Some (_, loc) \<Rightarrow>
            let p = new_pin now loc in
            (st\<lparr>mc_destination := Some loc, mc_show_suggestions := False, mc_query := [],
                 mc_pins := mc_pins st @ [p]\<rparr>,
             snd (create_pin_api up now (pin_body p) db))
        | None \<Rightarrow> (st\<lparr>mc_alerts := mc_alerts st @ [LocationNotFound q]\<rparr>, db))"

definition suggestion_landmarks :: "string list" where
  "suggestion_landmarks =
     [''Model Town'', ''Civil Lines'', ''Cantt'', ''GT Road'', ''Railway Station'',
      ''Bus Stand'', ''DAV College'', ''Lovely Professional University'', ''Wonderland'',
      ''Phagwara Gate'', ''Nakodar Road'', ''Kapurthala Road'', ''Pathankot Road'',
      ''Kartarpur'', ''Adampur'', ''Shahkot'', ''Phillaur'', ''Goraya'']"

definition get_search_suggestions :: "string \<Rightarrow> string list" where
  "get_search_suggestions q =
     (if trim q = [] then [] else take 6 (filter (\<lambda>place. js_includes (to_lower place) (to_lower q)) suggestion_landmarks))"

definition handle_search_change :: "string \<Rightarrow> map_client \<Rightarrow> map_client" where
  "handle_search_change v st =
     (if trim v \<noteq> [] then
        let sg = get_search_suggestions v in st\<lparr>mc_query := v, mc_suggestions := sg, mc_show_suggestions := (sg \<noteq> [])\<rparr>
      else st\<lparr>mc_query := v, mc_suggestions := [], mc_show_suggestions := False\<rparr>)"

text \<open>
  \<open>handleSuggestionClick\<close> sets the query and schedules \<open>searchLocation\<close> 100 ms
  later; that \<open>searchLocation\<close> is the one of the render in which the click happened,
  and it reads that render's \<open>searchQuery\<close>.
\<close>

definition handle_suggestion_click :: "string \<Rightarrow> map_client \<Rightarrow> map_client" where
  "handle_suggestion_click sg st =
     st\<lparr>mc_query := sg, mc_show_suggestions := False, mc_timers := mc_timers st @ [SearchLater (mc_query st)]\<rparr>"

section \<open>Location, route and timers\<close>

datatype geo_answer = GeoPosition coord | GeoError | GeoUnsupported

text \<open>\<open>getCurrentLocation\<close>: the position, or the centre of Jalandhar on an error or without geolocation.\<close>

definition get_current_location :: "geo_answer \<Rightarrow> map_client \<Rightarrow> map_client" where
  "get_current_location g st =
     (case g of
        GeoPosition c \<Rightarrow> st\<lparr>mc_user_location := Some c\<rparr>
      | GeoError \<Rightarrow> st\<lparr>mc_user_location := Some jalandhar_center\<rparr>
      | GeoUnsupported \<Rightarrow> st\<lparr>mc_alerts := mc_alerts st @ [GeolocationUnsupported], mc_user_location := Some jalandhar_center\<rparr>)"

text \<open>The danger zones as \<open>RoutePlanner\<close> receives them: \<open>dangerZones={mapData.dangerZones}\<close>.\<close>

definition planner_zones :: "map_client \<Rightarrow> danger_zone list" where
  "planner_zones st = map (\<lambda>z. \<lparr>dz_lat = zv_lat z, dz_lng = zv_lng z, dz_radius = of_int (zv_radius z)\<rparr>) (mc_danger st)"

text \<open>
  The \<open>RoutePlanner\<close> effect, rendered while both the user location and the destination
  are set, and its \<open>onRouteCalculated\<close> callback.
\<close>

definition route_calculated :: "provider \<Rightarrow> dist_fn \<Rightarrow> map_client \<Rightarrow> map_client" where
  "route_calculated prov d st =
     (case (mc_user_location st, mc_destination st) of
        (Some u, Some e) \<Rightarrow>
          (case summarize_route d (fst (calculate_safe_route prov d u e (planner_zones st))) of
             Some rs \<Rightarrow> st\<lparr>mc_route := Some (rs_route rs), mc_distance := Some (rs_distance_km rs),
                         mc_time := Some (rs_time_min rs), mc_score := Some (rs_safety_score rs),
                         mc_detoured := rs_detoured rs\<rparr>
           | None \<Rightarrow> st)
      | _ \<Rightarrow> st)"

text \<open>
  The callbacks of \<open>setTimeout\<close>: the zone refresh after a rating (\<open>if (zonesData)\<close>
  holds for every object) and the delayed search of a suggestion click.
\<close>

fun run_timer :: "timer \<Rightarrow> bool \<Rightarrow> nat \<Rightarrow> map_client \<times> server_db \<Rightarrow> map_client \<times> server_db" where
  "run_timer RefetchZones up now (st, db) =
     (case fetch_zones up now db of
        (Returned (sz, dz), db1) \<Rightarrow> (st\<lparr>mc_safe := sz, mc_danger := dz\<rparr>, db1)
      | (Threw, db1) \<Rightarrow> (st, db1))"
| "run_timer (SearchLater q) up now sd = search_location q up now sd"

section \<open>Events\<close>

datatype map_event =
    Poll bool bool bool
  | FireTimer
  | Locate geo_answer
  | SetFilter string
  | TogglePinMode
  | DropAtCenter coord
  | RemovePin int
  | RouteHere coord
  | ClearRoute
  | OpenRating coord bool
  | CloseRating
  | SetRadius string
  | Rate int
  | SearchChange string
  | Search
  | SuggestionClick string
  | RouteComputed provider dist_fn

text \<open>
  One event, run to completion: \<open>now\<close> is \<open>Date.now()\<close>, \<open>up\<close> whether the network
  carries the requests of the handler, \<open>time_text\<close> the local time string. A range
  input always holds a decimal numeral, so \<open>parseInt\<close> never gives \<open>NaN\<close> there;
  the model keeps the radius in that case.
\<close>

fun map_step :: "nat \<Rightarrow> bool \<Rightarrow> string \<Rightarrow> map_event \<Rightarrow> map_client \<times> server_db \<Rightarrow> map_client \<times> server_db" where
  "map_step now up tt (Poll h z p) sd = load_data h z p now sd"
| "map_step now up tt FireTimer (st, db) =
     (case mc_timers st of [] \<Rightarrow> (st, db) | t # ts \<Rightarrow> run_timer t up now (st\<lparr>mc_timers := ts\<rparr>, db))"
| "map_step now up tt (Locate g) (st, db) = (get_current_location g st, db)"
| "map_step now up tt (SetFilter f) (st, db) = (st\<lparr>mc_filter := f\<rparr>, db)"
| "map_step now up tt TogglePinMode (st, db) = (st\<lparr>mc_pin_mode := \<not> mc_pin_mode st\<rparr>, db)"
| "map_step now up tt (DropAtCenter c) sd = drop_pin_at_center up now c sd"
| "map_step now up tt (RemovePin i) sd = remove_pin up now i sd"
| "map_step now up tt (RouteHere c) (st, db) = (st\<lparr>mc_destination := Some c\<rparr>, db)"
| "map_step now up tt ClearRoute (st, db) = (st\<lparr>mc_destination := None, mc_route := None\<rparr>, db)"
| "map_step now up tt (OpenRating c u) (st, db) = (st\<lparr>mc_rating_location := Some (c, u), mc_show_rating := True\<rparr>, db)"
| "map_step now up tt CloseRating (st, db) = (st\<lparr>mc_show_rating := False, mc_rating_location := None\<rparr>, db)"
| "map_step now up tt (SetRadius v) (st, db) =
     (case js_parse_int v of Some r \<Rightarrow> (st\<lparr>mc_radius := r\<rparr>, db) | None \<Rightarrow> (st, db))"
| "map_step now up tt (Rate r) sd = rate_area up now tt r sd"
| "map_step now up tt (SearchChange v) (st, db) = (handle_search_change v st, db)"
| "map_step now up tt Search (st, db) = search_location (mc_query st) up now (st, db)"
| "map_step now up tt (SuggestionClick sg) (st, db) = (handle_suggestion_click sg st, db)"
| "map_step now up tt (RouteComputed prov d) (st, db) = (route_calculated prov d st, db)"

text \<open>A run: each event with its time, network state and time string.\<close>

fun map_run :: "(nat \<times> bool \<times> string \<times> map_event) list \<Rightarrow> map_client \<times> server_db \<Rightarrow> map_client \<times> server_db" where
  "map_run [] sd = sd"
| "map_run ((now, up, tt, ev) # evs) sd = map_run evs (map_step now up tt ev sd)"


section \<open>What the map shows\<close>

text \<open>The zones drawn under the selected filter.\<close>

definition visible_zones :: "map_client \<Rightarrow> zone_view list \<times> zone_view list" where
  "visible_zones st =
     ((if mc_filter st = ''all'' \<or> mc_filter st = ''safe'' then mc_safe st else []),
      (if mc_filter st = ''all'' \<or> mc_filter st = ''danger'' then mc_danger st else []))"

datatype route_banner = Planned real int | Planning

text \<open>
  The route banner: \<open>distance && estimatedTime\<close> tests JavaScript truthiness, where
  the distance string is never empty but the time \<open>0\<close> is false.
\<close>

definition route_banner :: "map_client \<Rightarrow> route_banner option" where
  "route_banner st =
     (if mc_user_location st = None \<or> mc_destination st = None then None
      else Some (case (mc_distance st, mc_time st) of
                   (Some dk, Some t) \<Rightarrow> if t \<noteq> 0 then Planned dk t else Planning
                 | _ \<Rightarrow> Planning))"


section \<open>Lemmas\<close>

lemma storage_save_free [simp]:
  "mc_storage (st\<lparr>mc_pins := ps\<rparr>) = mc_storage st" by simp

lemma load_data_storage: "mc_storage (fst (load_data h z p now (st, db))) = mc_storage st"
  by (simp add: load_data_def api_methods split: option.splits prod.splits)

lemma place_pin_storage: "mc_storage (fst (place_pin up now c (st, db))) = mc_storage st"
  by (simp add: place_pin_def api_methods Let_def)

lemma remove_pin_storage: "mc_storage (fst (remove_pin up now i (st, db))) = mc_storage st"
  by (simp add: remove_pin_def api_methods Let_def split: option.splits)

lemma rate_area_storage: "mc_storage (fst (rate_area up now tt r (st, db))) = mc_storage st"
  by (simp add: rate_area_def api_methods Let_def split: option.splits)

lemma search_location_storage: "mc_storage (fst (search_location q up now (st, db))) = mc_storage st"
  by (simp add: search_location_def api_methods Let_def split: option.splits)

lemma run_timer_storage: "mc_storage (fst (run_timer t up now (st, db))) = mc_storage st"
  by (cases t) (simp_all add: search_location_storage api_methods split: prod.splits)

lemma route_calculated_storage: "mc_storage (route_calculated prov d st) = mc_storage st"
  by (simp add: route_calculated_def split: option.splits)

lemma map_step_storage: "mc_storage (fst (map_step now up tt ev (st, db))) = mc_storage st"
proof (cases ev)
  case FireTimer
  then show ?thesis
  proof (cases "mc_timers st")
    case (Cons t ts)
    then show ?thesis using FireTimer run_timer_storage[of t up now "st\<lparr>mc_timers := ts\<rparr>" db] by simp
  qed simp
qed (simp_all add: load_data_storage place_pin_storage remove_pin_storage rate_area_storage
      search_location_storage route_calculated_storage drop_pin_at_center_def
      get_current_location_def handle_search_change_def handle_suggestion_click_def Let_def
      split: option.splits geo_answer.splits)

text \<open>
  C4. No run of the map client ever writes \<open>localStorage\<close>: every \<open>ApiService\<close>
  method resolves, so the \<open>catch\<close> branches that back zones and pins up (and the one
  that reads them back) are never taken.
\<close>
lemma local_storage_never_written:
  "mc_storage (fst (map_run evs sd)) = mc_storage (fst sd)"
proof (induction evs arbitrary: sd)
  case (Cons e evs)
  obtain now up tt ev where e: "e = (now, up, tt, ev)" by (cases e) auto
  obtain st db where sd: "sd = (st, db)" by (cases sd)
  show ?case using Cons.IH[of "map_step now up tt ev (st, db)"] map_step_storage[of now up tt ev st db]
    by (simp add: e sd)
qed simp


text \<open>
  C22. When the health check succeeds but the zone request then fails, the refresh empties
  both zone lists of the map: the default \<open>{safeZones: [], dangerZones: []}\<close> passes
  the truthiness test.
\<close>
lemma zone_fetch_failure_clears_map:
  "mc_safe (fst (load_data True False p now (st, db))) = [] \<and> mc_danger (fst (load_data True False p now (st, db))) = []"
  by (simp add: load_data_def api_methods api_json_def split: prod.splits)

lemma poll_server_down_keeps_state: "load_data False z p now (st, db) = (st, db)"
  by (simp add: load_data_def api_methods)

text \<open>
  C5. With the network up, a refresh replaces the map's zones and pins by exactly what
  \<open>GET /api/zones\<close> and \<open>GET /api/pins\<close> list, and changes nothing on the server.
\<close>
lemma poll_syncs_with_server:
  "load_data True True True now (st, db) =
     (st\<lparr>mc_safe := fst (list_zones (zone_db db)), mc_danger := snd (list_zones (zone_db db)),
         mc_pins := list_pins (zone_db db)\<rparr>, db)"
  by (simp add: load_data_def api_methods api_json_def split: prod.splits)

lemma rate_area_located:
  "mc_rating_location st = Some (c, u) \<Longrightarrow>
   rate_area up now tt r (st, db) =
     (let z = new_rated_zone now tt c u r (mc_radius st);
          st1 = (if 3 \<le> r then st\<lparr>mc_safe := mc_safe st @ [z]\<rparr> else st\<lparr>mc_danger := mc_danger st @ [z]\<rparr>)
      in (st1\<lparr>mc_timers := mc_timers st1 @ [RefetchZones], mc_show_rating := False, mc_rating_location := None,
              mc_alerts := mc_alerts st1 @ [AreaRated (mc_radius st)]\<rparr>,
          if up then snd (serve (now div 1000) (PostZone (zone_body (3 \<le> r) z)) db) else db))"
  by (simp add: rate_area_def api_methods Let_def)

text \<open>
  C23. Rating a location adds one zone at it with the chosen radius: a safe zone for a rating
  of at least 3, a danger zone otherwise, posted with type \<open>safe\<close> or \<open>danger\<close>.
\<close>
lemma rating_classifies_zone:
  assumes "mc_rating_location st = Some (c, u)"
  shows "mc_safe (fst (rate_area up now tt r (st, db))) =
           mc_safe st @ (if 3 \<le> r then [new_rated_zone now tt c u r (mc_radius st)] else []) \<and>
         mc_danger (fst (rate_area up now tt r (st, db))) =
           mc_danger st @ (if 3 \<le> r then [] else [new_rated_zone now tt c u r (mc_radius st)]) \<and>
         zq_type (zone_body (3 \<le> r) (new_rated_zone now tt c u r (mc_radius st))) = JsVal (if 3 \<le> r then ''safe'' else ''danger'') \<and>
         snd (rate_area up now tt r (st, db)) =
           (if up then snd (serve (now div 1000) (PostZone (zone_body (3 \<le> r) (new_rated_zone now tt c u r (mc_radius st)))) db) else db)"
  using assms by (simp add: rate_area_located Let_def zone_body_def)

text \<open>
  C25. When the zone never reaches the backend, the store is unchanged and the user is still
  told that the rating is saved to the database.
\<close>
lemma rating_reported_saved_when_rejected:
  assumes "mc_rating_location st = Some (c, u)"
  shows "snd (rate_area False now tt r (st, db)) = db \<and>
         last (mc_alerts (fst (rate_area False now tt r (st, db)))) = AreaRated (mc_radius st)"
  using assms by (simp add: rate_area_located Let_def)

lemma is_point_safe_snoc:
  "is_point_safe d (zs @ [z]) sd p \<longleftrightarrow> is_point_safe d zs sd p \<and> \<not> d p (zone_center z) < dz_radius z + sd"
  by (induction zs) auto

lemma zone_center_rated [simp]:
  "zone_center \<lparr>dz_lat = zv_lat (new_rated_zone now tt c u r rad), dz_lng = zv_lng (new_rated_zone now tt c u r rad),
     dz_radius = x\<rparr> = c"
  by (cases c) (simp add: zone_center_def new_rated_zone_def rated_zone_def Let_def)

text \<open>
  C6. Right after a rating below 3, the route planner treats every point closer to the rated
  location than the chosen radius plus the 100 m margin as unsafe.
\<close>
lemma low_rating_avoided_by_planner:
  assumes "mc_rating_location st = Some (c, u)" and "r < 3" and "d q c < of_int (mc_radius st) + safe_margin"
  shows "\<not> is_point_safe d (planner_zones (fst (rate_area up now tt r (st, db)))) safe_margin q"
  using assms by (simp add: rate_area_located Let_def planner_zones_def is_point_safe_snoc)
    (simp add: new_rated_zone_def rated_zone_def Let_def)

lemma low_rating_avoided_by_planner_witness:
  "mc_rating_location (map_client_init\<lparr>mc_rating_location := Some (jalandhar_center, True)\<rparr>) = Some (jalandhar_center, True) \<and>
   (2::int) < 3 \<and>
   grid_dist jalandhar_center jalandhar_center
     < of_int (mc_radius (map_client_init\<lparr>mc_rating_location := Some (jalandhar_center, True)\<rparr>)) + safe_margin \<and>
   \<not> is_point_safe grid_dist
       (planner_zones (fst (rate_area False 1 [] 2 (map_client_init\<lparr>mc_rating_location := Some (jalandhar_center, True)\<rparr>, init_db 0))))
       safe_margin jalandhar_center"
proof -
  let ?st = "map_client_init\<lparr>mc_rating_location := Some (jalandhar_center, True)\<rparr>"
  have h1: "mc_rating_location ?st = Some (jalandhar_center, True)" by simp
  have h2: "(2::int) < 3" by simp
  have h3: "grid_dist jalandhar_center jalandhar_center < of_int (mc_radius ?st) + safe_margin"
    by (simp add: map_client_init_def safe_margin_def grid_dist_def)
  show ?thesis
    using low_rating_avoided_by_planner[where st = ?st and c = jalandhar_center and u = True and r = 2
        and d = grid_dist and q = jalandhar_center and up = False and now = 1 and tt = "[]" and db = "init_db 0",
        OF h1 h2 h3] h1 h2 h3 by blast
qed

text \<open>
  Clicking a suggestion searches the query typed before the click: after typing
  \<open>s\<close> and clicking \<open>Bus Stand\<close>, the destination is Civil Lines.
\<close>
lemma suggestion_click_searches_stale_query:
  "mc_destination (fst (map_run [(1, False, [], SearchChange ''s''), (2, False, [], SuggestionClick ''Bus Stand''),
                                 (3, False, [], FireTimer)] (map_client_init, db)))
     = Some \<lparr>lat = 31.3300, lng = 75.5700\<rparr> \<and>
   map_of jalandhar_landmarks ''bus stand'' = Some \<lparr>lat = 31.3260, lng = 75.5762\<rparr>"
  by (simp add: map_client_init_def handle_search_change_def handle_suggestion_click_def search_location_def
      jalandhar_landmarks_def trim_def js_is_space_def to_lower_def to_lower_char_def api_methods Let_def)

lemma take_filter_complete:
  assumes "x \<in> set xs" and "P x" and "x \<notin> set (take n (filter P xs))"
  shows "length (take n (filter P xs)) = n"
proof -
  have "x \<in> set (filter P xs)" using assms(1,2) by simp
  then have "\<not> length (filter P xs) \<le> n" using assms(3) by (auto simp: take_all)
  then show ?thesis by simp
qed

text \<open>
  C24. The suggestions for a query: none for a blank query; otherwise landmarks that
  contain the query ignoring case, in the order of the landmark list, at most six, and a
  matching landmark is left out only when six are already offered.
\<close>
lemma suggestions_bounded_and_matching:
  "(trim q = [] \<longrightarrow> get_search_suggestions q = []) \<and>
   (trim q \<noteq> [] \<longrightarrow>
      subseq (get_search_suggestions q) suggestion_landmarks \<and> length (get_search_suggestions q) \<le> 6 \<and>
      (\<forall>s\<in>set (get_search_suggestions q). js_includes (to_lower s) (to_lower q)) \<and>
      (\<forall>l\<in>set suggestion_landmarks. js_includes (to_lower l) (to_lower q) \<and> l \<notin> set (get_search_suggestions q)
         \<longrightarrow> length (get_search_suggestions q) = 6))"
proof -
  let ?P = "\<lambda>place. js_includes (to_lower place) (to_lower q)"
  have sub: "subseq (take 6 (filter ?P suggestion_landmarks)) suggestion_landmarks"
    by (rule subseq_order.order_trans[OF prefix_imp_subseq[OF take_is_prefix]]) (rule subseq_filter_left)
  show ?thesis
    using sub take_filter_complete[of _ suggestion_landmarks ?P 6]
    by (auto simp: get_search_suggestions_def dest: in_set_takeD)
qed



text \<open>
  For a destination about 111 m away the estimated time rounds to 0 minutes, and the
  banner keeps showing \<open>Route planning...\<close> after the route is computed.
\<close>
lemma short_route_banner_stuck:
  "route_banner (route_calculated (\<lambda>_ _. None) grid_dist
     (map_client_init\<lparr>mc_user_location := Some \<lparr>lat = 0, lng = 0\<rparr>, mc_destination := Some \<lparr>lat = 0, lng = 1 / 1000\<rparr>\<rparr>))
   = Some Planning"
  by (simp add: route_banner_def route_calculated_def map_client_init_def planner_zones_def calculate_safe_route_def
      get_real_route_def summarize_route_def grid_dist_def js_round_def to_fixed_def)




lemma rating_classifies_zone_witness:
  "mc_rating_location (map_client_init\<lparr>mc_rating_location := Some (jalandhar_center, False)\<rparr>) = Some (jalandhar_center, False) \<and>
   mc_danger (fst (rate_area False 1 ''t'' 2 (map_client_init\<lparr>mc_rating_location := Some (jalandhar_center, False)\<rparr>, init_db 0)))
     = [new_rated_zone 1 ''t'' jalandhar_center False 2 200]"
proof -
  have h: "mc_rating_location (map_client_init\<lparr>mc_rating_location := Some (jalandhar_center, False)\<rparr>) = Some (jalandhar_center, False)"
    by simp
  show ?thesis using rating_classifies_zone[OF h, of False 1 "''t''" 2 "init_db 0"] h by (simp add: map_client_init_def)
qed

lemma rating_reported_saved_when_rejected_witness:
  "mc_rating_location (map_client_init\<lparr>mc_rating_location := Some (jalandhar_center, True)\<rparr>) = Some (jalandhar_center, True) \<and>
   snd (rate_area False 1 [] 4 (map_client_init\<lparr>mc_rating_location := Some (jalandhar_center, True)\<rparr>, init_db 0)) = init_db 0 \<and>
   last (mc_alerts (fst (rate_area False 1 [] 4 (map_client_init\<lparr>mc_rating_location := Some (jalandhar_center, True)\<rparr>, init_db 0))))
     = AreaRated 200"
proof -
  have h: "mc_rating_location (map_client_init\<lparr>mc_rating_location := Some (jalandhar_center, True)\<rparr>) = Some (jalandhar_center, True)"
    by simp
  show ?thesis using rating_reported_saved_when_rejected[OF h, of 1 "[]" 4 "init_db 0"] h by (simp add: map_client_init_def)
qed

lemma suggestions_bounded_and_matching_witness:
  "trim ''road'' \<noteq> [] \<and>
   get_search_suggestions ''road'' = [''GT Road'', ''Nakodar Road'', ''Kapurthala Road'', ''Pathankot Road''] \<and>
   subseq (get_search_suggestions ''road'') suggestion_landmarks \<and>
   list_all (\<lambda>l. js_includes (to_lower l) (to_lower ''road'') \<longrightarrow> l \<in> set (get_search_suggestions ''road''))
     suggestion_landmarks"
proof -
  have t: "trim ''road'' \<noteq> []" by (simp add: trim_def js_is_space_def)
  have g: "get_search_suggestions ''road'' = [''GT Road'', ''Nakodar Road'', ''Kapurthala Road'', ''Pathankot Road'']"
    by (simp add: get_search_suggestions_def suggestion_landmarks_def trim_def js_is_space_def to_lower_def to_lower_char_def)
  have "subseq (get_search_suggestions ''road'') suggestion_landmarks \<and>
        (\<forall>l\<in>set suggestion_landmarks. js_includes (to_lower l) (to_lower ''road'') \<and> l \<notin> set (get_search_suggestions ''road'')
           \<longrightarrow> length (get_search_suggestions ''road'') = 6)"
    using suggestions_bounded_and_matching[of "''road''"] t by blast
  then show ?thesis using t g unfolding list_all_iff by auto
qed

end
