(* ===== verification/Json_Codec.thy ===== *)
theory Json_Codec
  imports Js_Strings
begin

text \<open>
  \<open>JSON.stringify\<close> and \<open>JSON.parse\<close>, the two built-ins the client applies to the
  text it keeps in \<open>localStorage\<close>. They are library code, not code of the repository:
  they are modelled from ECMA-404 and ECMA-262 so that the session code of
  \<^verbatim>\<open>src/src/contexts/AuthContext.jsx\<close> can be read exactly. Strings are of 8-bit
  characters. \<open>stringify\<close> is given on the flat objects of strings the client stores; it
  escapes the quote, the backslash and the control characters (\<open>\b \t \n \f \r\<close> by name,
  the others as \<open>\u00xx\<close>). \<open>parse\<close> is the whole JSON grammar: a lexer
  (\<open>json_lex\<close>, terminating because every token consumes text) and a pushdown
  recogniser over the tokens (\<open>json_push\<close>, \<open>json_run\<close>) that builds the value or
  fails, where \<open>JSON.parse\<close> throws a \<open>SyntaxError\<close>. A \<open>\uXXXX\<close> escape is read to the
  8-bit character of its code modulo 256. \<open>json_truthy\<close> is the truth value JavaScript
  gives the parsed value: a number is false when it rounds to zero as an IEEE double
  (a decimal \<open>m \<cdot> 10\<^sup>e\<close> with \<open>|m \<cdot> 10\<^sup>e| \<le> 2\<^sup>-\<^sup>1\<^sup>0\<^sup>7\<^sup>5\<close>).
\<close>

section \<open>Printing\<close>

definition hex_digit :: "nat \<Rightarrow> char" where
  "hex_digit n = ''0123456789abcdef'' ! n"

definition json_escape_char :: "char \<Rightarrow> string" where
  "json_escape_char c =
     (if c = CHR 0x22 then [CHR 0x5C, CHR 0x22]
      else if c = CHR 0x5C then [CHR 0x5C, CHR 0x5C]
      else if c = CHR 0x08 then [CHR 0x5C, CHR ''b'']
      else if c = CHR 0x09 then [CHR 0x5C, CHR ''t'']
      else if c = CHR 0x0A then [CHR 0x5C, CHR ''n'']
      else if c = CHR 0x0C then [CHR 0x5C, CHR ''f'']
      else if c = CHR 0x0D then [CHR 0x5C, CHR ''r'']
      else if (of_char c :: nat) < 32
      then [CHR 0x5C, CHR ''u'', CHR ''0'', CHR ''0'', hex_digit (of_char c div 16), hex_digit (of_char c mod 16)]
      else [c])"

definition json_quote :: "string \<Rightarrow> string" where
  "json_quote s = CHR 0x22 # concat (map json_escape_char s) @ [CHR 0x22]"

fun json_fields :: "(string \<times> string) list \<Rightarrow> string" where
  "json_fields [] = []"
| "json_fields [(k, v)] = json_quote k @ CHR '':'' # json_quote v"
| "json_fields ((k, v) # fs) = json_quote k @ CHR '':'' # json_quote v @ CHR '','' # json_fields fs"

text \<open>\<open>JSON.stringify\<close> of an object: its fields in insertion order.\<close>

definition json_object :: "(string \<times> string) list \<Rightarrow> string" where
  "json_object fs = CHR ''{'' # json_fields fs @ [CHR ''}'']"

section \<open>Parsing\<close>

definition json_ws :: "char \<Rightarrow> bool" where
  "json_ws c \<longleftrightarrow> c = CHR '' '' \<or> c = CHR 0x09 \<or> c = CHR 0x0A \<or> c = CHR 0x0D"

definition hex_value :: "char \<Rightarrow> nat option" where
  "hex_value c =
     (let n = (of_char c :: nat)
      in if 48 \<le> n \<and> n \<le> 57 then Some (n - 48)
         else if 97 \<le> n \<and> n \<le> 102 then Some (n - 87)
         else if 65 \<le> n \<and> n \<le> 70 then Some (n - 55) else None)"

definition hex4 :: "char \<Rightarrow> char \<Rightarrow> char \<Rightarrow> char \<Rightarrow> char option" where
  "hex4 a b c d =
     (case (hex_value a, hex_value b, hex_value c, hex_value d) of
        (Some w, Some x, Some y, Some z) \<Rightarrow> Some (char_of (((w * 16 + x) * 16 + y) * 16 + z))
      | _ \<Rightarrow> None)"

definition simple_unescape :: "char \<Rightarrow> char option" where
  "simple_unescape e =
     (if e = CHR 0x22 then Some (CHR 0x22) else if e = CHR 0x5C then Some (CHR 0x5C)
      else if e = CHR ''/'' then Some (CHR ''/'') else if e = CHR ''b'' then Some (CHR 0x08)
      else if e = CHR ''t'' then Some (CHR 0x09) else if e = CHR ''n'' then Some (CHR 0x0A)
      else if e = CHR ''f'' then Some (CHR 0x0C) else if e = CHR ''r'' then Some (CHR 0x0D) else None)"

text \<open>The body of a string literal after its opening quote: the text and the rest after the closing quote.\<close>

fun json_str_body :: "string \<Rightarrow> (string \<times> string) option" where
  "json_str_body [] = None"
| "json_str_body (c # cs) =
     (if c = CHR 0x22 then Some ([], cs)
      else if c = CHR 0x5C then
        (case cs of
           [] \<Rightarrow> None
         | e # rest \<Rightarrow>
             if e = CHR ''u'' then
               (case rest of
                  a # b # x # y # rest2 \<Rightarrow>
                    (case hex4 a b x y of Some ch \<Rightarrow> map_option (apfst (Cons ch)) (json_str_body rest2) | None \<Rightarrow> None)
                | _ \<Rightarrow> None)
             else (case simple_unescape e of Some ch \<Rightarrow> map_option (apfst (Cons ch)) (json_str_body rest) | None \<Rightarrow> None))
      else if (of_char c :: nat) < 32 then None
      else map_option (apfst (Cons c)) (json_str_body cs))"

text \<open>The values of JSON, objects with their members in order of appearance.\<close>

datatype json = JNull | JBool bool | JNumber string | JString string | JArray "json list"
  | JObject "(string \<times> json) list"

text \<open>The tokens of the lexer; \<open>TLit\<close> carries \<open>true\<close>, \<open>false\<close> and \<open>null\<close>.\<close>

datatype json_token = TLBrace | TRBrace | TLBrack | TRBrack | TColon | TComma
  | TStr string | TNum string | TLit json

text \<open>The number grammar \<open>-? (0 | [1-9][0-9]*) (. [0-9]+)? ([eE] [+-]? [0-9]+)?\<close>: the length of the number at the front of a text.\<close>

definition digit_run :: "string \<Rightarrow> nat" where
  "digit_run s = length (takeWhile is_digit s)"

definition int_len :: "string \<Rightarrow> nat" where
  "int_len s = (case s of [] \<Rightarrow> 0 | d # _ \<Rightarrow> if d = CHR ''0'' then 1 else digit_run s)"

definition frac_len :: "string \<Rightarrow> nat option" where
  "frac_len s =
     (case s of
        c # r \<Rightarrow> if c = CHR ''.'' then (let k = digit_run r in if k = 0 then None else Some (Suc k)) else Some 0
      | [] \<Rightarrow> Some 0)"

definition exp_len :: "string \<Rightarrow> nat option" where
  "exp_len s =
     (case s of
        c # r \<Rightarrow>
          if c = CHR ''e'' \<or> c = CHR ''E'' then
            (let sg = (if take 1 r = ''+'' \<or> take 1 r = ''-'' then 1 else 0); k = digit_run (drop sg r)
             in if k = 0 then None else Some (Suc (sg + k)))
          else Some 0
      | [] \<Rightarrow> Some 0)"

definition json_number_len :: "string \<Rightarrow> nat option" where
  "json_number_len s =
     (let a = (if take 1 s = ''-'' then 1 else 0); s1 = drop a s; i = int_len s1
      in if i = 0 then None
         else (case frac_len (drop i s1) of
                 None \<Rightarrow> None
               | Some f \<Rightarrow> (case exp_len (drop f (drop i s1)) of None \<Rightarrow> None | Some e \<Rightarrow> Some (a + i + f + e))))"

text \<open>Whether the number a literal denotes rounds to zero as a double.\<close>

definition json_number_zero :: "string \<Rightarrow> bool" where
  "json_number_zero lit =
     (let b = (if take 1 lit = ''-'' then drop 1 lit else lit);
          m = takeWhile (\<lambda>c. c \<noteq> CHR ''e'' \<and> c \<noteq> CHR ''E'') b;
          ex = drop (Suc (length m)) b;
          ip = takeWhile is_digit m;
          fp = drop (Suc (length ip)) m;
          mant = digits_value (ip @ fp);
          e = (if take 1 ex = ''-'' then - int (digits_value (drop 1 ex))
               else if take 1 ex = ''+'' then int (digits_value (drop 1 ex)) else int (digits_value ex))
              - int (length fp)
      in mant = 0 \<or> (e < 0 \<and> mant * 2 ^ 1075 \<le> 10 ^ nat (- e)))"

text \<open>The JavaScript truth value of a parsed value.\<close>

fun json_truthy :: "json \<Rightarrow> bool" where
  "json_truthy JNull = False"
| "json_truthy (JBool b) = b"
| "json_truthy (JNumber n) = (\<not> json_number_zero n)"
| "json_truthy (JString s) = (s \<noteq> [])"
| "json_truthy (JArray _) = True"
| "json_truthy (JObject _) = True"

text \<open>The lexer: white space is skipped between tokens.\<close>

function json_lex :: "string \<Rightarrow> json_token list option" where
  "json_lex [] = Some []"
| "json_lex (c # r) =
     (if json_ws c then json_lex r
      else if c = CHR ''{'' then map_option (Cons TLBrace) (json_lex r)
      else if c = CHR ''}'' then map_option (Cons TRBrace) (json_lex r)
      else if c = CHR ''['' then map_option (Cons TLBrack) (json_lex r)
      else if c = CHR '']'' then map_option (Cons TRBrack) (json_lex r)
      else if c = CHR '':'' then map_option (Cons TColon) (json_lex r)
      else if c = CHR '','' then map_option (Cons TComma) (json_lex r)
      else if c = CHR 0x22 then
        (case json_str_body r of
           None \<Rightarrow> None
         | Some (t, r') \<Rightarrow> map_option (Cons (TStr t)) (json_lex r'))
      else if take 4 (c # r) = ''true'' then map_option (Cons (TLit (JBool True))) (json_lex (drop 3 r))
      else if take 5 (c # r) = ''false'' then map_option (Cons (TLit (JBool False))) (json_lex (drop 4 r))
      else if take 4 (c # r) = ''null'' then map_option (Cons (TLit JNull)) (json_lex (drop 3 r))
      else (case json_number_len (c # r) of
              None \<Rightarrow> None
            | Some n \<Rightarrow> map_option (Cons (TNum (take n (c # r)))) (json_lex (drop n (c # r)))))"
  by pat_completeness auto
termination
proof -
  have str: "json_str_body s = Some (t, r) \<Longrightarrow> length r < length s" for s t r
    by (induction s arbitrary: t rule: json_str_body.induct)
      (auto split: if_splits list.splits option.splits simp: less_SucI)
  have num: "json_number_len s = Some n \<Longrightarrow> 0 < n" for s n
    by (auto simp: json_number_len_def Let_def split: if_splits option.splits)
  show ?thesis by (relation "measure length") (auto dest: str num)
qed

text \<open>
  The recogniser: a stack of open arrays and objects (an object frame keeps the key whose
  value is being read) and the mode, what the next token may be.
\<close>

datatype json_frame = FArr "json list" | FObj "(string \<times> json) list" string

datatype json_mode = MValue | MValueOrClose | MKey | MKeyOrClose | MColon | MAfter | MDone json

fun json_deliver :: "json \<Rightarrow> json_frame list \<Rightarrow> json_mode \<times> json_frame list" where
  "json_deliver v [] = (MDone v, [])"
| "json_deliver v (FArr vs # st) = (MAfter, FArr (vs @ [v]) # st)"
| "json_deliver v (FObj ms k # st) = (MAfter, FObj (ms @ [(k, v)]) k # st)"

definition json_value_start :: "json_token \<Rightarrow> json_frame list \<Rightarrow> (json_mode \<times> json_frame list) option" where
  "json_value_start t st =
     (case t of
        TLBrace \<Rightarrow> Some (MKeyOrClose, FObj [] [] # st)
      | TLBrack \<Rightarrow> Some (MValueOrClose, FArr [] # st)
      | TStr s \<Rightarrow> Some (json_deliver (JString s) st)
      | TNum n \<Rightarrow> Some (json_deliver (JNumber n) st)
      | TLit v \<Rightarrow> Some (json_deliver v st)
      | _ \<Rightarrow> None)"

definition json_key :: "json_token \<Rightarrow> json_frame list \<Rightarrow> (json_mode \<times> json_frame list) option" where
  "json_key t st =
     (case (t, st) of
        (TStr k, FObj ms _ # st') \<Rightarrow> Some (MColon, FObj ms k # st')
      | _ \<Rightarrow> None)"

definition json_close :: "json_token \<Rightarrow> json_frame list \<Rightarrow> (json_mode \<times> json_frame list) option" where
  "json_close t st =
     (case (t, st) of
        (TRBrack, FArr vs # st') \<Rightarrow> Some (json_deliver (JArray vs) st')
      | (TRBrace, FObj ms _ # st') \<Rightarrow> Some (json_deliver (JObject ms) st')
      | _ \<Rightarrow> None)"

fun json_push :: "json_token \<Rightarrow> json_mode \<Rightarrow> json_frame list \<Rightarrow> (json_mode \<times> json_frame list) option" where
  "json_push t MValue st = json_value_start t st"
| "json_push t MValueOrClose st = (if t = TRBrack then json_close t st else json_value_start t st)"
| "json_push t MKey st = json_key t st"
| "json_push t MKeyOrClose st = (if t = TRBrace then json_close t st else json_key t st)"
| "json_push t MColon st = (if t = TColon then Some (MValue, st) else None)"
| "json_push t MAfter st =
     (case (t, st) of
        (TComma, FArr _ # _) \<Rightarrow> Some (MValue, st)
      | (TComma, FObj _ _ # _) \<Rightarrow> Some (MKey, st)
      | _ \<Rightarrow> json_close t st)"
| "json_push t (MDone v) st = None"

fun json_run :: "json_token list \<Rightarrow> json_mode \<Rightarrow> json_frame list \<Rightarrow> json option" where
  "json_run [] m st = (case (m, st) of (MDone v, []) \<Rightarrow> Some v | _ \<Rightarrow> None)"
| "json_run (t # ts) m st = (case json_push t m st of None \<Rightarrow> None | Some (m', st') \<Rightarrow> json_run ts m' st')"

text \<open>\<open>JSON.parse\<close>: \<open>None\<close> where it throws a \<open>SyntaxError\<close>.\<close>

definition json_parse :: "string \<Rightarrow> json option" where
  "json_parse s = (case json_lex s of None \<Rightarrow> None | Some ts \<Rightarrow> json_run ts MValue [])"

text \<open>A property of a parsed value: with duplicate keys the last one wins.\<close>

definition json_prop :: "json \<Rightarrow> string \<Rightarrow> json option" where
  "json_prop v k = (case v of JObject ms \<Rightarrow> map_of (rev ms) k | _ \<Rightarrow> None)"

text \<open>The tokens of the fields of a printed object.\<close>

fun fields_tokens :: "(string \<times> string) list \<Rightarrow> json_token list" where
  "fields_tokens [] = []"
| "fields_tokens [(k, v)] = [TStr k, TColon, TStr v]"
| "fields_tokens ((k, v) # fs) = [TStr k, TColon, TStr v, TComma] @ fields_tokens fs"

abbreviation string_members :: "(string \<times> string) list \<Rightarrow> (string \<times> json) list" where
  "string_members fs \<equiv> map (\<lambda>(k, v). (k, JString v)) fs"

section \<open>Round trip\<close>

lemma hex_value_digit [simp]: "k < 16 \<Longrightarrow> hex_value (hex_digit k) = Some k"
proof -
  assume "k < 16"
  then have "k \<in> {0..<16}" by simp
  then show ?thesis
    by (simp add: hex_value_def hex_digit_def upt_conv_Cons atLeastLessThan_upt) (elim disjE; simp)
qed

lemma json_str_body_escape:
  "json_str_body (json_escape_char c @ cs) = map_option (apfst (Cons c)) (json_str_body cs)"
proof -
  consider "c = CHR 0x22" | "c = CHR 0x5C" | "c = CHR 0x08" | "c = CHR 0x09" | "c = CHR 0x0A" | "c = CHR 0x0C" | "c = CHR 0x0D"
    | "c \<notin> {CHR 0x22, CHR 0x5C, CHR 0x08, CHR 0x09, CHR 0x0A, CHR 0x0C, CHR 0x0D}" "(of_char c :: nat) < 32"
    | "c \<notin> {CHR 0x22, CHR 0x5C, CHR 0x08, CHR 0x09, CHR 0x0A, CHR 0x0C, CHR 0x0D}" "\<not> (of_char c :: nat) < 32"
    by blast
  then show ?thesis
  proof cases
    case 8
    define n where "n = (of_char c :: nat)"
    have n: "n < 32" using 8 by (simp add: n_def)
    have d: "n div 16 < 16" "n mod 16 < 16" using n by simp_all
    have "hex4 CHR ''0'' CHR ''0'' (hex_digit (n div 16)) (hex_digit (n mod 16)) = Some c"
    proof -
      have "hex_value CHR ''0'' = Some 0" by (simp add: hex_value_def)
      moreover have "(n div 16) * 16 + n mod 16 = n" by simp
      ultimately show ?thesis using d n by (simp add: hex4_def n_def)
    qed
    then show ?thesis using 8 by (simp add: json_escape_char_def n_def)
  qed (auto simp: json_escape_char_def simple_unescape_def)
qed

lemma json_str_body_quote:
  "json_str_body (concat (map json_escape_char s) @ CHR 0x22 # rest) = Some (s, rest)"
  by (induction s) (simp_all add: json_str_body_escape)

lemma json_lex_quote:
  "json_lex (json_quote s @ rest) = map_option (Cons (TStr s)) (json_lex rest)"
  by (simp add: json_quote_def json_str_body_quote json_ws_def)

lemma json_lex_punct [simp]:
  "json_lex (CHR '':'' # r) = map_option (Cons TColon) (json_lex r)"
  "json_lex (CHR '','' # r) = map_option (Cons TComma) (json_lex r)"
  "json_lex (CHR ''{'' # r) = map_option (Cons TLBrace) (json_lex r)"
  "json_lex (CHR ''}'' # r) = map_option (Cons TRBrace) (json_lex r)"
  by (simp_all add: json_ws_def)

lemma json_lex_fields:
  "json_lex (json_fields fs @ rest) = map_option (\<lambda>ts. fields_tokens fs @ ts) (json_lex rest)"
proof (induction fs rule: json_fields.induct)
  case (2 k v)
  show ?case by (simp add: json_lex_quote option.map_comp comp_def json_ws_def)
next
  case (3 k v kv fs)
  then show ?case by (simp add: json_lex_quote option.map_comp comp_def json_ws_def)
qed (simp add: option.map_ident)

lemma json_lex_object: "json_lex (json_object fs) = Some (TLBrace # fields_tokens fs @ [TRBrace])"
  using json_lex_fields[of fs "[CHR ''}'']"] by (simp add: json_object_def json_ws_def)

lemma json_run_fields:
  assumes "fs \<noteq> []" and "m = MKey \<or> m = MKeyOrClose"
  shows "json_run (fields_tokens fs @ TRBrace # ts) m (FObj ms k0 # st) =
           (case json_deliver (JObject (ms @ string_members fs)) st of (m', st') \<Rightarrow> json_run ts m' st')"
  using assms
proof (induction fs arbitrary: m ms k0 rule: json_fields.induct)
  case (2 k v)
  then show ?case by (auto simp: json_key_def json_value_start_def json_close_def split: prod.splits)
next
  case (3 k v kv fs)
  have "json_run (fields_tokens (kv # fs) @ TRBrace # ts) MKey (FObj (ms @ [(k, JString v)]) k # st) =
          (case json_deliver (JObject ((ms @ [(k, JString v)]) @ string_members (kv # fs))) st of (m', st') \<Rightarrow> json_run ts m' st')"
    using 3(1) by simp
  then show ?case using 3(3) by (auto simp: json_key_def json_value_start_def)
qed simp

lemma json_parse_object: "json_parse (json_object fs) = Some (JObject (string_members fs))"
proof (cases "fs = []")
  case True
  then show ?thesis by (simp add: json_parse_def json_lex_object json_close_def json_value_start_def)
next
  case False
  then show ?thesis
    using json_run_fields[OF False, of MKeyOrClose "[]" "[]" "[]" "[]"]
    by (simp add: json_parse_def json_lex_object json_value_start_def)
qed
end
