(* ===== verification/Auth_Session.thy ===== *)
theory Auth_Session
  imports Json_Codec
begin

text \<open>
  Sign-in and access control of the client: the \<open>AuthProvider\<close> of
  \<^verbatim>\<open>src/src/contexts/AuthContext.jsx\<close> (the user, the loading flag and the key
  \<open>guardaid-user\<close> of \<open>localStorage\<close>), the forms of
  \<^verbatim>\<open>src/src/components/Login.jsx\<close>, the page choice of \<^verbatim>\<open>src/src/App.jsx\<close>, the
  menu of \<^verbatim>\<open>src/src/components/Navigation.jsx\<close> and the section switch of
  \<^verbatim>\<open>src/src/components/Dashboard.jsx\<close>. The stored user is the JSON text of the
  user object; a page reload keeps only \<open>localStorage\<close> and mounts the provider again.
\<close>

section \<open>The session\<close>

record user =
  u_id :: string
  u_name :: string
  u_phone :: string
  u_role :: string
  u_joined :: string

text \<open>\<open>JSON.stringify(userData)\<close>: the fields in the order the login code writes them.\<close>

definition user_json :: "user \<Rightarrow> string" where
  "user_json u =
     json_object [(''id'', u_id u), (''name'', u_name u), (''phone'', u_phone u), (''role'', u_role u),
                  (''joinedAt'', u_joined u)]"

text \<open>
  The value \<open>JSON.parse(savedUser)\<close> gives becomes \<open>user\<close>. The model reads the five
  properties the client uses; a property that is absent or not a string reads as the
  empty string, which every reader of the session user treats as it treats
  \<open>undefined\<close> (\<open>hasRole\<close>, \<open>hasAnyRole\<close> and the role switches of
  \<^verbatim>\<open>Navigation.jsx\<close> compare the role with the three role names, and
  \<open>{user?.name}\<close> renders both as nothing). A falsy value (\<open>null\<close>, \<open>false\<close>,
  \<open>0\<close>, \<open>""\<close>) leaves no user.
\<close>

definition json_str_prop :: "json \<Rightarrow> string \<Rightarrow> string" where
  "json_str_prop v k = (case json_prop v k of Some (JString t) \<Rightarrow> t | _ \<Rightarrow> [])"

definition user_value :: "json \<Rightarrow> user option" where
  "user_value v =
     (if json_truthy v
      then Some \<lparr>u_id = json_str_prop v ''id'', u_name = json_str_prop v ''name'', u_phone = json_str_prop v ''phone'',
                 u_role = json_str_prop v ''role'', u_joined = json_str_prop v ''joinedAt''\<rparr>
      else None)"

text \<open>The user a saved text restores, if it parses.\<close>

definition parse_user :: "string \<Rightarrow> user option" where
  "parse_user s = (case json_parse s of Some v \<Rightarrow> user_value v | None \<Rightarrow> None)"

record auth_state =
  au_user :: "user option"
  au_loading :: bool
  au_storage :: "string option"

text \<open>
  The mount effect: a non-empty saved text is parsed and its value becomes the user; a
  text on which \<open>JSON.parse\<close> throws is removed. Loading ends either way.
\<close>

definition auth_mount :: "auth_state \<Rightarrow> auth_state" where
  "auth_mount st =
     (case au_storage st of
        Some s \<Rightarrow>
          if s = [] then st\<lparr>au_loading := False\<rparr>
          else (case json_parse s of
                  Some v \<Rightarrow> st\<lparr>au_user := user_value v, au_loading := False\<rparr>
                | None \<Rightarrow> st\<lparr>au_storage := None, au_loading := False\<rparr>)
      | None \<Rightarrow> st\<lparr>au_loading := False\<rparr>)"

definition auth_login :: "user \<Rightarrow> auth_state \<Rightarrow> auth_state" where
  "auth_login u st = st\<lparr>au_user := Some u, au_storage := Some (user_json u)\<rparr>"

definition auth_logout :: "auth_state \<Rightarrow> auth_state" where
  "auth_logout st = st\<lparr>au_user := None, au_storage := None\<rparr>"

definition auth_update_user :: "user \<Rightarrow> auth_state \<Rightarrow> auth_state" where
  "auth_update_user u st = st\<lparr>au_user := Some u, au_storage := Some (user_json u)\<rparr>"

definition has_role :: "auth_state \<Rightarrow> string \<Rightarrow> bool" where
  "has_role st r = (case au_user st of Some u \<Rightarrow> u_role u = r | None \<Rightarrow> False)"

definition has_any_role :: "auth_state \<Rightarrow> string list \<Rightarrow> bool" where
  "has_any_role st rs = (case au_user st of Some u \<Rightarrow> u_role u \<in> set rs | None \<Rightarrow> False)"

definition is_authenticated :: "auth_state \<Rightarrow> bool" where
  "is_authenticated st \<longleftrightarrow> au_user st \<noteq> None"

text \<open>A reload of the page: a new provider, in its initial state, over the same \<open>localStorage\<close>.\<close>

definition reload :: "auth_state \<Rightarrow> auth_state" where
  "reload st = auth_mount \<lparr>au_user = None, au_loading = True, au_storage = au_storage st\<rparr>"

section \<open>Login\<close>

record login_form =
  lf_name :: string
  lf_phone :: string
  lf_role :: string
  lf_quick :: bool

definition login_form_init :: login_form where
  "login_form_init = \<lparr>lf_name = [], lf_phone = [], lf_role = ''woman'', lf_quick = False\<rparr>"

text \<open>
  \<open>handleSubmit\<close>: the browser submits the form only when the two \<open>required\<close> inputs
  are not empty. \<open>now\<close> is \<open>Date.now()\<close>, \<open>joined_at\<close> the ISO time text.
\<close>

definition handle_submit :: "nat \<Rightarrow> string \<Rightarrow> login_form \<Rightarrow> auth_state \<Rightarrow> auth_state" where
  "handle_submit now joined_at f st =
     (if lf_name f = [] \<or> lf_phone f = [] then st
      else auth_login \<lparr>u_id = ''user-'' @ string_of_nat now, u_name = lf_name f, u_phone = lf_phone f,
                       u_role = lf_role f, u_joined = joined_at\<rparr> st)"

definition quick_login :: "nat \<Rightarrow> string \<Rightarrow> string \<Rightarrow> string \<Rightarrow> auth_state \<Rightarrow> auth_state" where
  "quick_login now joined_at role name st =
     auth_login \<lparr>u_id = ''user-'' @ string_of_nat now, u_name = name, u_phone = ''9876543210'', u_role = role,
                 u_joined = joined_at\<rparr> st"

text \<open>The three demo buttons.\<close>

definition quick_logins :: "(string \<times> string) list" where
  "quick_logins = [(''woman'', ''Priya Sharma''), (''volunteer'', ''Rajesh Kumar''), (''admin'', ''Admin User'')]"

text \<open>The options of the role select.\<close>

definition role_options :: "string list" where
  "role_options = [''woman'', ''volunteer'', ''admin'']"

datatype login_event =
    ToggleQuick
  | SetName string
  | SetPhone string
  | SetRole string
  | SubmitLogin nat string
  | QuickLogin nat string string string

text \<open>What the page offers: the demo buttons while \<open>showQuickLogin\<close> holds, the form otherwise; the role select offers its three options.\<close>

definition login_enabled :: "login_form \<Rightarrow> login_event \<Rightarrow> bool" where
  "login_enabled f ev =
     (case ev of
        ToggleQuick \<Rightarrow> True
      | SetName _ \<Rightarrow> \<not> lf_quick f
      | SetPhone _ \<Rightarrow> \<not> lf_quick f
      | SetRole r \<Rightarrow> \<not> lf_quick f \<and> r \<in> set role_options
      | SubmitLogin _ _ \<Rightarrow> \<not> lf_quick f
      | QuickLogin _ _ r n \<Rightarrow> lf_quick f \<and> (r, n) \<in> set quick_logins)"

definition login_step :: "login_event \<Rightarrow> login_form \<times> auth_state \<Rightarrow> login_form \<times> auth_state" where
  "login_step ev fs =
     (let (f, st) = fs in
      case ev of
        ToggleQuick \<Rightarrow> (f\<lparr>lf_quick := \<not> lf_quick f\<rparr>, st)
      | SetName n \<Rightarrow> (f\<lparr>lf_name := n\<rparr>, st)
      | SetPhone p \<Rightarrow> (f\<lparr>lf_phone := p\<rparr>, st)
      | SetRole r \<Rightarrow> (f\<lparr>lf_role := r\<rparr>, st)
      | SubmitLogin now jt \<Rightarrow> (f, handle_submit now jt f st)
      | QuickLogin now jt r n \<Rightarrow> (f, quick_login now jt r n st))"

section \<open>Pages, menu and sections\<close>

datatype page = LoadingPage | LoginPage | DashboardPage

definition app_page :: "auth_state \<Rightarrow> page" where
  "app_page st = (if au_loading st then LoadingPage else if au_user st = None then LoginPage else DashboardPage)"

record menu_item =
  mi_id :: string
  mi_label :: string
  mi_description :: string

text \<open>\<open>getMenuItems\<close>: the map and the report for everyone, then the items of the role.\<close>

definition get_menu_items :: "auth_state \<Rightarrow> menu_item list" where
  "get_menu_items st =
     [\<lparr>mi_id = ''map'', mi_label = ''Safety Map'', mi_description = ''Interactive safety mapping''\<rparr>,
      \<lparr>mi_id = ''incident'', mi_label = ''Report Incident'', mi_description = ''Report safety concerns''\<rparr>]
     @ (if has_role st ''woman'' then
          [\<lparr>mi_id = ''emergency'', mi_label = ''Emergency Alert'', mi_description = ''Quick emergency assistance''\<rparr>] else [])
     @ (if has_role st ''volunteer'' then
          [\<lparr>mi_id = ''volunteer-hub'', mi_label = ''Volunteer Hub'', mi_description = ''Community assistance center''\<rparr>] else [])
     @ (if has_role st ''admin'' then
          [\<lparr>mi_id = ''emergency'', mi_label = ''Emergency Alert'', mi_description = ''Emergency management''\<rparr>,
           \<lparr>mi_id = ''volunteer-hub'', mi_label = ''Volunteer Hub'', mi_description = ''Volunteer coordination''\<rparr>,
           \<lparr>mi_id = ''admin-panel'', mi_label = ''Admin Panel'', mi_description = ''System administration''\<rparr>] else [])"

definition get_role_badge :: "auth_state \<Rightarrow> string" where
  "get_role_badge st =
     (case map_option u_role (au_user st) of
        Some r \<Rightarrow> if r = ''woman'' then ''Woman'' else if r = ''volunteer'' then ''Volunteer''
                  else if r = ''admin'' then ''Admin'' else ''User''
      | None \<Rightarrow> ''User'')"

definition get_role_color :: "auth_state \<Rightarrow> string" where
  "get_role_color st =
     (case map_option u_role (au_user st) of
        Some r \<Rightarrow> if r = ''woman'' then ''#ff6b9d'' else if r = ''volunteer'' then ''#2ed573''
                  else if r = ''admin'' then ''#667eea'' else ''#666''
      | None \<Rightarrow> ''#666'')"

datatype section_view = MapSection | IncidentSection | EmergencySection | VolunteerHubSection | AdminSection | AccessDenied

text \<open>\<open>renderActiveSection\<close> of the dashboard.\<close>

definition render_section :: "auth_state \<Rightarrow> string \<Rightarrow> section_view" where
  "render_section st s =
     (if s = ''map'' then MapSection
      else if s = ''incident'' then IncidentSection
      else if s = ''emergency'' then (if has_role st ''woman'' \<or> has_role st ''admin'' then EmergencySection else AccessDenied)
      else if s = ''volunteer-hub'' then (if has_role st ''volunteer'' \<or> has_role st ''admin'' then VolunteerHubSection else AccessDenied)
      else if s = ''admin-panel'' then (if has_role st ''admin'' then AdminSection else AccessDenied)
      else MapSection)"

record dashboard =
  db_section :: string
  db_menu_open :: bool

definition dashboard_init :: dashboard where
  "dashboard_init = \<lparr>db_section = ''map'', db_menu_open = False\<rparr>"

text \<open>The events of the dashboard: a menu button, the menu toggle and the logout button.\<close>

datatype nav_event = SelectItem string | ToggleMenu | Logout

definition nav_step :: "nav_event \<Rightarrow> dashboard \<times> auth_state \<Rightarrow> dashboard \<times> auth_state" where
  "nav_step ev s =
     (case ev of
        SelectItem i \<Rightarrow> ((fst s)\<lparr>db_section := i, db_menu_open := False\<rparr>, snd s)
      | ToggleMenu \<Rightarrow> ((fst s)\<lparr>db_menu_open := \<not> db_menu_open (fst s)\<rparr>, snd s)
      | Logout \<Rightarrow> (fst s, auth_logout (snd s)))"


section \<open>Sessions from the login page\<close>

text \<open>
  The sessions the login page and the provider produce, from a first visit without a
  saved session: the page's events, reloads and logouts.
\<close>

inductive session_reachable :: "login_form \<times> auth_state \<Rightarrow> bool" where
  fresh: "session_reachable (login_form_init, auth_mount \<lparr>au_user = None, au_loading = True, au_storage = None\<rparr>)"
| login: "session_reachable fs \<Longrightarrow> login_enabled (fst fs) ev \<Longrightarrow> session_reachable (login_step ev fs)"
| reload: "session_reachable (f, st) \<Longrightarrow> session_reachable (login_form_init, reload st)"
| logout: "session_reachable (f, st) \<Longrightarrow> session_reachable (f, auth_logout st)"

text \<open>The roles of the form, the signed-in user and the saved session are the three of the select.\<close>

definition role_ok :: "login_form \<times> auth_state \<Rightarrow> bool" where
  "role_ok fs \<longleftrightarrow>
     lf_role (fst fs) \<in> set role_options \<and>
     (case au_user (snd fs) of Some u \<Rightarrow> u_role u \<in> set role_options | None \<Rightarrow> True) \<and>
     (case au_storage (snd fs) of None \<Rightarrow> True
      | Some s \<Rightarrow> (case parse_user s of Some u \<Rightarrow> u_role u \<in> set role_options | None \<Rightarrow> False))"

text \<open>A demo login as admin.\<close>

definition demo_admin :: user where
  "demo_admin = \<lparr>u_id = ''user-'' @ string_of_nat 1, u_name = ''Admin User'', u_phone = ''9876543210'', u_role = ''admin'', u_joined = ''2025-10-04''\<rparr>"

section \<open>Lemmas\<close>

lemma json_parse_user_json:
  "json_parse (user_json u) =
     Some (JObject [(''id'', JString (u_id u)), (''name'', JString (u_name u)), (''phone'', JString (u_phone u)),
                   (''role'', JString (u_role u)), (''joinedAt'', JString (u_joined u))])"
  by (simp add: user_json_def json_parse_object)

lemma user_value_user_json:
  "user_value (JObject [(''id'', JString (u_id u)), (''name'', JString (u_name u)), (''phone'', JString (u_phone u)),
                        (''role'', JString (u_role u)), (''joinedAt'', JString (u_joined u))]) = Some u"
  by (simp add: user_value_def json_str_prop_def json_prop_def)

lemma parse_user_json: "parse_user (user_json u) = Some u"
  by (simp add: parse_user_def json_parse_user_json user_value_user_json)

lemma user_json_ne: "user_json u \<noteq> []"
  by (simp add: user_json_def json_object_def)

lemma role_ok_login:
  assumes "role_ok fs" "login_enabled (fst fs) ev"
  shows "role_ok (login_step ev fs)"
proof -
  obtain f st where fs: "fs = (f, st)" by (cases fs)
  show ?thesis
  proof (cases ev)
    case (SubmitLogin now jt)
    then show ?thesis using assms fs
      by (auto simp: login_step_def handle_submit_def auth_login_def role_ok_def parse_user_json)
  next
    case (QuickLogin now jt r n)
    then have "r \<in> set role_options" using assms fs by (auto simp: login_enabled_def quick_logins_def role_options_def)
    then show ?thesis using QuickLogin assms fs
      by (simp add: login_step_def quick_login_def auth_login_def role_ok_def parse_user_json)
  qed (use assms fs in \<open>auto simp: login_step_def login_enabled_def role_ok_def\<close>)
qed

lemma role_ok_reload: "role_ok (f, st) \<Longrightarrow> role_ok (login_form_init, reload st)"
  by (auto simp: role_ok_def reload_def auth_mount_def parse_user_def login_form_init_def role_options_def split: option.splits)

lemma role_ok_reachable: "session_reachable fs \<Longrightarrow> role_ok fs"
proof (induction rule: session_reachable.induct)
  case fresh
  then show ?case by (simp add: role_ok_def auth_mount_def login_form_init_def role_options_def)
next
  case (login fs ev)
  then show ?case using role_ok_login by blast
next
  case (reload f st)
  then show ?case using role_ok_reload by blast
next
  case (logout f st)
  then show ?case by (simp add: role_ok_def auth_logout_def)
qed

text \<open>
  C26. A session survives a reload: after \<open>login(u)\<close>, a fresh provider restores exactly
  \<open>u\<close> from \<open>localStorage\<close> and the app shows the dashboard.
\<close>
lemma session_survives_reload:
  "au_user (reload (auth_login u st)) = Some u \<and> app_page (reload (auth_login u st)) = DashboardPage"
  by (simp add: reload_def auth_login_def auth_mount_def json_parse_user_json user_value_user_json user_json_ne app_page_def)


lemma menu_ids:
  "map mi_id (get_menu_items st) =
     [''map'', ''incident''] @ (if has_role st ''woman'' then [''emergency''] else [])
     @ (if has_role st ''volunteer'' then [''volunteer-hub''] else [])
     @ (if has_role st ''admin'' then [''emergency'', ''volunteer-hub'', ''admin-panel''] else [])"
  unfolding get_menu_items_def by simp

text \<open>
  C27. For the five sections of the dashboard, a section renders without \<open>Access denied\<close>
  exactly when the navigation menu of the signed-in user offers it.
\<close>
lemma menu_matches_access:
  assumes "s \<in> {''map'', ''incident'', ''emergency'', ''volunteer-hub'', ''admin-panel''}"
  shows "render_section st s \<noteq> AccessDenied \<longleftrightarrow> s \<in> mi_id ` set (get_menu_items st)"
proof -
  have m: "s \<in> mi_id ` set (get_menu_items st) \<longleftrightarrow> s \<in> set (map mi_id (get_menu_items st))" by simp
  from assms consider "s = ''map''" | "s = ''incident''" | "s = ''emergency''" | "s = ''volunteer-hub''" | "s = ''admin-panel''"
    by blast
  then show ?thesis unfolding m menu_ids by cases (simp_all add: render_section_def)
qed


lemma menu_matches_access_witness:
  "''admin-panel'' \<in> {''map'', ''incident'', ''emergency'', ''volunteer-hub'', ''admin-panel''} \<and>
   render_section (quick_login 1 [] ''admin'' ''Admin User'' \<lparr>au_user = None, au_loading = False, au_storage = None\<rparr>) ''admin-panel'' = AdminSection \<and>
   ''admin-panel'' \<in> mi_id ` set (get_menu_items (quick_login 1 [] ''admin'' ''Admin User'' \<lparr>au_user = None, au_loading = False, au_storage = None\<rparr>))"
proof -
  let ?st = "quick_login 1 [] ''admin'' ''Admin User'' \<lparr>au_user = None, au_loading = False, au_storage = None\<rparr>"
  have h: "''admin-panel'' \<in> {''map'', ''incident'', ''emergency'', ''volunteer-hub'', ''admin-panel''}" by simp
  have r: "render_section ?st ''admin-panel'' = AdminSection"
    by (simp add: render_section_def has_role_def quick_login_def auth_login_def)
  show ?thesis using menu_matches_access[OF h, of ?st] h r by simp
qed

text \<open>
  C28. Every user signed in through the login page has one of the three roles woman,
  volunteer or admin. This holds for every session reachable from a first visit through
  the page's forms and demo buttons, reloads (the saved JSON is read back) and logouts.
\<close>

theorem signed_in_role_valid:
  assumes "session_reachable (f, st)" and "au_user st = Some u"
  shows "u_role u \<in> set role_options"
  using role_ok_reachable[OF assms(1)] assms(2) by (simp add: role_ok_def)

lemma signed_in_role_valid_witness:
  "session_reachable (login_form_init, reload (snd (login_step (QuickLogin 1 ''2025-10-04'' ''admin'' ''Admin User'')
      (login_step ToggleQuick (login_form_init, auth_mount \<lparr>au_user = None, au_loading = True, au_storage = None\<rparr>))))) \<and>
   au_user (reload (snd (login_step (QuickLogin 1 ''2025-10-04'' ''admin'' ''Admin User'')
      (login_step ToggleQuick (login_form_init, auth_mount \<lparr>au_user = None, au_loading = True, au_storage = None\<rparr>))))) = Some demo_admin \<and>
   u_role demo_admin \<in> set role_options"
proof -
  let ?s0 = "(login_form_init, auth_mount \<lparr>au_user = None, au_loading = True, au_storage = None\<rparr>)"
  let ?s1 = "login_step ToggleQuick ?s0"
  let ?s2 = "login_step (QuickLogin 1 ''2025-10-04'' ''admin'' ''Admin User'') ?s1"
  have r1: "session_reachable ?s1" by (rule session_reachable.login[OF session_reachable.fresh]) (simp add: login_enabled_def)
  have "login_enabled (fst ?s1) (QuickLogin 1 ''2025-10-04'' ''admin'' ''Admin User'')"
    by (simp add: login_enabled_def login_step_def login_form_init_def quick_logins_def)
  then have r2: "session_reachable ?s2" using r1 session_reachable.login by blast
  have r3: "session_reachable (login_form_init, reload (snd ?s2))"
    using r2 session_reachable.reload[of "fst ?s2" "snd ?s2"] by simp
  have u: "au_user (reload (snd ?s2)) = Some demo_admin"
    by (simp add: login_step_def quick_login_def auth_login_def reload_def auth_mount_def json_parse_user_json user_json_ne demo_admin_def
      user_value_def json_str_prop_def json_prop_def)
  show ?thesis using r3 u signed_in_role_valid[OF r3 u] by blast
qed

end
