(* ===== verification/Incident_Client.thy ===== *)
theory Incident_Client
  imports Api_Client Auth_Session Route_Planner
begin

text \<open>
  The two client screens that drive the incident routes: the incident management
  dialog of \<^verbatim>\<open>src/src/components/IncidentReporting.jsx\<close> (report form, community
  list, volunteer review) and \<^verbatim>\<open>src/src/components/VolunteerHub.jsx\<close> (pending
  incidents, emergency alerts, statistics). Each handler runs to completion against the
  screen's state and the backend store through the requests of \<open>Api_Client\<close>; \<open>up\<close> says
  whether the network carries them.
\<close>

section \<open>Incident reporting\<close>

text \<open>
  The report form. The two coordinates are \<open>type="number"\<close> inputs: their value is a
  number or empty (\<open>None\<close>); the form starts from \<open>userLocation?.lat || ''\<close>, where 0
  counts as missing.
\<close>

record report_form =
  rf_type :: string
  rf_description :: string
  rf_severity :: string
  rf_lat :: "real option"
  rf_lng :: "real option"

definition js_or_coord :: "real option \<Rightarrow> real option" where
  "js_or_coord x = (case x of Some v \<Rightarrow> if v = 0 then None else Some v | None \<Rightarrow> None)"

definition report_form_init :: "coord option \<Rightarrow> report_form" where
  "report_form_init loc =
     \<lparr>rf_type = ''safety_concern'', rf_description = [], rf_severity = ''medium'',
      rf_lat = js_or_coord (map_option lat loc), rf_lng = js_or_coord (map_option lng loc)\<rparr>"

datatype ir_alert = ReportedOk | ActionOk string

record ir_state =
  ir_tab :: string
  ir_incidents :: "incident_row list"
  ir_pending :: "pending_row list"
  ir_loading :: bool
  ir_form :: report_form
  ir_alerts :: "ir_alert list"

text \<open>The screen as it mounts, before its \<open>useEffect\<close> load.\<close>

definition ir_init :: "coord option \<Rightarrow> ir_state" where
  "ir_init loc = \<lparr>ir_tab = ''report'', ir_incidents = [], ir_pending = [], ir_loading = False,
                  ir_form = report_form_init loc, ir_alerts = []\<rparr>"

text \<open>\<open>loadIncidents\<close> and \<open>loadPendingIncidents\<close>, one after the other.\<close>

definition ir_load :: "bool \<Rightarrow> nat \<Rightarrow> ir_state \<times> server_db \<Rightarrow> ir_state \<times> server_db" where
  "ir_load up now sd =
     (let (st, db) = sd;
          (r1, db1) = fetch_incidents up now db;
          st1 = (case r1 of Returned xs \<Rightarrow> st\<lparr>ir_incidents := xs\<rparr> | Threw \<Rightarrow> st);
          (r2, db2) = fetch_pending_incidents up now db1
      in (case r2 of Returned ps \<Rightarrow> st1\<lparr>ir_pending := ps\<rparr> | Threw \<Rightarrow> st1, db2))"

text \<open>The body \<open>handleSubmitReport\<close> posts; \<open>parseFloat\<close> of a number input gives its number.\<close>

definition report_body :: "nat \<Rightarrow> report_form \<Rightarrow> real \<Rightarrow> real \<Rightarrow> incident_req" where
  "report_body now f la lo =
     \<lparr>rq_id = JsVal (''incident-'' @ string_of_nat now), rq_type = JsVal (rf_type f), rq_lat = JsVal la,
      rq_lng = JsVal lo, rq_description = JsVal (rf_description f), rq_severity = JsVal (rf_severity f),
      rq_reporter = JsVal ''current_user''\<rparr>"

text \<open>
  \<open>handleSubmitReport\<close>: the browser submits only a form whose \<open>required\<close> fields are
  filled; the report is posted, the form reset, both lists reloaded and success
  announced. Nothing in the body throws, so the \<open>catch\<close> branch is not modelled.
\<close>

definition handle_submit_report :: "bool \<Rightarrow> nat \<Rightarrow> coord option \<Rightarrow> ir_state \<times> server_db \<Rightarrow> ir_state \<times> server_db" where
  "handle_submit_report up now loc sd =
     (let (st, db) = sd; f = ir_form st in
      case (rf_lat f, rf_lng f) of
        (Some la, Some lo) \<Rightarrow>
          if rf_description f = [] then sd
          else let (_, db1) = create_incident_api up now (report_body now f la lo) db;
                   (st2, db2) = ir_load up now (st\<lparr>ir_form := report_form_init loc\<rparr>, db1)
               in (st2\<lparr>ir_alerts := ir_alerts st2 @ [ReportedOk], ir_loading := False\<rparr>, db2)
      | _ \<Rightarrow> sd)"

text \<open>
  \<open>handleVolunteerAction\<close> of the review tab: the vote is cast for the fixed volunteer
  id \<open>volunteer_user\<close>, whoever is signed in.
\<close>

definition ir_volunteer_action :: "bool \<Rightarrow> nat \<Rightarrow> string \<Rightarrow> string \<Rightarrow> ir_state \<times> server_db \<Rightarrow> ir_state \<times> server_db" where
  "ir_volunteer_action up now iid act sd =
     (let (st, db) = sd;
          (_, db1) = volunteer_action_api up now iid
                       \<lparr>rq_action = JsVal act, rq_volunteer = JsVal ''volunteer_user'', rq_comment = JsVal []\<rparr> db;
          (st2, db2) = ir_load up now (st, db1);
          txt = (if act = ''approve'' then ''approved'' else if act = ''reject'' then ''rejected'' else ''resolved'')
      in (st2\<lparr>ir_alerts := ir_alerts st2 @ [ActionOk txt]\<rparr>, db2))"

text \<open>The options of the report form's type selector: value and label.\<close>

definition incident_type_options :: "(string \<times> string) list" where
  "incident_type_options =
     [(''safety_concern'', ''Safety Concern''), (''harassment'', ''Harassment''), (''poor_lighting'', ''Poor Lighting''),
      (''broken_infrastructure'', ''Broken Infrastructure''), (''suspicious_activity'', ''Suspicious Activity''),
      (''other'', ''Other'')]"

definition severity_color :: "string \<Rightarrow> string" where
  "severity_color s =
     (if s = ''low'' then ''#2ed573'' else if s = ''medium'' then ''#f39c12''
      else if s = ''high'' then ''#ff4757'' else ''#666'')"

definition status_color :: "string \<Rightarrow> string" where
  "status_color s =
     (if s = ''pending'' then ''#f39c12'' else if s = ''approved'' then ''#2ed573''
      else if s = ''resolved'' then ''#666'' else if s = ''rejected'' then ''#ff4757'' else ''#666'')"

section \<open>Volunteer hub\<close>

record emergency_report =
  er_id :: string
  er_type :: string
  er_location :: coord
  er_reported_by :: string
  er_time :: nat
  er_distance :: real
  er_status :: string
  er_responded_by :: "string option"

text \<open>The two sample alerts, five and fifteen minutes before the mount time \<open>t\<close> (in ms).\<close>

definition initial_emergencies :: "nat \<Rightarrow> emergency_report list" where
  "initial_emergencies t =
     [\<lparr>er_id = ''emg-1'', er_type = ''IMMEDIATE DANGER'', er_location = \<lparr>lat = 31.3250, lng = 75.5780\<rparr>,
       er_reported_by = ''Priya S.'', er_time = t - 300000, er_distance = 0.8, er_status = ''active'', er_responded_by = None\<rparr>,
      \<lparr>er_id = ''emg-2'', er_type = ''FEELING UNSAFE'', er_location = \<lparr>lat = 31.3200, lng = 75.5720\<rparr>,
       er_reported_by = ''Anonymous'', er_time = t - 900000, er_distance = 1.2, er_status = ''resolved'', er_responded_by = None\<rparr>]"

record volunteer_stats =
  vs_reviewed :: nat
  vs_responded :: nat
  vs_rating :: real
  vs_hours :: nat

datatype hub_alert = IncidentActionDone string | EmergencyResponse

record hub_state =
  vh_tab :: string
  vh_pending :: "pending_row list"
  vh_emergencies :: "emergency_report list"
  vh_stats :: volunteer_stats
  vh_alerts :: "hub_alert list"

definition hub_init :: "nat \<Rightarrow> hub_state" where
  "hub_init t =
     \<lparr>vh_tab = ''dashboard'', vh_pending = [], vh_emergencies = initial_emergencies t,
      vh_stats = \<lparr>vs_reviewed = 23, vs_responded = 7, vs_rating = 4.8, vs_hours = 45\<rparr>, vh_alerts = []\<rparr>"

definition load_pending_incidents :: "bool \<Rightarrow> nat \<Rightarrow> hub_state \<times> server_db \<Rightarrow> hub_state \<times> server_db" where
  "load_pending_incidents up now sd =
     (let (st, db) = sd; (r, db1) = fetch_pending_incidents up now db
      in (case r of Returned ps \<Rightarrow> st\<lparr>vh_pending := ps\<rparr> | Threw \<Rightarrow> st, db1))"

text \<open>
  \<open>handleIncidentAction\<close>: the vote of the signed-in user, a reload of the pending list,
  one more reviewed incident and a success message.
\<close>

definition handle_incident_action ::
  "bool \<Rightarrow> nat \<Rightarrow> user \<Rightarrow> string \<Rightarrow> string \<Rightarrow> hub_state \<times> server_db \<Rightarrow> hub_state \<times> server_db" where
  "handle_incident_action up now u iid act sd =
     (let (st, db) = sd;
          (_, db1) = volunteer_action_api up now iid \<lparr>rq_action = JsVal act, rq_volunteer = JsVal (u_id u), rq_comment = JsVal []\<rparr> db;
          (st2, db2) = load_pending_incidents up now (st, db1)
      in (st2\<lparr>vh_stats := (vh_stats st2)\<lparr>vs_reviewed := Suc (vs_reviewed (vh_stats st2))\<rparr>,
              vh_alerts := vh_alerts st2 @ [IncidentActionDone act]\<rparr>, db2))"

definition respond_to_emergency :: "user \<Rightarrow> string \<Rightarrow> hub_state \<Rightarrow> hub_state" where
  "respond_to_emergency u eid st =
     st\<lparr>vh_emergencies := map (\<lambda>a. if er_id a = eid then a\<lparr>er_status := ''responding'', er_responded_by := Some (u_name u)\<rparr> else a)
                              (vh_emergencies st),
        vh_stats := (vh_stats st)\<lparr>vs_responded := Suc (vs_responded (vh_stats st))\<rparr>,
        vh_alerts := vh_alerts st @ [EmergencyResponse]\<rparr>"

text \<open>\<open>getTimeAgo\<close>, from the time elapsed in milliseconds.\<close>

definition get_time_ago :: "nat \<Rightarrow> string" where
  "get_time_ago ms =
     (let diff = ms div 60000 in
      if diff < 1 then ''Just now''
      else if diff < 60 then string_of_nat diff @ ''m ago''
      else let hours = diff div 60 in
        if hours < 24 then string_of_nat hours @ ''h ago'' else string_of_nat (hours div 24) @ ''d ago'')"

text \<open>The emergency alerts the hub offers to answer: active and not yet answered.\<close>

definition answerable_emergencies :: "hub_state \<Rightarrow> emergency_report list" where
  "answerable_emergencies st = filter (\<lambda>a. er_status a = ''active'' \<and> er_responded_by a = None) (vh_emergencies st)"

text \<open>
  The approvals the reporting screen writes: one row per incident and volunteer, all of
  them of the fixed volunteer \<open>volunteer_user\<close>.
\<close>

definition fixed_voter :: "approval list \<Rightarrow> bool" where
  "fixed_voter aps \<longleftrightarrow> distinct (map ap_key aps) \<and> (\<forall>r\<in>set aps. ap_volunteer r = ''volunteer_user'')"

text \<open>An incident's status after some steps: the same as before, or resolved.\<close>

definition status_kept :: "incident \<Rightarrow> incident \<Rightarrow> bool" where
  "status_kept x y \<longleftrightarrow> inc_status y = inc_status x \<or> inc_status y = Resolved"

text \<open>A sequence of clicks on the review tab's buttons, each with its network state and time.\<close>

definition ir_run :: "(bool \<times> nat \<times> string \<times> string) list \<Rightarrow> ir_state \<times> server_db \<Rightarrow> ir_state \<times> server_db" where
  "ir_run evs sd = fold (\<lambda>(up, now, iid, act) s. ir_volunteer_action up now iid act s) evs sd"

section \<open>The reporting screen's events\<close>

text \<open>
  The screen's controls: the three tabs, the \<open>onChange\<close> of each form field
  (\<open>setReportForm({ ...reportForm, field: value })\<close>), the submit button and the
  review buttons. \<open>loc\<close> is the \<open>userLocation\<close> prop the form is reset to.
\<close>

datatype ir_event =
    IrTab string
  | IrSetType string
  | IrSetSeverity string
  | IrSetDescription string
  | IrSetLat "real option"
  | IrSetLng "real option"
  | IrSubmit nat
  | IrAction nat string string

definition ir_step :: "bool \<Rightarrow> coord option \<Rightarrow> ir_event \<Rightarrow> ir_state \<times> server_db \<Rightarrow> ir_state \<times> server_db" where
  "ir_step up loc ev sd =
     (let (st, db) = sd; f = ir_form st in
      case ev of
        IrTab t \<Rightarrow> (st\<lparr>ir_tab := t\<rparr>, db)
      | IrSetType v \<Rightarrow> (st\<lparr>ir_form := f\<lparr>rf_type := v\<rparr>\<rparr>, db)
      | IrSetSeverity v \<Rightarrow> (st\<lparr>ir_form := f\<lparr>rf_severity := v\<rparr>\<rparr>, db)
      | IrSetDescription v \<Rightarrow> (st\<lparr>ir_form := f\<lparr>rf_description := v\<rparr>\<rparr>, db)
      | IrSetLat v \<Rightarrow> (st\<lparr>ir_form := f\<lparr>rf_lat := v\<rparr>\<rparr>, db)
      | IrSetLng v \<Rightarrow> (st\<lparr>ir_form := f\<lparr>rf_lng := v\<rparr>\<rparr>, db)
      | IrSubmit now \<Rightarrow> handle_submit_report up now loc sd
      | IrAction now iid act \<Rightarrow> ir_volunteer_action up now iid act sd)"

section \<open>The volunteer hub as a state machine\<close>

datatype hub_event = HubAction string string | Respond string | HubTab string

text \<open>
  The buttons the hub offers: the three actions on each listed pending incident,
  \<open>Respond\<close> on each alert that is active and not yet answered, and the three tabs.
\<close>

definition hub_enabled :: "hub_state \<Rightarrow> hub_event \<Rightarrow> bool" where
  "hub_enabled st ev =
     (case ev of
        HubAction iid act \<Rightarrow> vh_tab st = ''incidents'' \<and> list_ex (\<lambda>r. prow_id r = iid) (vh_pending st)
                            \<and> act \<in> set [''approve'', ''reject'', ''resolve'']
      | Respond eid \<Rightarrow> vh_tab st = ''emergencies'' \<and> list_ex (\<lambda>a. er_id a = eid) (answerable_emergencies st)
      | HubTab t \<Rightarrow> t \<in> set [''dashboard'', ''incidents'', ''emergencies''])"

definition hub_step :: "bool \<Rightarrow> nat \<Rightarrow> user \<Rightarrow> hub_event \<Rightarrow> hub_state \<times> server_db \<Rightarrow> hub_state \<times> server_db" where
  "hub_step up now u ev sd =
     (case ev of
        HubAction iid act \<Rightarrow> handle_incident_action up now u iid act sd
      | Respond eid \<Rightarrow> (respond_to_emergency u eid (fst sd), snd sd)
      | HubTab t \<Rightarrow> ((fst sd)\<lparr>vh_tab := t\<rparr>, snd sd))"

text \<open>The hub from its mount (the initial state and the \<open>useEffect\<close> load) through the buttons it offers.\<close>

inductive hub_reachable :: "hub_state \<times> server_db \<Rightarrow> bool" where
  mount: "hub_reachable (load_pending_incidents up now (hub_init t, db))"
| step: "hub_reachable (st, db) \<Longrightarrow> hub_enabled st ev \<Longrightarrow> hub_reachable (hub_step up now u ev (st, db))"

text \<open>
  The hub's count of answered alerts and its list of answerable ones move together:
  the sample starts with 7 answered and one answerable alert.
\<close>

definition hub_inv :: "hub_state \<Rightarrow> bool" where
  "hub_inv st \<longleftrightarrow> distinct (map er_id (vh_emergencies st)) \<and>
     vs_responded (vh_stats st) + length (answerable_emergencies st) = 8"

text \<open>A signed-in volunteer, for the computed runs below.\<close>

definition sample_volunteer :: user where
  "sample_volunteer = \<lparr>u_id = ''vol-1'', u_name = ''Asha'', u_phone = [], u_role = ''volunteer'', u_joined = []\<rparr>"

section \<open>Lemmas\<close>

lemma ir_load_db: "snd (ir_load up now (st, db)) = db"
  by (simp add: ir_load_def api_methods split: prod.splits)

lemma ir_load_keeps [simp]:
  "ir_alerts (fst (ir_load up now (st, db))) = ir_alerts st \<and> ir_form (fst (ir_load up now (st, db))) = ir_form st"
  by (simp add: ir_load_def api_methods split: prod.splits api_outcome.splits)

lemma handle_submit_report_filled:
  assumes "rf_lat (ir_form st) = Some la" "rf_lng (ir_form st) = Some lo" "rf_description (ir_form st) \<noteq> []"
  shows "handle_submit_report up now loc (st, db) =
           (let db1 = snd (create_incident_api up now (report_body now (ir_form st) la lo) db);
                st2 = fst (ir_load up now (st\<lparr>ir_form := report_form_init loc\<rparr>, db1))
            in (st2\<lparr>ir_alerts := ir_alerts st2 @ [ReportedOk], ir_loading := False\<rparr>, db1))"
  using assms by (simp add: handle_submit_report_def Let_def split_def ir_load_db)

lemma fixed_voter_count:
  assumes "fixed_voter aps"
  shows "count_action i a aps \<le> 1"
proof -
  let ?f = "filter (\<lambda>r. ap_incident r = i \<and> ap_action r = a) aps"
  have d: "distinct (map ap_key ?f)" using assms by (simp add: fixed_voter_def distinct_map_filter)
  have "ap_key ` set ?f \<subseteq> {(i, ''volunteer_user'')}" using assms by (auto simp: fixed_voter_def ap_key_def)
  then have "card (ap_key ` set ?f) \<le> 1" using card_mono[of "{(i, ''volunteer_user'')}"] by simp
  moreover have "length ?f = card (ap_key ` set ?f)"
    using distinct_card[OF d] by simp
  ultimately show ?thesis by (simp add: count_action_def)
qed

lemma fixed_voter_upsert:
  "fixed_voter aps \<Longrightarrow> fixed_voter (upsert_approval iid ''volunteer_user'' act c aps)"
proof -
  assume f: "fixed_voter aps"
  have "distinct (map ap_key (upsert_approval iid ''volunteer_user'' act c aps))"
    using f by (simp add: fixed_voter_def distinct_upsert_approval)
  moreover have "\<forall>r\<in>set (upsert_approval iid ''volunteer_user'' act c aps). ap_volunteer r = ''volunteer_user''"
    using f by (auto simp: fixed_voter_def upsert_approval_def)
  ultimately show ?thesis by (simp add: fixed_voter_def)
qed

lemma status_kept_trans: "list_all2 status_kept xs ys \<Longrightarrow> list_all2 status_kept ys zs \<Longrightarrow> list_all2 status_kept xs zs"
  by (rule list_all2_trans[of status_kept status_kept]) (auto simp: status_kept_def)

lemma status_kept_refl: "list_all2 status_kept xs xs"
  by (simp add: list_all2_refl status_kept_def)

lemma status_update_fixed_voter:
  "fixed_voter aps \<Longrightarrow> status_kept x (touch_incident now x (status_update iid vid act aps x))"
  using fixed_voter_count[of aps iid "''approve''"] fixed_voter_count[of aps iid "''reject''"]
  by (auto simp: status_kept_def status_update_def touch_incident_def quorum_def)

lemma update_incident_kept:
  "(\<And>x. status_kept x (touch_incident now x (f x))) \<Longrightarrow> list_all2 status_kept xs (update_incident iid f now xs)"
  by (induction xs) (auto simp: update_incident_def status_kept_def)

lemma ir_volunteer_action_db:
  "snd (ir_volunteer_action up now iid act (st, db)) =
     (if up then snd (serve (now div 1000) (PostAction iid \<lparr>rq_action = JsVal act, rq_volunteer = JsVal ''volunteer_user'', rq_comment = JsVal []\<rparr>) db) else db)"
proof -
  let ?rq = "\<lparr>rq_action = JsVal act, rq_volunteer = JsVal ''volunteer_user'', rq_comment = JsVal []\<rparr>"
  have "snd (ir_volunteer_action up now iid act (st, db)) = snd (ir_load up now (st, snd (volunteer_action_api up now iid ?rq db)))"
    unfolding ir_volunteer_action_def Let_def by (simp only: split_def fst_conv snd_conv prod.collapse)
  also have "\<dots> = snd (volunteer_action_api up now iid ?rq db)" by (rule ir_load_db)
  also have "\<dots> = (if up then snd (serve (now div 1000) (PostAction iid ?rq) db) else db)"
    by (simp only: volunteer_action_api_def api_call_eq snd_conv)
  finally show ?thesis .
qed

lemma ir_volunteer_action_fixed_voter:
  assumes "fixed_voter (approvals (inc_db db))"
  shows "fixed_voter (approvals (inc_db (snd (ir_volunteer_action up now iid act (st, db))))) \<and>
         list_all2 status_kept (incidents (inc_db db)) (incidents (inc_db (snd (ir_volunteer_action up now iid act (st, db)))))"
proof -
  let ?rq = "\<lparr>rq_action = JsVal act, rq_volunteer = JsVal ''volunteer_user'', rq_comment = JsVal []\<rparr>"
  have "fixed_voter (approvals (inc_db (snd (serve (now div 1000) (PostAction iid ?rq) db)))) \<and>
        list_all2 status_kept (incidents (inc_db db)) (incidents (inc_db (snd (serve (now div 1000) (PostAction iid ?rq) db))))"
  proof (cases "incident_action (now div 1000) iid ?rq (inc_db db)")
    case (Inr d)
    then obtain a v where v: "rq_volunteer ?rq = JsVal v"
      and d: "approvals d = upsert_approval iid v a (js_val (rq_comment ?rq)) (approvals (inc_db db))"
      and i: "incidents d = update_incident iid (status_update iid v a (approvals d)) (now div 1000) (incidents (inc_db db))"
      by (rule incident_action_Inr) (simp only:)
    have "v = ''volunteer_user''" using v by simp
    then have f: "fixed_voter (approvals d)" using d assms by (simp add: fixed_voter_upsert)
    then have "list_all2 status_kept (incidents (inc_db db)) (incidents d)"
      unfolding i by (intro update_incident_kept status_update_fixed_voter)
    then show ?thesis using f Inr by (simp add: answer_def)
  qed (simp_all add: assms answer_def status_kept_refl)
  then show ?thesis using assms by (simp add: ir_volunteer_action_db status_kept_refl)
qed

lemma ir_run_fixed_voter:
  "fixed_voter (approvals (inc_db (snd sd))) \<Longrightarrow>
   fixed_voter (approvals (inc_db (snd (ir_run evs sd)))) \<and>
   list_all2 status_kept (incidents (inc_db (snd sd))) (incidents (inc_db (snd (ir_run evs sd))))"
proof (induction evs arbitrary: sd)
  case (Cons e evs)
  obtain up now iid act where e: "e = (up, now, iid, act)" by (cases e) auto
  obtain st db where sd: "sd = (st, db)" by (cases sd)
  let ?s = "ir_volunteer_action up now iid act (st, db)"
  have s: "fixed_voter (approvals (inc_db (snd ?s))) \<and> list_all2 status_kept (incidents (inc_db db)) (incidents (inc_db (snd ?s)))"
    using Cons.prems sd ir_volunteer_action_fixed_voter by simp
  have "ir_run (e # evs) sd = ir_run evs ?s" by (simp add: ir_run_def e sd)
  then show ?case using Cons.IH[of ?s] s sd status_kept_trans by auto
qed (simp add: ir_run_def status_kept_refl)

lemma fixed_voter_Nil [simp]: "fixed_voter []"
  by (simp add: fixed_voter_def)

lemma load_pending_incidents_db: "snd (load_pending_incidents up now (st, db)) = db"
  by (simp add: load_pending_incidents_def api_methods split: prod.splits)

lemma load_pending_incidents_emergencies [simp]:
  "vh_emergencies (fst (load_pending_incidents up now (st, db))) = vh_emergencies st \<and>
   vh_stats (fst (load_pending_incidents up now (st, db))) = vh_stats st \<and>
   vh_alerts (fst (load_pending_incidents up now (st, db))) = vh_alerts st"
  by (simp add: load_pending_incidents_def api_methods split: prod.splits api_outcome.splits)

lemma respond_answerable:
  assumes "distinct (map er_id xs)" "list_ex (\<lambda>a. er_id a = eid) (filter (\<lambda>a. er_status a = ''active'' \<and> er_responded_by a = None) xs)"
  shows "Suc (length (filter (\<lambda>a. er_status a = ''active'' \<and> er_responded_by a = None)
            (map (\<lambda>a. if er_id a = eid then a\<lparr>er_status := ''responding'', er_responded_by := Some n\<rparr> else a) xs)))
         = length (filter (\<lambda>a. er_status a = ''active'' \<and> er_responded_by a = None) xs)"
  using assms
proof (induction xs)
  case (Cons x xs)
  show ?case
  proof (cases "er_id x = eid")
    case True
    then have "\<forall>a\<in>set xs. er_id a \<noteq> eid" using Cons.prems(1) by (auto simp: image_iff)
    then have "map (\<lambda>a. if er_id a = eid then a\<lparr>er_status := ''responding'', er_responded_by := Some n\<rparr> else a) xs = xs"
      by (induction xs) auto
    moreover have "er_status x = ''active'' \<and> er_responded_by x = None"
      using Cons.prems(2) True \<open>\<forall>a\<in>set xs. er_id a \<noteq> eid\<close> by (auto simp: list_ex_iff split: if_splits)
    ultimately show ?thesis using True by simp
  next
    case False
    have "list_ex (\<lambda>a. er_id a = eid) (filter (\<lambda>a. er_status a = ''active'' \<and> er_responded_by a = None) xs)"
      using Cons.prems(2) False by (simp split: if_splits)
    then show ?thesis using Cons.IH Cons.prems(1) False by simp
  qed
qed simp

lemma map_er_id_respond [simp]:
  "map er_id (map (\<lambda>a. if er_id a = eid then a\<lparr>er_status := s, er_responded_by := r\<rparr> else a) xs) = map er_id xs"
  by (induction xs) auto

lemma handle_incident_action_emergencies [simp]:
  "vh_emergencies (fst (handle_incident_action up now u iid act (st, db))) = vh_emergencies st \<and>
   vs_responded (vh_stats (fst (handle_incident_action up now u iid act (st, db)))) = vs_responded (vh_stats st)"
  by (simp add: handle_incident_action_def Let_def split_def)

lemma hub_inv_step:
  assumes "hub_inv st" "hub_enabled st ev"
  shows "hub_inv (fst (hub_step up now u ev (st, db)))"
proof (cases ev)
  case (HubAction iid act)
  then show ?thesis using assms(1)
    by (simp add: hub_step_def hub_inv_def answerable_emergencies_def)
next
  case (Respond eid)
  then have "list_ex (\<lambda>a. er_id a = eid) (answerable_emergencies st)" using assms(2) by (simp add: hub_enabled_def)
  then show ?thesis using Respond assms(1) respond_answerable[of "vh_emergencies st" eid "u_name u"]
    by (simp add: hub_step_def respond_to_emergency_def hub_inv_def answerable_emergencies_def)
next
  case (HubTab t)
  then show ?thesis using assms(1) by (simp add: hub_step_def hub_inv_def answerable_emergencies_def)
qed

lemma hub_reachable_inv: "hub_reachable sd \<Longrightarrow> hub_inv (fst sd)"
proof (induction sd rule: hub_reachable.induct)
  case (mount up now t db)
  then show ?case by (simp add: hub_inv_def hub_init_def initial_emergencies_def answerable_emergencies_def)
next
  case (step st db ev up now u)
  then show ?case by (simp add: hub_inv_step)
qed

lemma hub_reachable_step: "hub_reachable sd \<Longrightarrow> hub_enabled (fst sd) ev \<Longrightarrow> hub_reachable (hub_step up now u ev sd)"
  by (cases sd) (simp add: hub_reachable.step)

text \<open>
  C14. The reporting screen never decides an incident. All its votes are cast as the one
  volunteer \<open>volunteer_user\<close>, so from an empty approvals table no incident reaches
  the quorum of three. Its approve and reject buttons leave every status as it was; only
  resolve changes one. This holds for any sequence of clicks, with the network up or down.
\<close>

theorem reporting_screen_never_decides:
  assumes "approvals (inc_db db) = []"
  shows "list_all2 status_kept (incidents (inc_db db)) (incidents (inc_db (snd (ir_run evs (st, db)))))"
proof -
  have "fixed_voter (approvals (inc_db (snd (st, db))))" using assms by simp
  then show ?thesis using ir_run_fixed_voter by fastforce
qed

text \<open>
  C15. The hub's counters match its alert list. In every state the volunteer hub
  reaches, the emergency ids are distinct, and the answered count plus the answerable
  alerts is 8. Each \<open>Respond\<close> answers exactly one alert, and no alert is answered twice.
\<close>

theorem hub_emergency_invariant:
  assumes "hub_reachable (st, db)"
  shows "distinct (map er_id (vh_emergencies st)) \<and>
         vs_responded (vh_stats st) + length (answerable_emergencies st) = 8"
  using hub_reachable_inv[OF assms] by (simp add: hub_inv_def)

text \<open>
  C30. The hub reports success for an action the backend refused. When the action
  request fails, the hub still counts one more reviewed incident and shows the success
  message; the store is unchanged. The failure may be the network or a 500 answer
  (here: the handler's error).
\<close>

theorem hub_counts_failed_action:
  assumes "incident_action (now div 1000) iid \<lparr>rq_action = JsVal act, rq_volunteer = JsVal (u_id u), rq_comment = JsVal []\<rparr> (inc_db db) = Inl e"
  shows "snd (handle_incident_action up now u iid act (st, db)) = db \<and>
         vs_reviewed (vh_stats (fst (handle_incident_action up now u iid act (st, db)))) = Suc (vs_reviewed (vh_stats st)) \<and>
         vh_alerts (fst (handle_incident_action up now u iid act (st, db))) = vh_alerts st @ [IncidentActionDone act]"
  using assms
  by (simp add: handle_incident_action_def Let_def split_def load_pending_incidents_db volunteer_action_api_def answer_def)

text \<open>
  C31. The reporting screen announces success for a report the backend refused. When
  the insert fails, the screen still resets the form and shows the success message, and
  the store is unchanged. The insert fails, for example, for a latitude outside
  \<open>DECIMAL(10, 8)\<close> or for a second report in the same millisecond.
\<close>

theorem report_success_announced_when_rejected:
  assumes "rf_lat (ir_form st) = Some la" "rf_lng (ir_form st) = Some lo" "rf_description (ir_form st) \<noteq> []"
    and "create_incident (now div 1000) (report_body now (ir_form st) la lo) (inc_db db) = Inl e"
  shows "snd (handle_submit_report up now loc (st, db)) = db \<and>
         ir_alerts (fst (handle_submit_report up now loc (st, db))) = ir_alerts st @ [ReportedOk] \<and>
         ir_form (fst (handle_submit_report up now loc (st, db))) = report_form_init loc"
proof -
  have "snd (create_incident_api up now (report_body now (ir_form st) la lo) db) = db"
    using assms(4) by (simp add: create_incident_api_def answer_def)
  then show ?thesis using handle_submit_report_filled[OF assms(1-3)] by (simp add: Let_def)
qed

section \<open>Computed runs\<close>

lemma reporting_screen_never_decides_witness:
  "approvals (inc_db first_report_db) = [] \<and>
   list_all2 status_kept (incidents (inc_db first_report_db))
     (incidents (inc_db (snd (ir_run [(True, 5, ''incident-1'', ''approve''), (True, 6, ''incident-1'', ''reject'')]
                                   (ir_init None, first_report_db)))))"
proof -
  have h: "approvals (inc_db first_report_db) = []"
    by (simp add: sample_report_def init_db_def answer_def create_incident_def sql_simps decimal_fits_def decimal_round_def)
  show ?thesis using h reporting_screen_never_decides[OF h] by blast
qed

lemma hub_emergency_invariant_witness:
  "hub_reachable (hub_step False 2 sample_volunteer (Respond ''emg-1'')
                  (hub_step False 1 sample_volunteer (HubTab ''emergencies'') (load_pending_incidents False 0 (hub_init 1000000, init_db 0)))) \<and>
   distinct (map er_id (vh_emergencies (fst (hub_step False 2 sample_volunteer (Respond ''emg-1'')
                  (hub_step False 1 sample_volunteer (HubTab ''emergencies'') (load_pending_incidents False 0 (hub_init 1000000, init_db 0))))))) \<and>
   vs_responded (vh_stats (fst (hub_step False 2 sample_volunteer (Respond ''emg-1'')
                  (hub_step False 1 sample_volunteer (HubTab ''emergencies'') (load_pending_incidents False 0 (hub_init 1000000, init_db 0))))))
   + length (answerable_emergencies (fst (hub_step False 2 sample_volunteer (Respond ''emg-1'')
                  (hub_step False 1 sample_volunteer (HubTab ''emergencies'') (load_pending_incidents False 0 (hub_init 1000000, init_db 0)))))) = 8"
proof -
  let ?s0 = "load_pending_incidents False 0 (hub_init 1000000, init_db 0)"
  let ?s1 = "hub_step False 1 sample_volunteer (HubTab ''emergencies'') ?s0"
  let ?s2 = "hub_step False 2 sample_volunteer (Respond ''emg-1'') ?s1"
  have r0: "hub_reachable ?s0" by (rule hub_reachable.mount)
  have r1: "hub_reachable ?s1" using r0 by (rule hub_reachable_step) (simp add: hub_enabled_def)
  have e: "hub_enabled (fst ?s1) (Respond ''emg-1'')"
    by (simp add: hub_enabled_def hub_step_def load_pending_incidents_def api_methods hub_init_def
                  initial_emergencies_def answerable_emergencies_def)
  have r2: "hub_reachable ?s2" using r1 e by (rule hub_reachable_step)
  have "hub_reachable (fst ?s2, snd ?s2)" using r2 by simp
  from hub_emergency_invariant[OF this] show ?thesis using r2 by blast
qed

lemma hub_counts_failed_action_witness:
  "incident_action (5 div 1000) ''missing'' \<lparr>rq_action = JsVal ''approve'', rq_volunteer = JsVal (u_id sample_volunteer), rq_comment = JsVal []\<rparr>
     (inc_db (init_db 0)) = Inl ForeignKeyViolation \<and>
   snd (handle_incident_action True 5 sample_volunteer ''missing'' ''approve'' (hub_init 0, init_db 0)) = init_db 0 \<and>
   vs_reviewed (vh_stats (fst (handle_incident_action True 5 sample_volunteer ''missing'' ''approve'' (hub_init 0, init_db 0)))) = 24 \<and>
   vh_alerts (fst (handle_incident_action True 5 sample_volunteer ''missing'' ''approve'' (hub_init 0, init_db 0))) = [IncidentActionDone ''approve'']"
proof -
  have h: "incident_action (5 div 1000) ''missing'' \<lparr>rq_action = JsVal ''approve'', rq_volunteer = JsVal (u_id sample_volunteer), rq_comment = JsVal []\<rparr>
     (inc_db (init_db 0)) = Inl ForeignKeyViolation"
    by (simp add: sql_simps init_db_def sample_volunteer_def)
  show ?thesis using h hub_counts_failed_action[OF h, of True "hub_init 0"] by (simp add: hub_init_def)
qed

lemma report_success_announced_when_rejected_witness:
  "rf_lat (ir_form ((ir_init None)\<lparr>ir_form := \<lparr>rf_type = ''theft'', rf_description = ''dark lane'', rf_severity = ''high'', rf_lat = Some 100, rf_lng = Some 75\<rparr>\<rparr>)) = Some 100 \<and>
   rf_lng (ir_form ((ir_init None)\<lparr>ir_form := \<lparr>rf_type = ''theft'', rf_description = ''dark lane'', rf_severity = ''high'', rf_lat = Some 100, rf_lng = Some 75\<rparr>\<rparr>)) = Some 75 \<and>
   rf_description (ir_form ((ir_init None)\<lparr>ir_form := \<lparr>rf_type = ''theft'', rf_description = ''dark lane'', rf_severity = ''high'', rf_lat = Some 100, rf_lng = Some 75\<rparr>\<rparr>)) \<noteq> [] \<and>
   create_incident (5 div 1000) (report_body 5 \<lparr>rf_type = ''theft'', rf_description = ''dark lane'', rf_severity = ''high'', rf_lat = Some 100, rf_lng = Some 75\<rparr> 100 75)
     (inc_db (init_db 0)) = Inl OutOfRange \<and>
   snd (handle_submit_report True 5 None ((ir_init None)\<lparr>ir_form := \<lparr>rf_type = ''theft'', rf_description = ''dark lane'', rf_severity = ''high'', rf_lat = Some 100, rf_lng = Some 75\<rparr>\<rparr>, init_db 0)) = init_db 0 \<and>
   ir_alerts (fst (handle_submit_report True 5 None ((ir_init None)\<lparr>ir_form := \<lparr>rf_type = ''theft'', rf_description = ''dark lane'', rf_severity = ''high'', rf_lat = Some 100, rf_lng = Some 75\<rparr>\<rparr>, init_db 0))) = [ReportedOk]"
proof -
  let ?f = "\<lparr>rf_type = ''theft'', rf_description = ''dark lane'', rf_severity = ''high'', rf_lat = Some 100, rf_lng = Some (75::real)\<rparr>"
  let ?st = "(ir_init None)\<lparr>ir_form := ?f\<rparr>"
  have h: "rf_lat (ir_form ?st) = Some 100" "rf_lng (ir_form ?st) = Some 75" "rf_description (ir_form ?st) \<noteq> []" by simp_all
  have c: "create_incident (5 div 1000) (report_body 5 (ir_form ?st) 100 75) (inc_db (init_db 0)) = Inl OutOfRange"
    by (simp add: create_incident_def report_body_def string_of_nat_unfold[of 5] varchar_fits_def text_fits_def
                  decimal_fits_def decimal_round_def init_db_def)
  show ?thesis using h c report_success_announced_when_rejected[OF h c, of True None] by (simp add: ir_init_def)
qed

end
