(* ===== verification/Admin_Screens.thy ===== *)
theory Admin_Screens
  imports Incident_Client
begin

text \<open>
  Three screens of the client with state of their own:
  \<^item> the admin dashboard of \<^verbatim>\<open>src/src/components/AdminPanel.jsx\<close>, which loads the
    incident list once and recomputes three of its statistics from it;
  \<^item> the stand-alone report form of \<^verbatim>\<open>src/src/components/IncidentReporter.jsx\<close>,
    which keeps its reports in memory and hides its success screen with a
    \<open>setTimeout\<close>;
  \<^item> the coordination screen of \<^verbatim>\<open>src/src/components/VolunteerCoordination.jsx\<close>,
    whose only state is its tab and the volunteer's availability.
\<close>

section \<open>Admin panel\<close>

text \<open>The values of the column \<open>incidents.status VARCHAR(20)\<close> that the handlers write, as the JSON rows carry them.\<close>

definition status_text :: "status \<Rightarrow> string" where
  "status_text s = (case s of Pending \<Rightarrow> ''pending'' | Approved \<Rightarrow> ''approved''
                              | Rejected \<Rightarrow> ''rejected'' | Resolved \<Rightarrow> ''resolved'')"

text \<open>\<open>s || d\<close> on a string: the empty string is falsy.\<close>

definition or_default :: "string \<Rightarrow> string \<Rightarrow> string" where
  "or_default s d = (if s = [] then d else s)"

record admin_stats =
  as_total_users :: nat
  as_active_volunteers :: nat
  as_total_incidents :: nat
  as_resolved :: nat
  as_pending :: nat
  as_emergency_alerts :: nat
  as_safe_zones :: nat
  as_danger_zones :: nat

record admin_user =
  adu_id :: string
  adu_name :: string
  adu_role :: string
  adu_status :: string
  adu_joined :: string

record admin_state =
  ad_tab :: string
  ad_stats :: admin_stats
  ad_incidents :: "incident_row list"
  ad_users :: "admin_user list"

definition admin_init :: admin_state where
  "admin_init =
     \<lparr>ad_tab = ''overview'',
      ad_stats = \<lparr>as_total_users = 156, as_active_volunteers = 23, as_total_incidents = 89, as_resolved = 67,
                  as_pending = 15, as_emergency_alerts = 7, as_safe_zones = 12, as_danger_zones = 8\<rparr>,
      ad_incidents = [],
      ad_users =
        [\<lparr>adu_id = ''1'', adu_name = ''Priya Sharma'', adu_role = ''woman'', adu_status = ''active'', adu_joined = ''2024-09-15''\<rparr>,
         \<lparr>adu_id = ''2'', adu_name = ''Rajesh Kumar'', adu_role = ''volunteer'', adu_status = ''active'', adu_joined = ''2024-09-10''\<rparr>,
         \<lparr>adu_id = ''3'', adu_name = ''Simran Singh'', adu_role = ''woman'', adu_status = ''active'', adu_joined = ''2024-09-20''\<rparr>,
         \<lparr>adu_id = ''4'', adu_name = ''Amit Patel'', adu_role = ''volunteer'', adu_status = ''inactive'', adu_joined = ''2024-08-30''\<rparr>]\<rparr>"

text \<open>
  \<open>loadIncidents\<close>, run by the mount effect: the list and three counts taken from it,
  with \<open>i.status === 'resolved'\<close> and \<open>'pending'\<close> on the JSON status text.
\<close>

definition admin_load :: "bool \<Rightarrow> nat \<Rightarrow> admin_state \<times> server_db \<Rightarrow> admin_state \<times> server_db" where
  "admin_load up now sd =
     (let (st, db) = sd; (r, db1) = fetch_incidents up now db
      in (case r of
            Returned data \<Rightarrow>
              st\<lparr>ad_incidents := data,
                 ad_stats := (ad_stats st)\<lparr>as_total_incidents := length data,
                   as_resolved := length (filter (\<lambda>i. status_text (row_status i) = ''resolved'') data),
                   as_pending := length (filter (\<lambda>i. status_text (row_status i) = ''pending'') data)\<rparr>\<rparr>
          | Threw \<Rightarrow> st, db1))"

definition admin_role_color :: "string \<Rightarrow> string" where
  "admin_role_color r =
     (if r = ''woman'' then ''#ff6b9d'' else if r = ''volunteer'' then ''#2ed573''
      else if r = ''admin'' then ''#667eea'' else ''#666'')"

text \<open>\<open>s.charAt(0).toUpperCase() + s.slice(1)\<close>.\<close>

definition capitalize :: "string \<Rightarrow> string" where
  "capitalize s = (case s of [] \<Rightarrow> [] | c # cs \<Rightarrow> to_upper_char c # cs)"

text \<open>\<open>incident.type?.replace('_', ' ').toUpperCase() || 'INCIDENT'\<close>: only the first underscore is replaced.\<close>

definition type_label :: "string \<Rightarrow> string" where
  "type_label t = or_default (to_upper (replace_first ''_'' '' '' t)) ''INCIDENT''"

text \<open>One card of the \<open>All Incidents\<close> tab: the texts it shows and the badge colour.\<close>

record incident_card =
  ic_status :: string
  ic_color :: string
  ic_severity :: string
  ic_type :: string
  ic_description :: string
  ic_reporter :: string
  ic_approvals :: nat
  ic_rejections :: nat

definition incident_card :: "incident_row \<Rightarrow> incident_card" where
  "incident_card r =
     \<lparr>ic_status = or_default (to_upper (status_text (row_status r))) ''UNKNOWN'',
      ic_color = status_color (status_text (row_status r)),
      ic_severity = or_default (to_upper (row_severity r)) ''MEDIUM'',
      ic_type = type_label (row_type r),
      ic_description = or_default (case row_description r of Some d \<Rightarrow> d | None \<Rightarrow> []) ''No description provided'',
      ic_reporter = or_default (row_reporter r) ''Anonymous'',
      ic_approvals = row_approval_count r, ic_rejections = row_rejection_count r\<rparr>"

text \<open>One row of the \<open>User Management\<close> tab: avatar letter and colour, role label, status badge and its colour.\<close>

definition user_row :: "admin_user \<Rightarrow> string \<times> string \<times> string \<times> string \<times> string" where
  "user_row u = (take 1 (adu_name u), admin_role_color (adu_role u), capitalize (adu_role u), to_upper (adu_status u),
                 if adu_status u = ''active'' then ''#2ed573'' else ''#95a5a6'')"

section \<open>Stand-alone incident reporter\<close>

record recent_report =
  rr_id :: nat
  rr_type :: string
  rr_location :: string
  rr_time :: string
  rr_status :: string

record reporter_form =
  rpf_type :: string
  rpf_location :: string
  rpf_description :: string
  rpf_urgency :: string
  rpf_anonymous :: bool

definition reporter_form_init :: reporter_form where
  "reporter_form_init = \<lparr>rpf_type = [], rpf_location = [], rpf_description = [], rpf_urgency = ''medium'', rpf_anonymous = False\<rparr>"

definition initial_recent_reports :: "recent_report list" where
  "initial_recent_reports =
     [\<lparr>rr_id = 1, rr_type = ''Poor Lighting'', rr_location = ''Broadway & 42nd St'', rr_time = ''2 hours ago'', rr_status = ''Under Review''\<rparr>,
      \<lparr>rr_id = 2, rr_type = ''Suspicious Activity'', rr_location = ''Central Park West'', rr_time = ''4 hours ago'', rr_status = ''Investigating''\<rparr>,
      \<lparr>rr_id = 3, rr_type = ''Street Light Out'', rr_location = ''5th Avenue & 23rd St'', rr_time = ''6 hours ago'', rr_status = ''Resolved''\<rparr>]"

text \<open>
  The screen's state: the form, the \<open>submitted\<close> flag, the reports, and the due times
  (in ms) of the pending \<open>setTimeout(() => setSubmitted(false), 3000)\<close> callbacks.
\<close>

record reporter_state =
  rp_form :: reporter_form
  rp_submitted :: bool
  rp_reports :: "recent_report list"
  rp_timers :: "nat list"

definition reporter_init :: reporter_state where
  "reporter_init = \<lparr>rp_form = reporter_form_init, rp_submitted = False, rp_reports = initial_recent_reports, rp_timers = []\<rparr>"

datatype reporter_field = FieldType | FieldLocation | FieldDescription | FieldUrgency

text \<open>\<open>handleChange\<close> on a text input, the select or a radio button: \<open>[name]: value\<close>.\<close>

definition handle_change :: "reporter_field \<Rightarrow> string \<Rightarrow> reporter_form \<Rightarrow> reporter_form" where
  "handle_change fl v f =
     (case fl of FieldType \<Rightarrow> f\<lparr>rpf_type := v\<rparr> | FieldLocation \<Rightarrow> f\<lparr>rpf_location := v\<rparr>
               | FieldDescription \<Rightarrow> f\<lparr>rpf_description := v\<rparr> | FieldUrgency \<Rightarrow> f\<lparr>rpf_urgency := v\<rparr>)"

text \<open>
  \<open>handleSubmit\<close>: the browser submits only with the \<open>required\<close> type and location
  filled; the new report takes the id \<open>recentReports.length + 1\<close> and goes first.
\<close>

definition reporter_submit :: "nat \<Rightarrow> reporter_state \<Rightarrow> reporter_state" where
  "reporter_submit now st =
     (let f = rp_form st in
      if rpf_type f = [] \<or> rpf_location f = [] then st
      else st\<lparr>rp_reports := \<lparr>rr_id = length (rp_reports st) + 1, rr_type = rpf_type f, rr_location = rpf_location f,
                             rr_time = ''Just now'', rr_status = ''Processing''\<rparr> # rp_reports st,
              rp_submitted := True, rp_timers := rp_timers st @ [now + 3000], rp_form := reporter_form_init\<rparr>)"

text \<open>The clock reaching \<open>t\<close>: every callback due by then runs \<open>setSubmitted(false)\<close>.\<close>

definition fire_timers :: "nat \<Rightarrow> reporter_state \<Rightarrow> reporter_state" where
  "fire_timers t st =
     (if list_ex (\<lambda>d. d \<le> t) (rp_timers st)
      then st\<lparr>rp_submitted := False, rp_timers := filter (\<lambda>d. \<not> d \<le> t) (rp_timers st)\<rparr> else st)"

datatype reporter_event =
    ChangeField reporter_field string
  | ToggleAnonymous bool
  | SubmitReport nat
  | SubmitAnother
  | ClockAt nat

text \<open>
  While \<open>submitted\<close> is set the component renders the success screen instead of the
  form, whose only button is \<open>Submit Another Report\<close>; the form's events need the form.
\<close>

definition reporter_step :: "reporter_event \<Rightarrow> reporter_state \<Rightarrow> reporter_state" where
  "reporter_step ev st =
     (case ev of
        ChangeField fl v \<Rightarrow> if rp_submitted st then st else st\<lparr>rp_form := handle_change fl v (rp_form st)\<rparr>
      | ToggleAnonymous b \<Rightarrow> if rp_submitted st then st else st\<lparr>rp_form := (rp_form st)\<lparr>rpf_anonymous := b\<rparr>\<rparr>
      | SubmitReport now \<Rightarrow> if rp_submitted st then st else reporter_submit now st
      | SubmitAnother \<Rightarrow> if rp_submitted st then st\<lparr>rp_submitted := False\<rparr> else st
      | ClockAt t \<Rightarrow> fire_timers t st)"

definition reporter_run :: "reporter_event list \<Rightarrow> reporter_state \<Rightarrow> reporter_state" where
  "reporter_run evs st = fold reporter_step evs st"

text \<open>The ids of the listed reports: distinct, and exactly 1 to their number.\<close>

definition reporter_inv :: "reporter_state \<Rightarrow> bool" where
  "reporter_inv st \<longleftrightarrow> distinct (map rr_id (rp_reports st)) \<and> set (map rr_id (rp_reports st)) = {1..length (rp_reports st)}"

section \<open>Volunteer coordination\<close>

record coordination_state =
  vc_tab :: string
  vc_status :: string

definition coordination_init :: coordination_state where
  "coordination_init = \<lparr>vc_tab = ''dashboard'', vc_status = ''offline''\<rparr>"

text \<open>The \<open>Go Online\<close> / \<open>Go Offline\<close> button.\<close>

definition toggle_volunteer_status :: "coordination_state \<Rightarrow> coordination_state" where
  "toggle_volunteer_status st = st\<lparr>vc_status := (if vc_status st = ''online'' then ''offline'' else ''online'')\<rparr>"

record shift =
  sh_id :: nat
  sh_area :: string
  sh_date :: string
  sh_time :: string
  sh_volunteers :: nat
  sh_needed :: nat

definition upcoming_shifts :: "shift list" where
  "upcoming_shifts =
     [\<lparr>sh_id = 1, sh_area = ''Times Square'', sh_date = ''2025-10-04'', sh_time = ''8:00 PM - 12:00 AM'', sh_volunteers = 3, sh_needed = 5\<rparr>,
      \<lparr>sh_id = 2, sh_area = ''Central Park'', sh_date = ''2025-10-04'', sh_time = ''10:00 PM - 2:00 AM'', sh_volunteers = 2, sh_needed = 4\<rparr>,
      \<lparr>sh_id = 3, sh_area = ''East Village'', sh_date = ''2025-10-05'', sh_time = ''9:00 PM - 1:00 AM'', sh_volunteers = 4, sh_needed = 6\<rparr>]"

text \<open>The label of a shift's button; the button has no \<open>onClick\<close>.\<close>

definition shift_button :: "shift \<Rightarrow> string" where
  "shift_button sh = (if sh_volunteers sh < sh_needed sh then ''Sign Up'' else ''Full'')"

definition volunteer_badge :: "string \<Rightarrow> string" where
  "volunteer_badge s = (if s = ''on-patrol'' then ''On Patrol'' else s)"

record volunteer_profile =
  vp_id :: nat
  vp_name :: string
  vp_status :: string
  vp_location :: string
  vp_rating :: real
  vp_shifts :: nat
  vp_joined :: string
  vp_specialties :: "string list"

definition coordination_volunteers :: "volunteer_profile list" where
  "coordination_volunteers =
     [\<lparr>vp_id = 1, vp_name = ''Sarah Mitchell'', vp_status = ''online'', vp_location = ''Times Square Area'', vp_rating = 4.9,
       vp_shifts = 24, vp_joined = ''2024-08-15'', vp_specialties = [''Night Patrol'', ''Emergency Response'']\<rparr>,
      \<lparr>vp_id = 2, vp_name = ''Mike Rodriguez'', vp_status = ''online'', vp_location = ''Central Park West'', vp_rating = 4.8,
       vp_shifts = 18, vp_joined = ''2024-09-02'', vp_specialties = [''Community Outreach'', ''Safety Education'']\<rparr>,
      \<lparr>vp_id = 3, vp_name = ''Anna Kim'', vp_status = ''offline'', vp_location = ''East Village'', vp_rating = 4.7,
       vp_shifts = 31, vp_joined = ''2024-07-10'', vp_specialties = [''First Aid'', ''Crisis Support'']\<rparr>,
      \<lparr>vp_id = 4, vp_name = ''David Thompson'', vp_status = ''on-patrol'', vp_location = ''Brooklyn Bridge Area'', vp_rating = 4.9,
       vp_shifts = 42, vp_joined = ''2024-06-20'', vp_specialties = [''Night Patrol'', ''Technology Support'']\<rparr>]"

text \<open>One card of the volunteer list: name, location, status badge, rating, shifts and specialties; its \<open>Contact\<close> button has no \<open>onClick\<close>.\<close>

definition volunteer_card :: "volunteer_profile \<Rightarrow> string \<times> string \<times> string \<times> real \<times> nat \<times> string list" where
  "volunteer_card v = (vp_name v, vp_location v, volunteer_badge (vp_status v), vp_rating v, vp_shifts v, vp_specialties v)"

datatype coordination_event = CoordTab string | ToggleStatus

definition coordination_step :: "coordination_event \<Rightarrow> coordination_state \<Rightarrow> coordination_state" where
  "coordination_step ev st = (case ev of CoordTab t \<Rightarrow> st\<lparr>vc_tab := t\<rparr> | ToggleStatus \<Rightarrow> toggle_volunteer_status st)"

datatype coordination_view = DashboardView string | VolunteerListView "(string \<times> string \<times> string \<times> real \<times> nat \<times> string list) list"

text \<open>\<open>activeTab === 'dashboard' ? renderDashboard() : renderVolunteerList()\<close>: the dashboard shows the status line.\<close>

definition coordination_view :: "coordination_state \<Rightarrow> coordination_view" where
  "coordination_view st =
     (if vc_tab st = ''dashboard''
      then DashboardView (if vc_status st = ''online'' then ''Online & Available'' else ''Offline'')
      else VolunteerListView (map volunteer_card coordination_volunteers))"

text \<open>A filled report form at whole-degree coordinates, for the computed runs.\<close>

definition night_report :: ir_state where
  "night_report = (ir_init None)\<lparr>ir_form := \<lparr>rf_type = ''poor_lighting'', rf_description = ''dark lane'', rf_severity = ''high'',
                                              rf_lat = Some 31, rf_lng = Some 75\<rparr>\<rparr>"

section \<open>Lemmas\<close>

lemma status_text_eq [simp]:
  "status_text s = ''resolved'' \<longleftrightarrow> s = Resolved"
  "status_text s = ''pending'' \<longleftrightarrow> s = Pending"
  by (cases s; simp add: status_text_def)+

lemma length_filter_sort_key: "length (filter P (sort_key f xs)) = length (filter P xs)"
  by (metis mset_filter mset_sort size_mset)

lemma create_incident_new_row:
  assumes "create_incident now rq d = Inr d'" and "rq_id rq = JsVal i"
  shows "\<exists>x. incidents d' = incidents d @ [x] \<and> inc_id x = i \<and> inc_status x = Pending \<and> approvals d' = approvals d"
  using assms by (auto simp: create_incident_def Let_def split: if_splits option.splits js_value.splits)

lemma handle_submit_report_stored:
  assumes "rf_lat (ir_form st) = Some la" "rf_lng (ir_form st) = Some lo" "rf_description (ir_form st) \<noteq> []"
    and "create_incident (now div 1000) (report_body now (ir_form st) la lo) (inc_db db) = Inr d"
  shows "snd (handle_submit_report True now loc (st, db)) = db\<lparr>inc_db := d\<rparr>"
proof -
  have "snd (create_incident_api True now (report_body now (ir_form st) la lo) db) = db\<lparr>inc_db := d\<rparr>"
    using assms(4) by (simp add: create_incident_api_def answer_def)
  then show ?thesis using handle_submit_report_filled[OF assms(1-3)] by (simp add: Let_def)
qed

lemma load_pending_incidents_up:
  "vh_pending (fst (load_pending_incidents True now (st, db))) = list_pending (inc_db db)"
  by (simp add: load_pending_incidents_def api_methods api_json_def)

lemma list_pending_has:
  "x \<in> set (incidents d) \<Longrightarrow> inc_status x = Pending \<Longrightarrow> list_ex (\<lambda>r. prow_id r = inc_id x \<and> prow_status r = Pending) (list_pending d)"
  by (auto simp: list_pending_def newest_first_def list_ex_iff)

lemma admin_load_up:
  "ad_incidents (fst (admin_load True now (st, db))) = list_incidents (inc_db db) \<and>
   ad_stats (fst (admin_load True now (st, db))) =
     (ad_stats st)\<lparr>as_total_incidents := length (incidents (inc_db db)),
                   as_resolved := length (filter (\<lambda>x. inc_status x = Resolved) (incidents (inc_db db))),
                   as_pending := length (filter (\<lambda>x. inc_status x = Pending) (incidents (inc_db db)))\<rparr> \<and>
   snd (admin_load True now (st, db)) = db"
  by (simp add: admin_load_def api_methods api_json_def list_incidents_def newest_first_def length_filter_sort_key comp_def)

lemma reporter_inv_step: "reporter_inv st \<Longrightarrow> reporter_inv (reporter_step ev st)"
proof (cases ev)
  case (SubmitReport now)
  assume inv: "reporter_inv st"
  have "{1..length (rp_reports st) + 1} = insert (length (rp_reports st) + 1) {1..length (rp_reports st)}" by auto
  then show ?thesis using inv SubmitReport
    by (auto simp: reporter_step_def reporter_submit_def reporter_inv_def Let_def)
qed (auto simp: reporter_step_def fire_timers_def reporter_inv_def)

text \<open>
  C33. The admin panel's incident figures mirror the store. With the network up, the
  mount load shows exactly the backend's listing. The total, resolved and pending counts
  are those of the store's incidents, whatever the listing's order. The other figures
  stay the built-in samples, and the store is unchanged.
\<close>

theorem admin_stats_mirror_store:
  "ad_incidents (fst (admin_load True now (st, db))) = list_incidents (inc_db db) \<and>
   ad_stats (fst (admin_load True now (st, db))) =
     (ad_stats st)\<lparr>as_total_incidents := length (incidents (inc_db db)),
                   as_resolved := length (filter (\<lambda>x. inc_status x = Resolved) (incidents (inc_db db))),
                   as_pending := length (filter (\<lambda>x. inc_status x = Pending) (incidents (inc_db db)))\<rparr> \<and>
   snd (admin_load True now (st, db)) = db"
  by (rule admin_load_up)

text \<open>
  The admin panel shows zeros when offline. With the network down,
  \<open>fetchIncidents\<close> resolves to an empty list instead of throwing, so the load
  replaces the sample figures with 0 incidents, 0 resolved and 0 pending.
\<close>

lemma admin_offline_zero_stats:
  "ad_incidents (fst (admin_load False now (st, db))) = [] \<and>
   ad_stats (fst (admin_load False now (st, db))) =
     (ad_stats st)\<lparr>as_total_incidents := 0, as_resolved := 0, as_pending := 0\<rparr>"
  by (simp add: admin_load_def api_methods)

text \<open>
  C34. The reporter's report ids stay unique. After any sequence of events on the
  stand-alone reporter, the ids of the listed reports are distinct and are exactly 1 to
  their number, so \<open>recentReports.length + 1\<close> is always a fresh id and React's keys
  are unique.
\<close>

theorem reporter_ids_unique: "reporter_inv (reporter_run evs reporter_init)"
proof -
  have "reporter_inv st \<Longrightarrow> reporter_inv (fold reporter_step evs st)" for st
    by (induction evs arbitrary: st) (simp_all add: reporter_inv_step)
  moreover have "reporter_inv reporter_init"
    by (auto simp: reporter_inv_def reporter_init_def initial_recent_reports_def)
  ultimately show ?thesis by (simp add: reporter_run_def)
qed

text \<open>
  A timer of an earlier report hides the success screen of a later one. One report at
  0 ms, \<open>Submit Another Report\<close>, and a second report at 2000 ms: the first
  report's callback at 3000 ms ends the second success screen after one second.
\<close>

lemma reporter_stale_timer_hides_success:
  "rp_submitted (reporter_run [ChangeField FieldType ''Theft'', ChangeField FieldLocation ''Main St'', SubmitReport 0, SubmitAnother,
                               ChangeField FieldType ''Theft'', ChangeField FieldLocation ''Main St'', SubmitReport 2000] reporter_init) \<and>
   \<not> rp_submitted (reporter_run [ChangeField FieldType ''Theft'', ChangeField FieldLocation ''Main St'', SubmitReport 0, SubmitAnother,
                               ChangeField FieldType ''Theft'', ChangeField FieldLocation ''Main St'', SubmitReport 2000, ClockAt 3000] reporter_init)"
  by (simp add: reporter_run_def reporter_step_def reporter_submit_def handle_change_def fire_timers_def reporter_init_def reporter_form_init_def)

text \<open>
  The admin card's type label of every type the reporting form offers is the option's
  label in capitals.
\<close>

lemma type_labels_match_form: "list_all (\<lambda>(v, l). type_label v = to_upper l) incident_type_options"
  by (simp add: incident_type_options_def type_label_def to_upper_def to_upper_char_def or_default_def)

text \<open>
  C16. A report filed on the reporting screen reaches the other screens. When the
  backend stores it, the volunteer hub's next load lists it as pending under its id
  \<open>incident-<now>\<close>, and the admin panel's next load counts one more pending incident.
\<close>

theorem report_reaches_hub_and_admin:
  assumes "rf_lat (ir_form st) = Some la" "rf_lng (ir_form st) = Some lo" "rf_description (ir_form st) \<noteq> []"
    and "create_incident (now div 1000) (report_body now (ir_form st) la lo) (inc_db db) = Inr d"
  shows "list_ex (\<lambda>r. prow_id r = ''incident-'' @ string_of_nat now \<and> prow_status r = Pending)
           (vh_pending (fst (load_pending_incidents True now' (hst, snd (handle_submit_report True now loc (st, db)))))) \<and>
         as_pending (ad_stats (fst (admin_load True now' (ast, snd (handle_submit_report True now loc (st, db)))))) =
           Suc (length (filter (\<lambda>x. inc_status x = Pending) (incidents (inc_db db))))"
proof -
  obtain x where x: "incidents d = incidents (inc_db db) @ [x]" "inc_id x = ''incident-'' @ string_of_nat now" "inc_status x = Pending"
    using create_incident_new_row[OF assms(4)] by (auto simp: report_body_def)
  have s: "snd (handle_submit_report True now loc (st, db)) = db\<lparr>inc_db := d\<rparr>"
    using handle_submit_report_stored[OF assms] .
  have "list_ex (\<lambda>r. prow_id r = inc_id x \<and> prow_status r = Pending) (list_pending d)"
    using list_pending_has[of x d] x by simp
  then show ?thesis using s x by (simp add: load_pending_incidents_up admin_load_up)
qed

lemma report_reaches_hub_and_admin_witness:
  "rf_lat (ir_form night_report) = Some 31 \<and> rf_lng (ir_form night_report) = Some 75 \<and> rf_description (ir_form night_report) \<noteq> [] \<and>
   (\<exists>d. create_incident (5 div 1000) (report_body 5 (ir_form night_report) 31 75) (inc_db (init_db 0)) = Inr d) \<and>
   list_ex (\<lambda>r. prow_id r = ''incident-'' @ string_of_nat 5 \<and> prow_status r = Pending)
     (vh_pending (fst (load_pending_incidents True 6 (hub_init 0, snd (handle_submit_report True 5 None (night_report, init_db 0)))))) \<and>
   as_pending (ad_stats (fst (admin_load True 6 (admin_init, snd (handle_submit_report True 5 None (night_report, init_db 0)))))) = 1"
proof -
  have h: "rf_lat (ir_form night_report) = Some 31" "rf_lng (ir_form night_report) = Some 75" "rf_description (ir_form night_report) \<noteq> []"
    by (simp_all add: night_report_def)
  have "\<exists>d. create_incident (5 div 1000) (report_body 5 (ir_form night_report) 31 75) (inc_db (init_db 0)) = Inr d"
    by (simp add: create_incident_def report_body_def night_report_def string_of_nat_unfold[of 5] varchar_fits_def
                  text_fits_def decimal_fits_def decimal_round_def init_db_def)
  then obtain d where c: "create_incident (5 div 1000) (report_body 5 (ir_form night_report) 31 75) (inc_db (init_db 0)) = Inr d" ..
  have "length (filter (\<lambda>x. inc_status x = Pending) (incidents (inc_db (init_db 0)))) = 0" by (simp add: init_db_def)
  then show ?thesis using h c report_reaches_hub_and_admin[OF h c, of 6 "hub_init 0" None "admin_init"] by auto
qed

end
