(* ===== verification/Map_Report.thy ===== *)
theory Map_Report
  imports Map_Client Admin_Screens
begin

text \<open>
  The parts of \<^verbatim>\<open>src/src/components/SafetyMap.jsx\<close> that join the map to the other
  screens: the incident reporting dialog the map opens (\<open>showIncidentReporting\<close>,
  which mounts \<open>IncidentReporting\<close> with the map's \<open>userLocation\<close>), and what the map
  draws from its state: the colours of the rating buttons, the circle that previews a
  rating, and the statistics panel.
\<close>

section \<open>The map with its report dialog\<close>

text \<open>
  The map's state and the dialog's state while it is shown: opening mounts a fresh
  \<open>IncidentReporting\<close> (its initial state and the load of its mount effect), closing
  unmounts it and its state is gone.
\<close>

record map_app =
  ma_map :: map_client
  ma_report :: "ir_state option"

definition map_app_init :: map_app where
  "map_app_init = \<lparr>ma_map = map_client_init, ma_report = None\<rparr>"

datatype map_app_event = MapEv map_event | OpenReport | CloseReport | ReportEv ir_event

definition map_app_step :: "nat \<Rightarrow> bool \<Rightarrow> string \<Rightarrow> map_app_event \<Rightarrow> map_app \<times> server_db \<Rightarrow> map_app \<times> server_db" where
  "map_app_step now up tt ev sd =
     (let (ma, db) = sd in
      case ev of
        MapEv e \<Rightarrow> (let (m, db1) = map_step now up tt e (ma_map ma, db) in (ma\<lparr>ma_map := m\<rparr>, db1))
      | OpenReport \<Rightarrow>
          (case ma_report ma of
             None \<Rightarrow> let (r, db1) = ir_load up now (ir_init (mc_user_location (ma_map ma)), db)
                     in (ma\<lparr>ma_report := Some r\<rparr>, db1)
           | Some _ \<Rightarrow> sd)
      | CloseReport \<Rightarrow> (ma\<lparr>ma_report := None\<rparr>, db)
      | ReportEv e \<Rightarrow>
          (case ma_report ma of
             None \<Rightarrow> sd
           | Some r \<Rightarrow> let (r1, db1) = ir_step up (mc_user_location (ma_map ma)) e (r, db)
                       in (ma\<lparr>ma_report := Some r1\<rparr>, db1)))"

fun map_app_run :: "(nat \<times> bool \<times> string \<times> map_app_event) list \<Rightarrow> map_app \<times> server_db \<Rightarrow> map_app \<times> server_db" where
  "map_app_run [] sd = sd"
| "map_app_run ((now, up, tt, ev) # evs) sd = map_app_run evs (map_app_step now up tt ev sd)"

section \<open>What the map draws\<close>

text \<open>The five rating buttons: \<open>rating <= 2 ? red : rating <= 3 ? amber : green\<close>.\<close>

definition rating_button_color :: "int \<Rightarrow> string" where
  "rating_button_color r = (if r \<le> 2 then ''#ff4757'' else if r \<le> 3 then ''#f39c12'' else ''#2ed573'')"

text \<open>
  The circle \<open>RadiusPreview\<close> draws while the rating dialog is open:
  \<open>showRatingModal && ratingLocation\<close> around it, \<open>visible && center && radius\<close>
  inside it; a radius of 0 is falsy and draws nothing.
\<close>

definition radius_preview :: "map_client \<Rightarrow> (coord \<times> int) option" where
  "radius_preview st =
     (case mc_rating_location st of
        Some (c, _) \<Rightarrow> if mc_show_rating st \<and> mc_radius st \<noteq> 0 then Some (c, mc_radius st) else None
      | None \<Rightarrow> None)"

text \<open>
  The statistics panel: the numbers of safe and danger zones, the online volunteers of
  \<open>mapData.volunteers\<close> (a list no code of the component fills, so always empty), and
  live tracking.
\<close>

definition map_stats :: "map_client \<Rightarrow> nat \<times> nat \<times> nat \<times> string" where
  "map_stats st =
     (length (mc_safe st), length (mc_danger st), 0, if mc_user_location st = None then ''OFF'' else ''ON'')"

text \<open>A map whose user is located at whole-degree coordinates.\<close>

definition located_map :: map_app where
  "located_map = map_app_init\<lparr>ma_map := map_client_init\<lparr>mc_user_location := Some \<lparr>lat = 31, lng = 75\<rparr>\<rparr>\<rparr>"

section \<open>Lemmas\<close>

lemma create_incident_row:
  assumes "create_incident now rq d = Inr d'" "rq_lat rq = JsVal la" "rq_lng rq = JsVal lo"
  shows "\<exists>x. incidents d' = incidents d @ [x] \<and> inc_lat x = decimal_round 8 la \<and> inc_lng x = decimal_round 8 lo \<and>
             inc_description x = js_val (rq_description rq) \<and> inc_status x = Pending"
  using assms by (auto simp: create_incident_def Let_def split: if_splits option.splits js_value.splits)

lemma js_or_coord_nonzero [simp]: "v \<noteq> 0 \<Longrightarrow> js_or_coord (Some v) = Some v"
  by (simp add: js_or_coord_def)

lemma open_report_form:
  "ma_report ma = None \<Longrightarrow>
   map_app_step now up tt OpenReport (ma, db) =
     (ma\<lparr>ma_report := Some (fst (ir_load up now (ir_init (mc_user_location (ma_map ma)), db)))\<rparr>, db)"
  by (simp add: map_app_step_def split_def ir_load_db)

lemma rating_three_amber_but_safe:
  "rating_button_color 3 = ''#f39c12'' \<and> zv_volunteers (new_rated_zone now tt c u 3 rad) = Some 0"
  by (simp add: rating_button_color_def new_rated_zone_def rated_zone_def)

text \<open>
  A user located on the equator or the prime meridian gets an empty coordinate field
  (\<open>userLocation?.lat || ''\<close>, 0 is falsy): the browser refuses the submission of the
  required field, and nothing is posted.
\<close>

lemma map_report_zero_latitude:
  assumes "ma_report ma = None" "mc_user_location (ma_map ma) = Some c" "lat c = 0"
  shows "snd (map_app_run [(t0, up, tt, OpenReport), (t1, up, tt, ReportEv (IrSetDescription d)),
                           (now, up, tt, ReportEv (IrSubmit now))] (ma, db)) = db"
proof -
  let ?r0 = "fst (ir_load up t0 (ir_init (Some c), db))"
  let ?r1 = "?r0\<lparr>ir_form := (ir_form ?r0)\<lparr>rf_description := d\<rparr>\<rparr>"
  have s1: "map_app_step t0 up tt OpenReport (ma, db) = (ma\<lparr>ma_report := Some ?r0\<rparr>, db)"
    using open_report_form[OF assms(1)] assms(2) by simp
  have s2: "map_app_step t1 up tt (ReportEv (IrSetDescription d)) (ma\<lparr>ma_report := Some ?r0\<rparr>, db) = (ma\<lparr>ma_report := Some ?r1\<rparr>, db)"
    using assms(2) by (simp add: map_app_step_def ir_step_def)
  have "rf_lat (ir_form ?r1) = None" using assms(3) by (simp add: ir_init_def report_form_init_def js_or_coord_def)
  then have "handle_submit_report up now (Some c) (?r1, db) = (?r1, db)" by (simp add: handle_submit_report_def)
  then have s3: "snd (map_app_step now up tt (ReportEv (IrSubmit now)) (ma\<lparr>ma_report := Some ?r1\<rparr>, db)) = db"
    using assms(2) by (simp add: map_app_step_def ir_step_def)
  show ?thesis using s1 s2 s3 by simp
qed

text \<open>
  C17. A report filed from the map's dialog is stored at the user's location. The map is
  located away from the equator and the prime meridian. Open the dialog, type a
  description and submit: the backend stores one new incident at the user's coordinates,
  rounded to the 8 decimals of the columns, with that description.
\<close>

theorem map_report_at_user_location:
  assumes "ma_report ma = None" "mc_user_location (ma_map ma) = Some c" "lat c \<noteq> 0" "lng c \<noteq> 0" "d \<noteq> []"
    and "create_incident (now div 1000) (report_body now ((report_form_init (Some c))\<lparr>rf_description := d\<rparr>) (lat c) (lng c)) (inc_db db) = Inr d'"
  shows "\<exists>x. incidents (inc_db (snd (map_app_run [(t0, True, tt, OpenReport), (t1, True, tt, ReportEv (IrSetDescription d)),
                                                   (now, True, tt, ReportEv (IrSubmit now))] (ma, db)))) =
               incidents (inc_db db) @ [x] \<and>
             inc_lat x = decimal_round 8 (lat c) \<and> inc_lng x = decimal_round 8 (lng c) \<and> inc_description x = Some d"
proof -
  let ?f = "(report_form_init (Some c))\<lparr>rf_description := d\<rparr>"
  let ?r0 = "fst (ir_load True t0 (ir_init (Some c), db))"
  let ?ma1 = "ma\<lparr>ma_report := Some ?r0\<rparr>"
  have s1: "map_app_step t0 True tt OpenReport (ma, db) = (?ma1, db)"
    using open_report_form[OF assms(1)] assms(2) by simp
  let ?r1 = "?r0\<lparr>ir_form := ?f\<rparr>"
  have f0: "ir_form ?r0 = report_form_init (Some c)" by (simp add: ir_init_def)
  have s2: "map_app_step t1 True tt (ReportEv (IrSetDescription d)) (?ma1, db) = (ma\<lparr>ma_report := Some ?r1\<rparr>, db)"
    using assms(2) f0 by (simp add: map_app_step_def ir_step_def)
  have h: "rf_lat (ir_form ?r1) = Some (lat c)" "rf_lng (ir_form ?r1) = Some (lng c)" "rf_description (ir_form ?r1) \<noteq> []"
    using assms(3-5) by (simp_all add: report_form_init_def)
  have c: "create_incident (now div 1000) (report_body now (ir_form ?r1) (lat c) (lng c)) (inc_db db) = Inr d'"
    using assms(6) by simp
  have s3: "snd (map_app_step now True tt (ReportEv (IrSubmit now)) (ma\<lparr>ma_report := Some ?r1\<rparr>, db)) = db\<lparr>inc_db := d'\<rparr>"
    using handle_submit_report_stored[OF h c, of "Some c"] assms(2)
    by (simp add: map_app_step_def ir_step_def split_def)
  obtain x where x: "incidents d' = incidents (inc_db db) @ [x]" "inc_lat x = decimal_round 8 (lat c)"
    "inc_lng x = decimal_round 8 (lng c)" "inc_description x = Some d"
    using create_incident_row[OF assms(6)] by (auto simp: report_body_def)
  show ?thesis using s1 s2 s3 x by auto
qed

lemma map_report_at_user_location_witness:
  "ma_report located_map = None \<and> mc_user_location (ma_map located_map) = Some \<lparr>lat = 31, lng = 75\<rparr> \<and>
   lat \<lparr>lat = 31, lng = 75\<rparr> \<noteq> 0 \<and> lng \<lparr>lat = 31, lng = 75\<rparr> \<noteq> 0 \<and> ''dark lane'' \<noteq> [] \<and>
   (\<exists>d'. create_incident (5 div 1000) (report_body 5 ((report_form_init (Some \<lparr>lat = 31, lng = 75\<rparr>))\<lparr>rf_description := ''dark lane''\<rparr>) 31 75)
           (inc_db (init_db 0)) = Inr d') \<and>
   (\<exists>x. incidents (inc_db (snd (map_app_run [(1, True, [], OpenReport), (2, True, [], ReportEv (IrSetDescription ''dark lane'')),
                                              (5, True, [], ReportEv (IrSubmit 5))] (located_map, init_db 0)))) =
          incidents (inc_db (init_db 0)) @ [x] \<and>
        inc_lat x = decimal_round 8 31 \<and> inc_lng x = decimal_round 8 75 \<and> inc_description x = Some ''dark lane'')"
proof -
  have h: "ma_report located_map = None" "mc_user_location (ma_map located_map) = Some \<lparr>lat = 31, lng = 75\<rparr>"
    "lat \<lparr>lat = 31, lng = 75\<rparr> \<noteq> 0" "lng \<lparr>lat = 31, lng = 75\<rparr> \<noteq> 0" "''dark lane'' \<noteq> []"
    by (simp_all add: located_map_def map_app_init_def)
  have "\<exists>d'. create_incident (5 div 1000) (report_body 5 ((report_form_init (Some \<lparr>lat = 31, lng = 75\<rparr>))\<lparr>rf_description := ''dark lane''\<rparr>) 31 75)
           (inc_db (init_db 0)) = Inr d'"
    by (simp add: create_incident_def report_body_def report_form_init_def string_of_nat_unfold[of 5] varchar_fits_def
                  text_fits_def decimal_fits_def decimal_round_def init_db_def)
  then obtain d' where c: "create_incident (5 div 1000) (report_body 5 ((report_form_init (Some \<lparr>lat = 31, lng = 75\<rparr>))\<lparr>rf_description := ''dark lane''\<rparr>) 31 75)
           (inc_db (init_db 0)) = Inr d'" ..
  have "\<exists>x. incidents (inc_db (snd (map_app_run [(1, True, [], OpenReport), (2, True, [], ReportEv (IrSetDescription ''dark lane'')),
                                              (5, True, [], ReportEv (IrSubmit 5))] (located_map, init_db 0)))) =
          incidents (inc_db (init_db 0)) @ [x] \<and>
        inc_lat x = decimal_round 8 (lat \<lparr>lat = 31, lng = 75\<rparr>) \<and> inc_lng x = decimal_round 8 (lng \<lparr>lat = 31, lng = 75\<rparr>) \<and>
        inc_description x = Some ''dark lane''"
  proof -
    have c': "create_incident (5 div 1000) (report_body 5 ((report_form_init (Some \<lparr>lat = 31, lng = 75\<rparr>))\<lparr>rf_description := ''dark lane''\<rparr>)
                 (lat \<lparr>lat = 31, lng = 75\<rparr>) (lng \<lparr>lat = 31, lng = 75\<rparr>)) (inc_db (init_db 0)) = Inr d'"
      using c by simp
    show ?thesis using map_report_at_user_location[OF h c'] .
  qed
  then show ?thesis using h c by auto
qed

end
