(* ===== verification/Alerts.thy ===== *)
theory Alerts
  imports Js_Strings
begin

text \<open>
  The two alert screens of the client: the panic button of
  \<^verbatim>\<open>src/src/components/PanicAlert.jsx\<close> with its 10-second countdown before the
  automatic dispatch, and the emergency screen of
  \<^verbatim>\<open>src/src/components/EmergencyAlert.jsx\<close> with its running timer. A \<open>Tick\<close> is
  one firing of the one-second \<open>setInterval\<close>, which the effects keep running exactly
  while their condition holds; the effect that logs the dispatch runs when
  \<open>[alertActive, countdown]\<close> change, so it is part of the step that changes them.
\<close>

section \<open>Panic alert\<close>

record iot_device =
  dev_id :: nat
  dev_name :: string
  dev_location :: string
  dev_type :: string
  dev_status :: string
  dev_last_ping :: string

definition initial_iot_devices :: "iot_device list" where
  "initial_iot_devices =
     [\<lparr>dev_id = 1, dev_name = ''Smart Siren Station A'', dev_location = ''Broadway & 42nd St'', dev_type = ''siren'',
       dev_status = ''online'', dev_last_ping = ''2 min ago''\<rparr>,
      \<lparr>dev_id = 2, dev_name = ''Emergency Light Alert B'', dev_location = ''Central Park West'', dev_type = ''light'',
       dev_status = ''online'', dev_last_ping = ''1 min ago''\<rparr>,
      \<lparr>dev_id = 3, dev_name = ''Smart Siren Station C'', dev_location = ''5th Ave & 23rd St'', dev_type = ''siren'',
       dev_status = ''offline'', dev_last_ping = ''15 min ago''\<rparr>,
      \<lparr>dev_id = 4, dev_name = ''Emergency Light Alert D'', dev_location = ''Times Square'', dev_type = ''light'',
       dev_status = ''online'', dev_last_ping = ''30 sec ago''\<rparr>]"

record panic_state =
  pa_active :: bool
  pa_countdown :: int
  pa_devices :: "iot_device list"
  pa_dispatches :: nat
  pa_alerts :: "nat list"

definition panic_init :: panic_state where
  "panic_init = \<lparr>pa_active = False, pa_countdown = 0, pa_devices = initial_iot_devices, pa_dispatches = 0, pa_alerts = []\<rparr>"

datatype panic_event = Activate | CancelAlert | PanicTick | TriggerIoT

text \<open>
  The buttons on screen: the emergency circle while no alert is active; on the alert
  screen the cancel button while the countdown runs, and the sirens button.
\<close>

definition panic_enabled :: "panic_state \<Rightarrow> panic_event \<Rightarrow> bool" where
  "panic_enabled st ev =
     (case ev of
        Activate \<Rightarrow> \<not> pa_active st
      | CancelAlert \<Rightarrow> pa_active st \<and> 0 < pa_countdown st
      | PanicTick \<Rightarrow> True
      | TriggerIoT \<Rightarrow> pa_active st)"

text \<open>\<open>alert(`Triggering ${onlineDevices.length} nearby IoT safety devices!`)\<close>.\<close>

definition online_devices :: "iot_device list \<Rightarrow> iot_device list" where
  "online_devices ds = filter (\<lambda>d. dev_status d = ''online'') ds"

text \<open>
  The effect: when \<open>[alertActive, countdown]\<close> become \<open>(true, 0)\<close> it dispatches the
  alert (\<open>console.log('Alert dispatched ...')\<close>).
\<close>

definition panic_effect :: "panic_state \<Rightarrow> panic_state \<Rightarrow> panic_state" where
  "panic_effect old new =
     (if (pa_active new, pa_countdown new) \<noteq> (pa_active old, pa_countdown old) \<and> pa_active new \<and> pa_countdown new = 0
      then new\<lparr>pa_dispatches := Suc (pa_dispatches new)\<rparr> else new)"

definition panic_step :: "panic_event \<Rightarrow> panic_state \<Rightarrow> panic_state" where
  "panic_step ev st =
     (case ev of
        Activate \<Rightarrow> panic_effect st (st\<lparr>pa_active := True, pa_countdown := 10\<rparr>)
      | CancelAlert \<Rightarrow> panic_effect st (st\<lparr>pa_active := False, pa_countdown := 0\<rparr>)
      | PanicTick \<Rightarrow>
          if pa_active st \<and> 0 < pa_countdown st
          then panic_effect st (st\<lparr>pa_countdown := pa_countdown st - 1\<rparr>) else st
      | TriggerIoT \<Rightarrow> st\<lparr>pa_alerts := pa_alerts st @ [length (online_devices (pa_devices st))]\<rparr>)"

definition panic_run :: "panic_event list \<Rightarrow> panic_state \<Rightarrow> panic_state" where
  "panic_run evs st = fold panic_step evs st"

text \<open>\<open>Math.round(online / total * 100)\<close>: the network coverage in percent (\<open>NaN\<close> without devices).\<close>

definition network_coverage :: "iot_device list \<Rightarrow> int option" where
  "network_coverage ds =
     (if ds = [] then None
      else Some \<lfloor>real (length (online_devices ds)) / real (length ds) * 100 + 1 / 2\<rfloor>)"

text \<open>
  The device panel: the numbers of online and offline devices and one row per device
  (its type's icon, name, location, last ping and status).
\<close>

definition device_panel :: "iot_device list \<Rightarrow> nat \<times> nat \<times> (string \<times> string \<times> string \<times> string \<times> string) list" where
  "device_panel ds =
     (length (filter (\<lambda>d. dev_status d = ''online'') ds), length (filter (\<lambda>d. dev_status d = ''offline'') ds),
      map (\<lambda>d. (if dev_type d = ''siren'' then ''siren'' else ''light'', dev_name d, dev_location d,
                 ''Last ping: '' @ dev_last_ping d, dev_status d)) ds)"

datatype panic_screen = IdleScreen | CountdownScreen nat | DispatchedScreen

definition panic_screen :: "panic_state \<Rightarrow> panic_screen" where
  "panic_screen st =
     (if \<not> pa_active st then IdleScreen
      else if 0 < pa_countdown st then CountdownScreen (nat (pa_countdown st)) else DispatchedScreen)"

section \<open>Emergency alert\<close>

record emergency_state =
  ea_active :: bool
  ea_timer :: nat
  ea_type :: string

definition emergency_init :: emergency_state where
  "emergency_init = \<lparr>ea_active = False, ea_timer = 0, ea_type = []\<rparr>"

definition emergency_types :: "string list" where
  "emergency_types = [''IMMEDIATE DANGER'', ''FEELING UNSAFE'', ''NEED HELP'']"

definition emergency_contacts :: "(string \<times> string) list" where
  "emergency_contacts = [(''Police'', ''100''), (''Women Helpline'', ''181''), (''Emergency Services'', ''108'')]"

datatype emergency_event = StartEmergency string | StopEmergency | EmergencyTick

definition emergency_step :: "emergency_event \<Rightarrow> emergency_state \<Rightarrow> emergency_state" where
  "emergency_step ev st =
     (case ev of
        StartEmergency t \<Rightarrow> st\<lparr>ea_active := True, ea_type := t, ea_timer := 0\<rparr>
      | StopEmergency \<Rightarrow> st\<lparr>ea_active := False, ea_timer := 0, ea_type := []\<rparr>
      | EmergencyTick \<Rightarrow> if ea_active st then st\<lparr>ea_timer := Suc (ea_timer st)\<rparr> else st)"

text \<open>\<open>n.toString().padStart(2, '0')\<close>.\<close>

definition pad2 :: "nat \<Rightarrow> string" where
  "pad2 n = (let s = string_of_nat n in replicate (2 - length s) (CHR ''0'') @ s)"

text \<open>\<open>formatTime(seconds)\<close>: minutes and seconds, each padded to two digits.\<close>

definition format_time :: "nat \<Rightarrow> string" where
  "format_time secs = pad2 (secs div 60) @ CHR '':'' # pad2 (secs mod 60)"

text \<open>The buttons of the emergency screen: the three alert types while no emergency is active, the stop button while one is.\<close>

definition emergency_enabled :: "emergency_state \<Rightarrow> emergency_event \<Rightarrow> bool" where
  "emergency_enabled st ev =
     (case ev of
        StartEmergency t \<Rightarrow> \<not> ea_active st \<and> t \<in> set emergency_types
      | StopEmergency \<Rightarrow> ea_active st
      | EmergencyTick \<Rightarrow> True)"

text \<open>\<open>window.open(`tel:${contact.number}`)\<close>.\<close>

definition contact_link :: "string \<Rightarrow> string" where
  "contact_link number = ''tel:'' @ number"

text \<open>
  Reading the \<open>mm:ss\<close> display back: the digits before the colon are minutes, the
  digits after it seconds. This reader is the reference the display is compared with.
\<close>

definition read_clock :: "string \<Rightarrow> nat option" where
  "read_clock s =
     (let m = takeWhile (\<lambda>c. c \<noteq> CHR '':'') s; r = dropWhile (\<lambda>c. c \<noteq> CHR '':'') s in
      case r of
        [] \<Rightarrow> None
      | _ # sec \<Rightarrow> if m \<noteq> [] \<and> sec \<noteq> [] \<and> list_all is_digit m \<and> list_all is_digit sec
                  then Some (digits_value m * 60 + digits_value sec) else None)"

section \<open>Lemmas\<close>

lemma panic_ticks:
  "pa_active st \<Longrightarrow> 0 \<le> pa_countdown st \<Longrightarrow>
   panic_run (replicate n PanicTick) st =
     st\<lparr>pa_countdown := max 0 (pa_countdown st - int n),
        pa_dispatches := pa_dispatches st + (if 0 < pa_countdown st \<and> pa_countdown st \<le> int n then 1 else 0)\<rparr>"
proof (induction n arbitrary: st)
  case 0 then show ?case by (auto simp: panic_run_def)
next
  case (Suc n)
  show ?case
  proof (cases "pa_countdown st = 0")
    case True
    have "panic_step PanicTick st = st" using True by (simp add: panic_step_def)
    moreover have "panic_run (replicate n PanicTick) st = st" using Suc.IH[OF Suc.prems] True by simp
    ultimately show ?thesis using True by (simp add: panic_run_def)
  next
    case False
    let ?st' = "panic_step PanicTick st"
    have pos: "0 < pa_countdown st" using False Suc.prems(2) by simp
    have st': "?st' = st\<lparr>pa_countdown := pa_countdown st - 1,
                          pa_dispatches := pa_dispatches st + (if pa_countdown st = 1 then 1 else 0)\<rparr>"
      using pos \<open>pa_active st\<close> by (simp add: panic_step_def panic_effect_def)
    have "panic_run (replicate (Suc n) PanicTick) st = panic_run (replicate n PanicTick) ?st'"
      by (simp add: panic_run_def)
    also have "\<dots> = ?st'\<lparr>pa_countdown := max 0 (pa_countdown ?st' - int n),
        pa_dispatches := pa_dispatches ?st' + (if 0 < pa_countdown ?st' \<and> pa_countdown ?st' \<le> int n then 1 else 0)\<rparr>"
      using Suc.IH[of ?st'] \<open>pa_active st\<close> st' pos by simp
    finally show ?thesis using st' pos by auto
  qed
qed

lemma panic_inactive_ticks: "\<not> pa_active st \<Longrightarrow> panic_run (replicate n PanicTick) st = st"
  by (induction n) (simp_all add: panic_run_def panic_step_def)

lemma panic_step_range:
  "0 \<le> pa_countdown st \<and> pa_countdown st \<le> 10 \<Longrightarrow>
   0 \<le> pa_countdown (panic_step ev st) \<and> pa_countdown (panic_step ev st) \<le> 10"
  by (cases ev) (auto simp: panic_step_def panic_effect_def)

lemma panic_countdown_range: "0 \<le> pa_countdown (panic_run evs panic_init) \<and> pa_countdown (panic_run evs panic_init) \<le> 10"
proof -
  have "0 \<le> pa_countdown st \<and> pa_countdown st \<le> 10 \<Longrightarrow>
        0 \<le> pa_countdown (fold panic_step evs st) \<and> pa_countdown (fold panic_step evs st) \<le> 10" for st
    by (induction evs arbitrary: st) (simp_all add: panic_step_range)
  then show ?thesis by (simp add: panic_run_def panic_init_def)
qed

text \<open>
  C40. The panic alert is dispatched once the countdown has run: after the emergency
  circle is pressed, ten seconds without a cancel dispatch the alert exactly once, and
  before that the countdown screen shows the seconds left.
\<close>

lemma panic_dispatch_after_countdown:
  "pa_dispatches (panic_run (Activate # replicate n PanicTick) panic_init) = (if 10 \<le> n then 1 else 0) \<and>
   panic_screen (panic_run (Activate # replicate n PanicTick) panic_init) =
     (if 10 \<le> n then DispatchedScreen else CountdownScreen (10 - n))"
proof -
  have a: "panic_step Activate panic_init = panic_init\<lparr>pa_active := True, pa_countdown := 10\<rparr>"
    by (simp add: panic_step_def panic_effect_def panic_init_def)
  have "panic_run (Activate # replicate n PanicTick) panic_init = panic_run (replicate n PanicTick) (panic_init\<lparr>pa_active := True, pa_countdown := 10\<rparr>)"
    using a by (simp add: panic_run_def)
  moreover have "\<not> 10 \<le> n \<Longrightarrow> nat (10 - int n) = 10 - n" by simp
  ultimately show ?thesis by (simp add: panic_ticks panic_screen_def panic_init_def)
qed

text \<open>
  C35. The countdown interval stops. In every state the panic screen reaches from its
  initial state, whatever its buttons and ticks, the countdown lies between 0 and 10, and
  once as many ticks have passed as it showed, further ticks change nothing: the interval
  runs only while \<open>countdown > 0\<close>, so the state is a fixed point of the tick.
\<close>

theorem panic_countdown_terminates:
  assumes "st = panic_run evs panic_init" and "nat (pa_countdown st) \<le> n"
  shows "0 \<le> pa_countdown st \<and> pa_countdown st \<le> 10 \<and>
         panic_run (replicate n PanicTick) st = panic_run (replicate (nat (pa_countdown st)) PanicTick) st \<and>
         panic_step PanicTick (panic_run (replicate n PanicTick) st) = panic_run (replicate n PanicTick) st"
proof -
  have r: "0 \<le> pa_countdown st \<and> pa_countdown st \<le> 10" using assms(1) panic_countdown_range by simp
  show ?thesis
  proof (cases "pa_active st")
    case True
    then show ?thesis using assms(2) r by (simp add: panic_ticks panic_step_def)
  next
    case False
    then show ?thesis using r by (simp add: panic_inactive_ticks panic_step_def)
  qed
qed

lemma panic_countdown_terminates_witness:
  "panic_run [Activate] panic_init = panic_run [Activate] panic_init \<and>
   nat (pa_countdown (panic_run [Activate] panic_init)) \<le> 12 \<and>
   panic_step PanicTick (panic_run (replicate 12 PanicTick) (panic_run [Activate] panic_init)) =
     panic_run (replicate 12 PanicTick) (panic_run [Activate] panic_init)"
proof -
  have h1: "panic_run [Activate] panic_init = panic_run [Activate] panic_init" by (rule refl)
  have h2: "nat (pa_countdown (panic_run [Activate] panic_init)) \<le> 12"
    by (simp add: panic_run_def panic_step_def panic_effect_def panic_init_def)
  show ?thesis using h1 h2 panic_countdown_terminates[OF h1 h2] by blast
qed

lemma emergency_timer_counts:
  "ea_timer (fold emergency_step (StartEmergency t # replicate n EmergencyTick) st) = n"
proof -
  have "ea_active st' \<Longrightarrow> fold emergency_step (replicate n EmergencyTick) st' = st'\<lparr>ea_timer := ea_timer st' + n\<rparr>" for st'
    by (induction n arbitrary: st') (simp_all add: emergency_step_def)
  then show ?thesis by (simp add: emergency_step_def)
qed

lemma coverage_initial: "network_coverage initial_iot_devices = Some 75"
  by (simp add: network_coverage_def initial_iot_devices_def online_devices_def)

text \<open>
  C39. Once dispatched, the alert screen offers no way back: from the dispatched screen,
  every event it offers (the sirens button and the interval) leaves it on the
  dispatched screen.
\<close>

lemma dispatched_screen_absorbing:
  "panic_screen st = DispatchedScreen \<Longrightarrow> panic_enabled st ev \<Longrightarrow> panic_screen (panic_step ev st) = DispatchedScreen"
  by (cases ev) (simp_all add: panic_screen_def panic_enabled_def panic_step_def panic_effect_def split: if_splits)

lemma dispatched_screen_absorbing_witness:
  "panic_screen (panic_init\<lparr>pa_active := True, pa_countdown := 0\<rparr>) = DispatchedScreen \<and>
   panic_enabled (panic_init\<lparr>pa_active := True, pa_countdown := 0\<rparr>) TriggerIoT \<and>
   panic_screen (panic_step TriggerIoT (panic_init\<lparr>pa_active := True, pa_countdown := 0\<rparr>)) = DispatchedScreen"
proof -
  have h1: "panic_screen (panic_init\<lparr>pa_active := True, pa_countdown := 0\<rparr>) = DispatchedScreen"
    by (simp add: panic_screen_def)
  have h2: "panic_enabled (panic_init\<lparr>pa_active := True, pa_countdown := 0\<rparr>) TriggerIoT"
    by (simp add: panic_enabled_def)
  show ?thesis using h1 h2 dispatched_screen_absorbing[OF h1 h2] by blast
qed

lemma digits_value_zeros: "digits_value (replicate k (CHR ''0'') @ s) = digits_value s"
proof -
  have "foldl (\<lambda>acc c. 10 * acc + digit_value c) 0 (replicate k (CHR ''0'')) = 0"
    by (induction k) (simp_all add: digit_value_def)
  then show ?thesis by (simp add: digits_value_def)
qed

lemma pad2_digits: "pad2 k \<noteq> [] \<and> list_all is_digit (pad2 k) \<and> digits_value (pad2 k) = k"
  using string_of_nat_digits[of k] string_of_nat_ne[of k]
  by (auto simp: pad2_def Let_def digits_value_zeros is_digit_def list_all_iff set_replicate_conv_if)

lemma colon_not_digit: "list_all is_digit s \<Longrightarrow> CHR '':'' \<notin> set s"
  by (auto simp: list_all_iff is_digit_def)

text \<open>
  C36. The emergency timer's display reads back as the elapsed seconds. For every number
  of seconds, \<open>formatTime\<close> prints two-digit padded minutes, a colon and two-digit
  padded seconds, and reading that text back gives the number again, also for an hour
  or more, where the minutes take three digits.
\<close>

theorem format_time_roundtrip: "read_clock (format_time n) = Some n"
proof -
  have nc: "\<forall>x\<in>set (pad2 (n div 60)). x \<noteq> CHR '':''"
    using colon_not_digit pad2_digits by blast
  have m: "takeWhile (\<lambda>c. c \<noteq> CHR '':'') (format_time n) = pad2 (n div 60)"
   and r: "dropWhile (\<lambda>c. c \<noteq> CHR '':'') (format_time n) = CHR '':'' # pad2 (n mod 60)"
    using nc by (simp_all add: format_time_def)
  show ?thesis using pad2_digits[of "n div 60"] pad2_digits[of "n mod 60"]
    by (simp add: read_clock_def m r)
qed

end
